theory Spec2Isabelle
  imports Complex_Main "HOL-Library.Sublist"
begin

section \<open>JavaScript numbers\<close>

text \<open>
  A JavaScript number is an IEEE double. The model keeps the three special values the
  code branches on (\<open>NaN\<close>, \<open>Infinity\<close>, \<open>-Infinity\<close>) and takes every finite double
  as the real number it denotes; the two zeros are one value, read as \<open>+0\<close> when it
  divides. The operations \<open>js_add\<close>, \<open>js_mul\<close> and \<open>js_div\<close> are exact on finite numbers (no
  rounding, no overflow to infinity); \<open>ieee_mul\<close> and \<open>ieee_div\<close> round the exact result to
  the nearest double as the machine does, and are used for the share count and the current
  value of a ledger trade, which are compared for equality below.
\<close>

datatype jsnum = Fin real | PInf | NInf | NaN

fun js_neg :: "jsnum \<Rightarrow> jsnum" where
  "js_neg (Fin a) = Fin (- a)"
| "js_neg PInf = NInf"
| "js_neg NInf = PInf"
| "js_neg NaN = NaN"

fun js_add :: "jsnum \<Rightarrow> jsnum \<Rightarrow> jsnum" where
  "js_add NaN _ = NaN"
| "js_add _ NaN = NaN"
| "js_add (Fin a) (Fin b) = Fin (a + b)"
| "js_add PInf NInf = NaN"
| "js_add NInf PInf = NaN"
| "js_add PInf _ = PInf"
| "js_add NInf _ = NInf"
| "js_add (Fin a) PInf = PInf"
| "js_add (Fin a) NInf = NInf"

definition js_sub :: "jsnum \<Rightarrow> jsnum \<Rightarrow> jsnum" where
  "js_sub a b = js_add a (js_neg b)"

text \<open>The sign of a non-NaN number: \<open>-1\<close>, \<open>0\<close> or \<open>1\<close>.\<close>

fun js_sign :: "jsnum \<Rightarrow> int" where
  "js_sign (Fin a) = (if a < 0 then - 1 else if a = 0 then 0 else 1)"
| "js_sign PInf = 1"
| "js_sign NInf = - 1"
| "js_sign NaN = 0"

definition js_inf_of_sign :: "int \<Rightarrow> jsnum" where
  "js_inf_of_sign s = (if s < 0 then NInf else PInf)"

fun js_mul :: "jsnum \<Rightarrow> jsnum \<Rightarrow> jsnum" where
  "js_mul NaN _ = NaN"
| "js_mul _ NaN = NaN"
| "js_mul (Fin a) (Fin b) = Fin (a * b)"
| "js_mul a b = (if js_sign a * js_sign b = 0 then NaN else js_inf_of_sign (js_sign a * js_sign b))"

fun js_div :: "jsnum \<Rightarrow> jsnum \<Rightarrow> jsnum" where
  "js_div NaN _ = NaN"
| "js_div _ NaN = NaN"
| "js_div (Fin a) (Fin b) =
     (if b = 0 then (if a = 0 then NaN else if 0 < a then PInf else NInf) else Fin (a / b))"
| "js_div (Fin a) _ = Fin 0"
| "js_div a (Fin b) = js_inf_of_sign (js_sign a * (if b < 0 then - 1 else 1))"
| "js_div _ _ = NaN"

text \<open>The relational operators: every comparison with \<open>NaN\<close> is false.\<close>

fun js_lt :: "jsnum \<Rightarrow> jsnum \<Rightarrow> bool" where
  "js_lt NaN _ = False"
| "js_lt _ NaN = False"
| "js_lt (Fin a) (Fin b) = (a < b)"
| "js_lt NInf NInf = False"
| "js_lt NInf _ = True"
| "js_lt _ NInf = False"
| "js_lt PInf _ = False"
| "js_lt (Fin a) PInf = True"

fun js_le :: "jsnum \<Rightarrow> jsnum \<Rightarrow> bool" where
  "js_le NaN _ = False"
| "js_le _ NaN = False"
| "js_le a b = (a = b \<or> js_lt a b)"

definition js_gt :: "jsnum \<Rightarrow> jsnum \<Rightarrow> bool" where
  "js_gt a b = js_lt b a"

definition js_ge :: "jsnum \<Rightarrow> jsnum \<Rightarrow> bool" where
  "js_ge a b = js_le b a"

fun js_isNaN :: "jsnum \<Rightarrow> bool" where
  "js_isNaN NaN = True"
| "js_isNaN _ = False"

fun js_floor :: "jsnum \<Rightarrow> jsnum" where
  "js_floor (Fin a) = Fin (of_int \<lfloor>a\<rfloor>)"
| "js_floor a = a"

fun js_abs :: "jsnum \<Rightarrow> jsnum" where
  "js_abs (Fin a) = Fin \<bar>a\<bar>"
| "js_abs NaN = NaN"
| "js_abs _ = PInf"

text \<open>\<open>Math.max\<close> of two numbers: \<open>NaN\<close> when either is.\<close>

definition js_max :: "jsnum \<Rightarrow> jsnum \<Rightarrow> jsnum" where
  "js_max a b = (if js_isNaN a \<or> js_isNaN b then NaN else if js_lt a b then b else a)"

text \<open>Truthiness of a number: \<open>0\<close> and \<open>NaN\<close> are falsy.\<close>

fun js_truthy :: "jsnum \<Rightarrow> bool" where
  "js_truthy (Fin a) = (a \<noteq> 0)"
| "js_truthy NaN = False"
| "js_truthy _ = True"

text \<open>
  Rounding to the nearest double, ties to even. \<open>ilog2 n x\<close> is the binary exponent
  \<open>floor (log2 x)\<close> of a positive \<open>x\<close>, found in at most \<open>n\<close> halvings or doublings; a double
  has 53 significant bits, so its last place at exponent \<open>e\<close> is worth \<open>2 ^ (e - 52)\<close>, and
  \<open>2 ^ - 1074\<close> below the normal range (exponent \<open>- 1022\<close>). A result that rounds to a
  magnitude of \<open>2 ^ 1024\<close> (an exponent above 1023, or \<open>2 ^ 53\<close> units in the last place at
  exponent 1023) is an infinity.
\<close>

fun ilog2 :: "nat \<Rightarrow> real \<Rightarrow> int" where
  "ilog2 0 x = 0"
| "ilog2 (Suc n) x =
     (if 2 \<le> x then ilog2 n (x / 2) + 1 else if x < 1 then ilog2 n (2 * x) - 1 else 0)"

definition pow2 :: "int \<Rightarrow> real" where
  "pow2 k = (if 0 \<le> k then 2 ^ nat k else 1 / 2 ^ nat (- k))"

definition roundHalfEven :: "real \<Rightarrow> int" where
  "roundHalfEven x =
     (let f = \<lfloor>x\<rfloor>; d = x - of_int f
      in if d < 1 / 2 then f else if 1 / 2 < d then f + 1 else if even f then f else f + 1)"

definition roundDouble :: "real \<Rightarrow> jsnum" where
  "roundDouble x =
     (if x = 0 then Fin 0
      else (let e = max (ilog2 2200 \<bar>x\<bar>) (- 1022);
                ulp = pow2 (e - 52);
                n = roundHalfEven (x / ulp)
            in if 1023 < e \<or> (e = 1023 \<and> \<bar>n\<bar> = 2 ^ 53)
               then (if 0 < x then PInf else NInf)
               else Fin (of_int n * ulp)))"

definition ieee_mul :: "jsnum \<Rightarrow> jsnum \<Rightarrow> jsnum" where
  "ieee_mul a b = (case js_mul a b of Fin x \<Rightarrow> roundDouble x | v \<Rightarrow> v)"

definition ieee_div :: "jsnum \<Rightarrow> jsnum \<Rightarrow> jsnum" where
  "ieee_div a b = (case js_div a b of Fin x \<Rightarrow> roundDouble x | v \<Rightarrow> v)"

text \<open>
  A value read where a number is expected but need not be there: an array element past
  the end or a missing property reads as \<open>undefined\<close>, JSON carries \<open>null\<close>.
  \<open>toNumber\<close> is the conversion the arithmetic and relational operators apply.
\<close>

datatype jsval = Undefined | Null | Number jsnum

fun toNumber :: "jsval \<Rightarrow> jsnum" where
  "toNumber Undefined = NaN"
| "toNumber Null = Fin 0"
| "toNumber (Number a) = a"

text \<open>\<open>xs[i]\<close> on an array of numbers: \<open>undefined\<close> past the end.\<close>

definition js_index :: "jsval list \<Rightarrow> nat \<Rightarrow> jsval" where
  "js_index xs i = (if i < length xs then xs ! i else Undefined)"

section \<open>Dates\<close>

text \<open>
  A \<open>Date\<close> is its time value: milliseconds since the epoch, or \<open>NaN\<close> for an invalid
  date. A date string stands for the time value \<open>new Date\<close> parses it to. Calendar
  fields are read in the host's local time zone, which is a parameter of the model: the
  function \<open>LocalTZA\<close> of ECMAScript, giving the zone's offset from UTC in milliseconds
  at a time value (second argument \<open>True\<close>) or at a local time (\<open>False\<close>). Days are
  counted by the day-number arithmetic of ECMAScript's \<open>MakeDay\<close>.
\<close>

type_synonym localTZA = "int \<Rightarrow> bool \<Rightarrow> int"

text \<open>Two hosts: one on UTC, one on a fixed offset from it.\<close>

definition utc :: localTZA where
  "utc t isUTC = 0"

definition fixedZone :: "int \<Rightarrow> localTZA" where
  "fixedZone offset t isUTC = offset"

definition msPerDay :: int where
  "msPerDay = 24 * 60 * 60 * 1000"

text \<open>Day number of the civil date \<open>y\<close>-\<open>m\<close>-\<open>d\<close> (\<open>m\<close> from 1), and back.\<close>

definition days_from_civil :: "int \<Rightarrow> int \<Rightarrow> int \<Rightarrow> int" where
  "days_from_civil y m d =
     (let y' = (if m \<le> 2 then y - 1 else y);
          era = y' div 400;
          yoe = y' - era * 400;
          doy = (153 * (if 2 < m then m - 3 else m + 9) + 2) div 5 + d - 1;
          doe = yoe * 365 + yoe div 4 - yoe div 100 + doy
      in era * 146097 + doe - 719468)"

definition civil_from_days :: "int \<Rightarrow> int \<times> int \<times> int" where
  "civil_from_days z =
     (let z' = z + 719468;
          era = z' div 146097;
          doe = z' - era * 146097;
          yoe = (doe - doe div 1460 + doe div 36524 - doe div 146096) div 365;
          doy = doe - (365 * yoe + yoe div 4 - yoe div 100);
          mp = (5 * doy + 2) div 153;
          d = doy - (153 * mp + 2) div 5 + 1;
          m = (if mp < 10 then mp + 3 else mp - 9);
          y = yoe + era * 400
      in (if m \<le> 2 then y + 1 else y, m, d))"

text \<open>\<open>TimeClip\<close>: a time value more than \<open>8.64e15\<close> ms from the epoch is invalid.\<close>

definition timeClip :: "int \<Rightarrow> jsnum" where
  "timeClip v = (if 8640000000000000 < \<bar>v\<bar> then NaN else Fin (of_int v))"

text \<open>\<open>d.setMonth(d.getMonth() + k)\<close>: the month and the day of the month are those of
  the local time \<open>t + LocalTZA(t, true)\<close>; a month past December carries into the year, a
  day past the end of the month carries into the next month; the result is the local
  time taken back to UTC, \<open>v - LocalTZA(v, false)\<close>.\<close>

definition setMonthPlus :: "localTZA \<Rightarrow> int \<Rightarrow> jsnum \<Rightarrow> jsnum" where
  "setMonthPlus tz k t =
     (case t of
        Fin r \<Rightarrow>
          (let ms = \<lfloor>r\<rfloor>;
               localTime = ms + tz ms True;
               day = localTime div msPerDay;
               timeInDay = localTime mod msPerDay;
               (y, m, d) = civil_from_days day;
               mo = (m - 1) + k;
               newDay = days_from_civil (y + mo div 12) (mo mod 12 + 1) 1 + d - 1;
               newDate = newDay * msPerDay + timeInDay
           in timeClip (newDate - tz newDate False))
      | _ \<Rightarrow> NaN)"

section \<open>Backtest engine\<close>

record sim_trade =
  bt_entryDate :: jsnum
  bt_entryPrice :: jsnum
  bt_currentPrice :: jsnum
  bt_entryDTI :: jsnum
  bt_entry7DayDTI :: jsval
  bt_currentPlPercent :: jsnum
  bt_holdingDays :: jsnum
  bt_signalDate :: jsnum
  bt_exitDate :: "jsnum option"
  bt_exitPrice :: "jsnum option"
  bt_plPercent :: "jsnum option"
  bt_exitReason :: "string option"

record period =
  startIndex :: int
  endIndex :: int

record sevenDayDTIData =
  daily7DayDTI :: "jsval list"
  sevenDayData :: "period list"
  sevenDayDTI :: "jsval list"

text \<open>
  The page's input elements. Each field is the number \<open>parseFloat\<close> reads from the
  element's text (\<open>NaN\<close> when the text does not start with a number); the texts are plain
  decimal numerals, so \<open>parseInt\<close> of the same text is that number cut to its integer
  part. \<open>in_enableWeekly\<close> is the state of the \<open>enable-weekly-dti\<close> checkbox.
\<close>

record page =
  in_r :: jsnum
  in_s :: jsnum
  in_u :: jsnum
  in_entryThreshold :: jsnum
  in_takeProfit :: jsnum
  in_stopLoss :: jsnum
  in_maxDays :: jsnum
  in_enableWeekly :: bool

fun js_parseInt :: "jsnum \<Rightarrow> jsnum" where
  "js_parseInt (Fin a) = Fin (of_int (if 0 \<le> a then \<lfloor>a\<rfloor> else \<lceil>a\<rceil>))"
| "js_parseInt _ = NaN"

text \<open>The trading parameters as the backtest reads them from the page.\<close>

record params =
  p_entryThreshold :: jsnum
  p_takeProfitPercent :: jsnum
  p_stopLossPercent :: jsnum
  p_maxHoldingDays :: jsnum
  p_enable7DayDTI :: bool

definition readParams :: "page \<Rightarrow> params" where
  "readParams pg =
     \<lparr>p_entryThreshold = in_entryThreshold pg, p_takeProfitPercent = in_takeProfit pg,
      p_stopLossPercent = in_stopLoss pg, p_maxHoldingDays = js_parseInt (in_maxDays pg),
      p_enable7DayDTI = in_enableWeekly pg\<rparr>"

record bt_state =
  completedTrades :: "sim_trade list"
  activeTrade :: "sim_trade option"
  previousTradeCompleted :: bool

text \<open>The inner loop: the first period whose index range holds \<open>i\<close>.\<close>

fun findPeriod :: "period list \<Rightarrow> int \<Rightarrow> nat \<Rightarrow> nat option" where
  "findPeriod [] i p = None"
| "findPeriod (x # xs) i p =
     (if startIndex x \<le> i \<and> i \<le> endIndex x then Some p else findPeriod xs i (Suc p))"

definition previous7DayDTI :: "sevenDayDTIData \<Rightarrow> nat \<Rightarrow> jsval" where
  "previous7DayDTI w i =
     (case findPeriod (sevenDayData w) (int i) 0 of
        None \<Rightarrow> Null
      | Some p \<Rightarrow> (if 0 < p then js_index (sevenDayDTI w) (p - 1) else Null))"

definition closeSim :: "sim_trade \<Rightarrow> jsnum \<Rightarrow> jsnum \<Rightarrow> jsnum \<Rightarrow> string \<Rightarrow> sim_trade" where
  "closeSim t currentDate currentPrice plPercent reason =
     t\<lparr>bt_exitDate := Some currentDate, bt_exitPrice := Some currentPrice,
       bt_plPercent := Some plPercent, bt_exitReason := Some reason\<rparr>"

definition exitStep :: "params \<Rightarrow> jsnum \<Rightarrow> jsnum \<Rightarrow> sim_trade \<Rightarrow> bt_state \<Rightarrow> bt_state" where
  "exitStep ps currentDate currentPrice a st =
     (let holdingDays = js_floor (js_div (js_sub currentDate (bt_entryDate a)) (Fin (of_int msPerDay)));
          plPercent = js_mul (js_div (js_sub currentPrice (bt_entryPrice a)) (bt_entryPrice a)) (Fin 100);
          a' = a\<lparr>bt_currentPrice := currentPrice, bt_currentPlPercent := plPercent,
                 bt_holdingDays := holdingDays\<rparr>
      in if js_ge plPercent (p_takeProfitPercent ps) then
           st\<lparr>completedTrades := completedTrades st @ [closeSim a' currentDate currentPrice plPercent ''Take Profit''],
              activeTrade := None, previousTradeCompleted := True\<rparr>
         else if js_le plPercent (js_neg (p_stopLossPercent ps)) then
           st\<lparr>completedTrades := completedTrades st @ [closeSim a' currentDate currentPrice plPercent ''Stop Loss''],
              activeTrade := None, previousTradeCompleted := True\<rparr>
         else if js_ge holdingDays (p_maxHoldingDays ps) then
           st\<lparr>completedTrades := completedTrades st @ [closeSim a' currentDate currentPrice plPercent ''Time Exit''],
              activeTrade := None, previousTradeCompleted := True\<rparr>
         else st\<lparr>activeTrade := Some a'\<rparr>)"

definition sevenDayConditionMet :: "params \<Rightarrow> jsval \<Rightarrow> jsval \<Rightarrow> bool" where
  "sevenDayConditionMet ps current7DayDTI prev =
     (if p_enable7DayDTI ps \<and> prev \<noteq> Null
      then js_gt (toNumber current7DayDTI) (toNumber prev) else True)"

definition entryCondition ::
  "params \<Rightarrow> jsnum \<Rightarrow> jsnum \<Rightarrow> jsnum \<Rightarrow> jsnum \<Rightarrow> jsval \<Rightarrow> jsval \<Rightarrow> bt_state \<Rightarrow> bool" where
  "entryCondition ps earliestAllowableDate currentDate currentDTI previousDTI current7DayDTI prev st =
     (js_lt currentDTI (p_entryThreshold ps) \<and>
      js_gt currentDTI previousDTI \<and>
      sevenDayConditionMet ps current7DayDTI prev \<and>
      (length (completedTrades st) = 0 \<or> previousTradeCompleted st) \<and>
      js_ge currentDate earliestAllowableDate)"

definition newSimTrade :: "jsnum \<Rightarrow> jsnum \<Rightarrow> jsnum \<Rightarrow> jsval \<Rightarrow> sim_trade" where
  "newSimTrade currentDate currentPrice currentDTI current7DayDTI =
     \<lparr>bt_entryDate = currentDate, bt_entryPrice = currentPrice, bt_currentPrice = currentPrice,
      bt_entryDTI = currentDTI, bt_entry7DayDTI = current7DayDTI, bt_currentPlPercent = Fin 0,
      bt_holdingDays = Fin 0, bt_signalDate = currentDate,
      bt_exitDate = None, bt_exitPrice = None, bt_plPercent = None, bt_exitReason = None\<rparr>"

text \<open>One pass of the \<open>for\<close> loop, at index \<open>i\<close> (\<open>1 \<le> i < dti.length\<close>; the three
  series have this length, so the reads at \<open>i\<close> and \<open>i - 1\<close> are in range).\<close>

definition bt_step ::
  "params \<Rightarrow> jsnum list \<Rightarrow> jsnum list \<Rightarrow> jsnum list \<Rightarrow> sevenDayDTIData \<Rightarrow> jsnum \<Rightarrow> nat \<Rightarrow> bt_state \<Rightarrow> bt_state" where
  "bt_step ps dates prices dti w earliestAllowableDate i st =
     (let currentDate = dates ! i;
          currentPrice = prices ! i;
          currentDTI = dti ! i;
          previousDTI = dti ! (i - 1);
          current7DayDTI = js_index (daily7DayDTI w) i;
          prev = previous7DayDTI w i
      in case activeTrade st of
           Some a \<Rightarrow> exitStep ps currentDate currentPrice a st
         | None \<Rightarrow>
             (if entryCondition ps earliestAllowableDate currentDate currentDTI previousDTI current7DayDTI prev st
              then st\<lparr>activeTrade := Some (newSimTrade currentDate currentPrice currentDTI current7DayDTI),
                      previousTradeCompleted := False\<rparr>
              else st))"

definition bt_init :: bt_state where
  "bt_init = \<lparr>completedTrades = [], activeTrade = None, previousTradeCompleted = False\<rparr>"

definition firstDateOf :: "jsnum list \<Rightarrow> jsnum" where
  "firstDateOf dates = (case dates of [] \<Rightarrow> NaN | d # _ \<Rightarrow> d)"

text \<open>The end of the warm-up window: the first date with \<open>setMonth (getMonth () + 6)\<close>
  applied, in the time zone \<open>tz\<close> of the host that runs the backtest.\<close>

definition earliestAllowable :: "localTZA \<Rightarrow> jsnum list \<Rightarrow> jsnum" where
  "earliestAllowable tz dates = setMonthPlus tz 6 (firstDateOf dates)"

definition bt_loop ::
  "localTZA \<Rightarrow> params \<Rightarrow> jsnum list \<Rightarrow> jsnum list \<Rightarrow> jsnum list \<Rightarrow> sevenDayDTIData \<Rightarrow> nat \<Rightarrow> bt_state" where
  "bt_loop tz ps dates prices dti w n =
     fold (bt_step ps dates prices dti w (earliestAllowable tz dates)) [1..<n] bt_init"

text \<open>
  What a call leaves behind: the returned object, the message written with
  \<open>console.error\<close> (if any), and the warm-up window stored in
  \<open>DTIBacktester.warmupInfo\<close> (start and end date; \<open>None\<close> when the call does not
  write it). A \<open>null\<close> or \<open>undefined\<close> argument is \<open>None\<close>.
\<close>

record backtest_run =
  ret_completedTrades :: "sim_trade list"
  ret_activeTrade :: "sim_trade option"
  consoleError :: "string option"
  warmupInfo :: "(jsnum \<times> jsnum) option"

definition backtestWithActiveDetection ::
  "localTZA \<Rightarrow> page \<Rightarrow> jsnum list option \<Rightarrow> jsnum list option \<Rightarrow> jsnum list option \<Rightarrow> sevenDayDTIData option
     \<Rightarrow> backtest_run" where
  "backtestWithActiveDetection tz pg datesArg pricesArg dtiArg wArg =
     (case (datesArg, pricesArg, dtiArg, wArg) of
        (Some dates, Some prices, Some dti, Some w) \<Rightarrow>
          (if length dates \<noteq> length prices \<or> length dates \<noteq> length dti then
             \<lparr>ret_completedTrades = [], ret_activeTrade = None,
              consoleError = Some ''Invalid inputs for backtesting'', warmupInfo = None\<rparr>
           else
             (let st = bt_loop tz (readParams pg) dates prices dti w (length dti)
              in \<lparr>ret_completedTrades = completedTrades st, ret_activeTrade = activeTrade st,
                  consoleError = None,
                  warmupInfo = Some (firstDateOf dates, earliestAllowable tz dates)\<rparr>))
      | _ \<Rightarrow>
          \<lparr>ret_completedTrades = [], ret_activeTrade = None,
           consoleError = Some ''Invalid inputs for backtesting'', warmupInfo = None\<rparr>)"

section \<open>Trade ledger\<close>

text \<open>
  A date-valued property: absent, \<open>null\<close>, a date string (carrying the time value it
  parses to; it stands for an ISO date-time string as \<open>JSON.stringify\<close> writes it, which
  is not a numeric literal), or a \<open>Date\<close> object.
\<close>

datatype jsdate = DUndefined | DNull | DateStr jsnum | DateObj jsnum

fun dateNumber :: "jsdate \<Rightarrow> jsnum" where
  "dateNumber DUndefined = NaN"
| "dateNumber DNull = Fin 0"
| "dateNumber (DateStr _) = NaN"
| "dateNumber (DateObj t) = t"

fun newDate :: "jsdate \<Rightarrow> jsdate" where
  "newDate DUndefined = DateObj NaN"
| "newDate DNull = DateObj (Fin 0)"
| "newDate (DateStr t) = DateObj t"
| "newDate (DateObj t) = DateObj t"

fun isDateStr :: "jsdate \<Rightarrow> bool" where
  "isDateStr (DateStr _) = True"
| "isDateStr _ = False"

fun date_truthy :: "jsdate \<Rightarrow> bool" where
  "date_truthy DUndefined = False"
| "date_truthy DNull = False"
| "date_truthy _ = True"

text \<open>A string-valued property is \<open>None\<close> when absent; the empty string is falsy.\<close>

definition str_truthy :: "string option \<Rightarrow> bool" where
  "str_truthy s = (s \<noteq> None \<and> s \<noteq> Some [])"

record trade =
  trade_id :: "string option"
  status :: "string option"
  stockName :: "string option"
  symbol :: "string option"
  entryDate :: jsdate
  entryPrice :: jsval
  currentPrice :: jsval
  investmentAmount :: jsval
  shares :: jsval
  currentValue :: jsval
  stopLossPrice :: jsval
  targetPrice :: jsval
  stopLossPercent :: jsval
  takeProfitPercent :: jsval
  squareOffDate :: jsdate
  holdingDays :: jsval
  currentPLPercent :: jsval
  currentPLValue :: jsval
  currencySymbol :: "string option"
  trade_notes :: "string option"
  exitDate :: jsdate
  exitPrice :: jsval
  exitReason :: "string option"
  plPercent :: jsval
  plValue :: jsval

text \<open>
  What a call reads from outside the module: the time value of \<open>new Date()\<close> (one reading
  per call), the page's \<open>DTIBacktester.currentStockIndex\<close>, and whether
  \<open>localStorage.setItem\<close> succeeds or throws. \<open>generatedId e k\<close> is the \<open>k\<close>-th
  identifier the call builds as \<open>'trade_' + Date.now() + '_' + Math.floor(Math.random() * 1000)\<close>.
\<close>

record env =
  clock :: jsnum
  currentStockIndex :: "string option"
  storageOk :: bool
  generatedId :: "nat \<Rightarrow> string"

record equity_point =
  ep_date :: jsdate
  equity :: jsnum
  equityPercent :: jsnum
  isActive :: bool

record drawdown_point =
  dd_date :: jsdate
  drawdown :: jsnum

text \<open>
  The module's private variables. Trades are objects shared between the three arrays, so
  the arrays hold references into a heap of trade objects; \<open>nextRef\<close> is the next unused
  reference. \<open>persisted\<close> is the array last written to \<open>localStorage\<close>, as it reads back.
\<close>

record ledger =
  heap :: "nat \<Rightarrow> trade"
  nextRef :: nat
  allTrades :: "nat list"
  activeTrades :: "nat list"
  closedTrades :: "nat list"
  equityCurveData :: "equity_point list option"
  drawdownData :: "drawdown_point list option"
  persisted :: "trade list"

text \<open>\<open>Array.prototype.sort\<close> with a comparator: stable; an element moves behind another
  only where the comparator's result is positive. For a comparator that orders the
  elements consistently this is the sorted array.\<close>

fun js_insert :: "('a \<Rightarrow> 'a \<Rightarrow> jsnum) \<Rightarrow> 'a \<Rightarrow> 'a list \<Rightarrow> 'a list" where
  "js_insert cmp x [] = [x]"
| "js_insert cmp x (y # ys) =
     (if js_gt (cmp x y) (Fin 0) then y # js_insert cmp x ys else x # y # ys)"

definition js_sort :: "('a \<Rightarrow> 'a \<Rightarrow> jsnum) \<Rightarrow> 'a list \<Rightarrow> 'a list" where
  "js_sort cmp xs = foldr (js_insert cmp) xs []"

text \<open>\<open>getCurrencySymbol\<close>. The pound and rupee signs are written \<open>GBP\<close> and \<open>INR\<close>.\<close>

definition currencyOfString :: "string \<Rightarrow> string" where
  "currencyOfString market =
     (if market = ''usStocks'' then ''$''
      else if market = ''ftse100'' then ''GBP''
      else if market = ''nifty50'' \<or> market = ''niftyNext50'' \<or> market = ''indices'' then ''INR''
      else if CHR ''.'' \<in> set market then
        (if suffix ''.L'' market then ''GBP''
         else if sublist ''.NS'' market then ''INR''
         else ''INR'')
      else ''$'')"

definition getCurrencySymbol :: "env \<Rightarrow> string option \<Rightarrow> string" where
  "getCurrencySymbol e market =
     (case market of
        Some m \<Rightarrow> currencyOfString m
      | None \<Rightarrow>
          (if str_truthy (currentStockIndex e)
           then currencyOfString (the (currentStockIndex e)) else ''INR''))"

text \<open>\<open>JSON.parse (JSON.stringify t)\<close>: a number that is not finite and an invalid date are
  written as \<open>null\<close>, a valid date as its ISO string.\<close>

fun jsonNumber :: "jsval \<Rightarrow> jsval" where
  "jsonNumber (Number (Fin a)) = Number (Fin a)"
| "jsonNumber (Number _) = Null"
| "jsonNumber v = v"

fun jsonDate :: "jsdate \<Rightarrow> jsdate" where
  "jsonDate (DateObj (Fin a)) = DateStr (Fin a)"
| "jsonDate (DateObj _) = DNull"
| "jsonDate d = d"

definition jsonTrade :: "trade \<Rightarrow> trade" where
  "jsonTrade t =
     t\<lparr>entryDate := jsonDate (entryDate t), squareOffDate := jsonDate (squareOffDate t),
       exitDate := jsonDate (exitDate t),
       entryPrice := jsonNumber (entryPrice t), currentPrice := jsonNumber (currentPrice t),
       investmentAmount := jsonNumber (investmentAmount t), shares := jsonNumber (shares t),
       currentValue := jsonNumber (currentValue t), stopLossPrice := jsonNumber (stopLossPrice t),
       targetPrice := jsonNumber (targetPrice t), stopLossPercent := jsonNumber (stopLossPercent t),
       takeProfitPercent := jsonNumber (takeProfitPercent t), holdingDays := jsonNumber (holdingDays t),
       currentPLPercent := jsonNumber (currentPLPercent t),
       currentPLValue := jsonNumber (currentPLValue t), exitPrice := jsonNumber (exitPrice t),
       plPercent := jsonNumber (plPercent t), plValue := jsonNumber (plValue t)\<rparr>"

definition saveTradestoStorage :: "env \<Rightarrow> ledger \<Rightarrow> bool \<times> ledger" where
  "saveTradestoStorage e L =
     (if storageOk e
      then (True, L\<lparr>persisted := map (\<lambda>r. jsonTrade (heap L r)) (allTrades L),
                    equityCurveData := None, drawdownData := None\<rparr>)
      else (False, L))"

definition byEntryDateDesc :: "ledger \<Rightarrow> nat \<Rightarrow> nat \<Rightarrow> jsnum" where
  "byEntryDateDesc L a b = js_sub (dateNumber (entryDate (heap L b))) (dateNumber (entryDate (heap L a)))"

definition byExitDateDesc :: "ledger \<Rightarrow> nat \<Rightarrow> nat \<Rightarrow> jsnum" where
  "byExitDateDesc L a b = js_sub (dateNumber (exitDate (heap L b))) (dateNumber (exitDate (heap L a)))"

definition plPercentOf :: "jsval \<Rightarrow> jsval \<Rightarrow> jsval" where
  "plPercentOf price entry =
     Number (js_mul (js_div (js_sub (toNumber price) (toNumber entry)) (toNumber entry)) (Fin 100))"

definition plValueOf :: "jsval \<Rightarrow> jsval \<Rightarrow> jsval \<Rightarrow> jsval" where
  "plValueOf sh price entry =
     Number (js_sub (js_mul (toNumber sh) (toNumber price)) (js_mul (toNumber sh) (toNumber entry)))"

definition closeTradeAutomatically :: "env \<Rightarrow> nat \<Rightarrow> string \<Rightarrow> jsval \<Rightarrow> ledger \<Rightarrow> ledger" where
  "closeTradeAutomatically e r reason exitPrice' L =
     (let t = heap L r;
          t' = t\<lparr>status := Some ''closed'', exitDate := DateObj (clock e), exitPrice := exitPrice',
                 exitReason := Some reason,
                 plPercent := plPercentOf exitPrice' (entryPrice t),
                 plValue := plValueOf (shares t) exitPrice' (entryPrice t)\<rparr>;
          L1 = L\<lparr>heap := (heap L)(r := t')\<rparr>;
          L2 = L1\<lparr>activeTrades := filter (\<lambda>x. trade_id (heap L1 x) \<noteq> trade_id t') (activeTrades L1),
                  closedTrades := closedTrades L1 @ [r]\<rparr>;
          L3 = L2\<lparr>activeTrades := js_sort (byEntryDateDesc L2) (activeTrades L2),
                  closedTrades := js_sort (byExitDateDesc L2) (closedTrades L2)\<rparr>
      in snd (saveTradestoStorage e L3))"

definition updateTradeStatus :: "env \<Rightarrow> nat \<Rightarrow> ledger \<Rightarrow> ledger" where
  "updateTradeStatus e r L =
     (let t = heap L r in
      if status t \<noteq> Some ''active'' then L
      else
        (let cp = currentPrice t;
             t' = t\<lparr>currentPLPercent := plPercentOf cp (entryPrice t),
                    currentPLValue := plValueOf (shares t) cp (entryPrice t),
                    currentValue := Number (ieee_mul (toNumber (shares t)) (toNumber cp)),
                    holdingDays := Number (js_floor (js_div (js_sub (clock e) (dateNumber (entryDate t)))
                                                     (Fin (of_int msPerDay))))\<rparr>;
             L1 = L\<lparr>heap := (heap L)(r := t')\<rparr>
         in if js_le (toNumber cp) (toNumber (stopLossPrice t')) then
              closeTradeAutomatically e r ''Stop Loss Hit'' cp L1
            else if js_ge (toNumber cp) (toNumber (targetPrice t')) then
              closeTradeAutomatically e r ''Target Reached'' cp L1
            else if js_ge (clock e) (dateNumber (squareOffDate t')) then
              closeTradeAutomatically e r ''Time Exit'' cp L1
            else L1))"

text \<open>The argument of \<open>addNewTrade\<close>.\<close>

record tradeData =
  td_stockName :: "string option"
  td_symbol :: "string option"
  td_entryDate :: jsdate
  td_entryPrice :: jsval
  td_investmentAmount :: jsval
  td_stopLossPrice :: jsval
  td_targetPrice :: jsval
  td_stopLossPercent :: jsval
  td_takeProfitPercent :: jsval
  td_squareOffDate :: jsdate
  td_currencySymbol :: "string option"
  td_notes :: "string option"

text \<open>\<open>addNewTrade\<close>. The new object takes the next free reference.\<close>

definition newTradeOf :: "env \<Rightarrow> string \<Rightarrow> tradeData \<Rightarrow> trade" where
  "newTradeOf e tradeId d =
     \<lparr>trade_id = Some tradeId,
      status = Some ''active'',
      stockName = td_stockName d,
      symbol = td_symbol d,
      entryDate = (if date_truthy (td_entryDate d) then td_entryDate d else DateObj (clock e)),
      entryPrice = td_entryPrice d,
      currentPrice = td_entryPrice d,
      investmentAmount = td_investmentAmount d,
      shares = Number (ieee_div (toNumber (td_investmentAmount d)) (toNumber (td_entryPrice d))),
      currentValue = Number (ieee_mul (js_floor (ieee_div (toNumber (td_investmentAmount d))
                                                          (toNumber (td_entryPrice d))))
                                      (toNumber (td_entryPrice d))),
      stopLossPrice = td_stopLossPrice d,
      targetPrice = td_targetPrice d,
      stopLossPercent = td_stopLossPercent d,
      takeProfitPercent = td_takeProfitPercent d,
      squareOffDate = newDate (td_squareOffDate d),
      holdingDays = Number (Fin 0),
      currentPLPercent = Number (Fin 0),
      currentPLValue = Number (Fin 0),
      currencySymbol = Some (if str_truthy (td_currencySymbol d) then the (td_currencySymbol d)
                             else getCurrencySymbol e (td_symbol d)),
      trade_notes = Some (if str_truthy (td_notes d) then the (td_notes d) else []),
      exitDate = DUndefined, exitPrice = Undefined, exitReason = None,
      plPercent = Undefined, plValue = Undefined\<rparr>"

definition addNewTrade :: "env \<Rightarrow> tradeData \<Rightarrow> ledger \<Rightarrow> string option \<times> ledger" where
  "addNewTrade e d L =
     (let tradeId = generatedId e 0;
          r = nextRef L;
          L1 = L\<lparr>heap := (heap L)(r := newTradeOf e tradeId d), nextRef := Suc r,
                  allTrades := allTrades L @ [r], activeTrades := activeTrades L @ [r]\<rparr>;
          L2 = L1\<lparr>activeTrades := js_sort (byEntryDateDesc L1) (activeTrades L1)\<rparr>
      in (Some tradeId, snd (saveTradestoStorage e L2)))"

definition deleteTrade :: "env \<Rightarrow> string option \<Rightarrow> ledger \<Rightarrow> bool \<times> ledger" where
  "deleteTrade e tradeId L =
     (case find (\<lambda>r. trade_id (heap L r) = tradeId) (allTrades L) of
        None \<Rightarrow> (False, L)
      | Some r \<Rightarrow>
          (let L1 = L\<lparr>allTrades := filter (\<lambda>x. trade_id (heap L x) \<noteq> tradeId) (allTrades L)\<rparr>;
               L2 = (if status (heap L r) = Some ''active''
                     then L1\<lparr>activeTrades := filter (\<lambda>x. trade_id (heap L x) \<noteq> tradeId) (activeTrades L1)\<rparr>
                     else L1\<lparr>closedTrades := filter (\<lambda>x. trade_id (heap L x) \<noteq> tradeId) (closedTrades L1)\<rparr>)
           in (True, snd (saveTradestoStorage e L2))))"

definition closeTrade ::
  "env \<Rightarrow> string option \<Rightarrow> jsval \<Rightarrow> string \<Rightarrow> string option \<Rightarrow> ledger \<Rightarrow> bool \<times> ledger" where
  "closeTrade e tradeId exitPrice' reason newNotes L =
     (case find (\<lambda>r. trade_id (heap L r) = tradeId) (activeTrades L) of
        None \<Rightarrow> (False, L)
      | Some r \<Rightarrow>
          (let t = heap L r;
               t' = t\<lparr>status := Some ''closed'', exitDate := DateObj (clock e), exitPrice := exitPrice',
                      exitReason := Some reason,
                      trade_notes := (if str_truthy newNotes then newNotes else trade_notes t),
                      plPercent := plPercentOf exitPrice' (entryPrice t),
                      plValue := plValueOf (shares t) exitPrice' (entryPrice t)\<rparr>;
               L1 = L\<lparr>heap := (heap L)(r := t')\<rparr>;
               L2 = L1\<lparr>activeTrades := filter (\<lambda>x. trade_id (heap L1 x) \<noteq> tradeId) (activeTrades L1),
                       closedTrades := closedTrades L1 @ [r]\<rparr>;
               L3 = L2\<lparr>activeTrades := js_sort (byEntryDateDesc L2) (activeTrades L2),
                       closedTrades := js_sort (byExitDateDesc L2) (closedTrades L2)\<rparr>
           in (True, snd (saveTradestoStorage e L3))))"

definition clearTradeHistory :: "env \<Rightarrow> ledger \<Rightarrow> bool \<times> ledger" where
  "clearTradeHistory e L =
     (let L1 = L\<lparr>allTrades := activeTrades L, closedTrades := [],
                  equityCurveData := None, drawdownData := None\<rparr>
      in (True, snd (saveTradestoStorage e L1)))"

subsection \<open>Export and import\<close>

record export_metadata =
  version :: "string option"
  exportDate :: jsnum
  tradeCount :: nat
  activeCount :: nat
  closedCount :: nat

text \<open>A parsed JSON document: \<open>metadata\<close> is \<open>None\<close> when it is missing or not an object,
  \<open>trades\<close> is \<open>None\<close> when it is not an array.\<close>

record import_data =
  metadata :: "export_metadata option"
  trades :: "trade list option"

definition DATA_VERSION :: string where
  "DATA_VERSION = ''1.0.0''"

definition exportAllTradesJSON :: "env \<Rightarrow> ledger \<Rightarrow> import_data" where
  "exportAllTradesJSON e L =
     \<lparr>metadata = Some \<lparr>version = Some DATA_VERSION, exportDate = clock e,
                        tradeCount = length (allTrades L), activeCount = length (activeTrades L),
                        closedCount = length (closedTrades L)\<rparr>,
      trades = Some (map (\<lambda>r. jsonTrade (heap L r)) (allTrades L))\<rparr>"

text \<open>\<open>validateImportData\<close>; the version check only writes a warning.\<close>

definition validateImportData :: "import_data option \<Rightarrow> bool" where
  "validateImportData data =
     (case data of
        None \<Rightarrow> False
      | Some d \<Rightarrow>
          (case (metadata d, trades d) of
             (Some m, Some ts) \<Rightarrow>
               (case ts of
                  [] \<Rightarrow> False
                | sampleTrade # _ \<Rightarrow>
                    stockName sampleTrade \<noteq> None \<and> symbol sampleTrade \<noteq> None \<and>
                    entryPrice sampleTrade \<noteq> Undefined \<and> status sampleTrade \<noteq> None)
           | _ \<Rightarrow> False))"

text \<open>\<open>parseFloat\<close> of a JSON number or \<open>null\<close>.\<close>

fun parseFloatVal :: "jsval \<Rightarrow> jsnum" where
  "parseFloatVal (Number a) = a"
| "parseFloatVal _ = NaN"

text \<open>One pass of the loop over \<open>numericFields\<close>; \<open>dflt\<close> tells the three fields that
  default to \<open>0\<close>.\<close>

definition fixNumeric :: "bool \<Rightarrow> jsval \<Rightarrow> jsval" where
  "fixNumeric dflt v =
     (if v \<noteq> Undefined then
        (if js_isNaN (parseFloatVal v) then (if dflt then Number (Fin 0) else Number NaN)
         else Number (parseFloatVal v))
      else v)"

definition prepareTrade :: "env \<Rightarrow> trade \<Rightarrow> trade" where
  "prepareTrade e t =
     (let p1 = t\<lparr>entryDate := (if isDateStr (entryDate t) then newDate (entryDate t) else entryDate t),
                 squareOffDate := (if isDateStr (squareOffDate t) then newDate (squareOffDate t)
                                   else squareOffDate t),
                 exitDate := (if date_truthy (exitDate t) \<and> isDateStr (exitDate t)
                              then newDate (exitDate t) else exitDate t)\<rparr>;
          p2 = (if \<not> str_truthy (currencySymbol p1)
                then p1\<lparr>currencySymbol := Some (getCurrencySymbol e (symbol p1))\<rparr> else p1);
          p3 = p2\<lparr>entryPrice := fixNumeric True (entryPrice p2),
                  stopLossPrice := fixNumeric False (stopLossPrice p2),
                  targetPrice := fixNumeric False (targetPrice p2),
                  investmentAmount := fixNumeric True (investmentAmount p2),
                  shares := fixNumeric True (shares p2),
                  currentPrice := fixNumeric False (currentPrice p2),
                  currentValue := fixNumeric False (currentValue p2)\<rparr>
      in if status p3 = Some ''active'' then
           (let p4 = (if \<not> js_truthy (toNumber (currentPrice p3)) \<or> js_isNaN (toNumber (currentPrice p3))
                      then p3\<lparr>currentPrice := entryPrice p3\<rparr> else p3)
            in p4\<lparr>currentValue := Number (ieee_mul (toNumber (shares p4)) (toNumber (currentPrice p4))),
                  currentPLPercent := plPercentOf (currentPrice p4) (entryPrice p4),
                  currentPLValue := plValueOf (shares p4) (currentPrice p4) (entryPrice p4),
                  holdingDays := Number (js_max (Fin 0)
                     (js_floor (js_div (js_sub (clock e) (dateNumber (entryDate p4)))
                                       (Fin (of_int msPerDay)))))\<rparr>)
         else p3)"

record import_results =
  added :: nat
  updated :: nat
  skipped :: nat
  errors :: nat
  total :: nat
  kept :: "nat option"
  error :: "string option"

record import_options =
  mode :: string
  keepActive :: bool

text \<open>A new object on the heap.\<close>

definition alloc :: "trade \<Rightarrow> ledger \<Rightarrow> nat \<times> ledger" where
  "alloc t L = (nextRef L, L\<lparr>heap := (heap L)(nextRef L := t), nextRef := Suc (nextRef L)\<rparr>)"

definition pushTrade :: "trade \<Rightarrow> ledger \<Rightarrow> ledger" where
  "pushTrade t L = (let (r, L1) = alloc t L in L1\<lparr>allTrades := allTrades L1 @ [r]\<rparr>)"

fun findIndex :: "('a \<Rightarrow> bool) \<Rightarrow> 'a list \<Rightarrow> nat option" where
  "findIndex P [] = None"
| "findIndex P (x # xs) = (if P x then Some 0 else map_option Suc (findIndex P xs))"

text \<open>\<open>merge\<close> mode, one imported trade. \<open>existing\<close> are the keys of \<open>existingTradesMap\<close>,
  built before the loop.\<close>

definition mergeStep ::
  "env \<Rightarrow> string option list \<Rightarrow> trade \<Rightarrow> ledger \<times> import_results \<Rightarrow> ledger \<times> import_results" where
  "mergeStep e existing importedTrade acc =
     (let (L, res) = acc;
          processedTrade = prepareTrade e importedTrade
      in if trade_id processedTrade \<in> set existing then
           (case findIndex (\<lambda>r. trade_id (heap L r) = trade_id processedTrade) (allTrades L) of
              Some index \<Rightarrow>
                (let (r, L1) = alloc processedTrade L
                 in (L1\<lparr>allTrades := (allTrades L1)[index := r]\<rparr>, res\<lparr>updated := updated res + 1\<rparr>))
            | None \<Rightarrow> (pushTrade processedTrade L, res\<lparr>added := added res + 1\<rparr>))
         else (pushTrade processedTrade L, res\<lparr>added := added res + 1\<rparr>))"

text \<open>\<open>add\<close> mode, the \<open>k\<close>-th imported trade.\<close>

definition addStep :: "env \<Rightarrow> nat \<times> trade \<Rightarrow> ledger \<times> import_results \<Rightarrow> ledger \<times> import_results" where
  "addStep e kt acc =
     (let (L, res) = acc;
          newTrade = (prepareTrade e (snd kt))\<lparr>trade_id := Some (generatedId e (fst kt))\<rparr>
      in (pushTrade newTrade L, res\<lparr>added := added res + 1\<rparr>))"

text \<open>\<open>replace\<close> mode: an active trade of before comes back unless its identifier was
  imported.\<close>

definition keepStep :: "string option list \<Rightarrow> nat \<Rightarrow> ledger \<times> import_results \<Rightarrow> ledger \<times> import_results" where
  "keepStep importedIds r acc =
     (let (L, res) = acc
      in if trade_id (heap L r) \<notin> set importedIds
         then (L\<lparr>allTrades := allTrades L @ [r]\<rparr>,
               res\<lparr>kept := Some ((case kept res of None \<Rightarrow> 0 | Some k \<Rightarrow> k) + 1)\<rparr>)
         else acc)"

definition importOrder :: "ledger \<Rightarrow> nat \<Rightarrow> nat \<Rightarrow> jsnum" where
  "importOrder L a b =
     (let ta = heap L a; tb = heap L b
      in if status ta = Some ''active'' \<and> status tb \<noteq> Some ''active'' then Fin (- 1)
         else if status ta \<noteq> Some ''active'' \<and> status tb = Some ''active'' then Fin 1
         else if status ta = Some ''active''
           then js_sub (dateNumber (entryDate tb)) (dateNumber (entryDate ta))
           else js_sub (dateNumber (exitDate tb)) (dateNumber (exitDate ta)))"

definition importByMode ::
  "env \<Rightarrow> import_options \<Rightarrow> trade list \<Rightarrow> ledger \<times> import_results \<Rightarrow> ledger \<times> import_results" where
  "importByMode e opts importedTrades acc =
     (let (L, res) = acc
      in if mode opts = ''replace'' then
           (let currentActiveTrades = (if keepActive opts then activeTrades L else []);
                L1 = fold (\<lambda>t. pushTrade (prepareTrade e t)) importedTrades (L\<lparr>allTrades := []\<rparr>);
                importedIds = map (\<lambda>r. trade_id (heap L1 r)) (allTrades L1);
                (L2, res2) = (if keepActive opts \<and> 0 < length currentActiveTrades
                              then fold (keepStep importedIds) currentActiveTrades (L1, res)
                              else (L1, res))
            in (L2, res2\<lparr>added := length importedTrades\<rparr>))
         else if mode opts = ''add'' then
           fold (addStep e) (enumerate 0 importedTrades) (L, res)
         else
           fold (mergeStep e (map (\<lambda>r. trade_id (heap L r)) (allTrades L))) importedTrades (L, res))"

text \<open>\<open>importTradesFromJSON\<close>. The \<open>catch\<close> branch returns the error object and leaves the
  module's variables as they are at the \<open>throw\<close>.\<close>

definition importTradesFromJSON ::
  "env \<Rightarrow> import_data option \<Rightarrow> import_options \<Rightarrow> ledger \<Rightarrow> import_results \<times> ledger" where
  "importTradesFromJSON e jsonData opts L =
     (if \<not> validateImportData jsonData then
        (\<lparr>added = 0, updated = 0, skipped = 0, errors = 1, total = 0, kept = None,
          error = Some ''Invalid import data format''\<rparr>, L)
      else
        (let importedTrades = the (trades (the jsonData));
             results = \<lparr>added = 0, updated = 0, skipped = 0, errors = 0,
                        total = length importedTrades, kept = None, error = None\<rparr>;
             (L1, res1) = importByMode e opts importedTrades (L, results);
             L2 = L1\<lparr>activeTrades := filter (\<lambda>r. status (heap L1 r) = Some ''active'') (allTrades L1),
                     closedTrades := filter (\<lambda>r. status (heap L1 r) \<noteq> Some ''active'') (allTrades L1)\<rparr>;
             L3 = L2\<lparr>allTrades := js_sort (importOrder L2) (allTrades L2)\<rparr>;
             (saved, L4) = saveTradestoStorage e L3
         in if \<not> saved then
              (\<lparr>added = 0, updated = 0, skipped = 0, errors = 1, total = 0, kept = None,
                error = Some ''Failed to save imported trades to storage''\<rparr>, L4)
            else (res1, L4\<lparr>equityCurveData := None, drawdownData := None\<rparr>)))"

section \<open>Analytics\<close>

text \<open>\<open>Math.sqrt\<close> and \<open>Math.pow\<close> (the cases of ECMAScript's \<open>Number::exponentiate\<close>).\<close>

fun js_sqrt :: "jsnum \<Rightarrow> jsnum" where
  "js_sqrt (Fin a) = (if a < 0 then NaN else Fin (sqrt a))"
| "js_sqrt PInf = PInf"
| "js_sqrt _ = NaN"

definition isOddInteger :: "real \<Rightarrow> bool" where
  "isOddInteger x = (of_int \<lfloor>x\<rfloor> = x \<and> odd \<lfloor>x\<rfloor>)"

fun js_pow :: "jsnum \<Rightarrow> jsnum \<Rightarrow> jsnum" where
  "js_pow b NaN = NaN"
| "js_pow b (Fin x) =
     (if x = 0 then Fin 1
      else case b of
        NaN \<Rightarrow> NaN
      | PInf \<Rightarrow> (if 0 < x then PInf else Fin 0)
      | NInf \<Rightarrow> (if 0 < x then (if isOddInteger x then NInf else PInf) else Fin 0)
      | Fin a \<Rightarrow>
          (if a = 0 then (if 0 < x then Fin 0 else PInf)
           else if 0 < a then Fin (a powr x)
           else if of_int \<lfloor>x\<rfloor> = x then Fin (power_int a \<lfloor>x\<rfloor>)
           else NaN))"
| "js_pow b PInf =
     (case b of
        NaN \<Rightarrow> NaN
      | Fin a \<Rightarrow> (if 1 < \<bar>a\<bar> then PInf else if \<bar>a\<bar> = 1 then NaN else Fin 0)
      | _ \<Rightarrow> PInf)"
| "js_pow b NInf =
     (case b of
        NaN \<Rightarrow> NaN
      | Fin a \<Rightarrow> (if 1 < \<bar>a\<bar> then Fin 0 else if \<bar>a\<bar> = 1 then NaN else PInf)
      | _ \<Rightarrow> Fin 0)"

definition dailyReturnRate :: "trade \<Rightarrow> jsnum" where
  "dailyReturnRate t =
     (let holdingDays' = js_max (Fin 1)
            (js_floor (js_div (js_sub (dateNumber (exitDate t)) (dateNumber (entryDate t)))
                              (Fin (of_int msPerDay))))
      in js_mul (js_sub (js_pow (js_add (Fin 1) (js_div (toNumber (plPercent t)) (Fin 100)))
                                (js_div (Fin 1) holdingDays'))
                        (Fin 1))
                (Fin 100))"

definition getSharpeRatio :: "jsnum \<Rightarrow> ledger \<Rightarrow> jsnum" where
  "getSharpeRatio riskFreeRate L =
     (if length (closedTrades L) = 0 then Fin 0
      else
        (let ts = map (heap L) (closedTrades L);
             avgDailyReturn = js_div (foldl (\<lambda>sum t. js_add sum (dailyReturnRate t)) (Fin 0) ts)
                                     (Fin (real (length ts)));
             dailyReturns = map dailyReturnRate ts;
             variance = js_div (foldl (\<lambda>sum dailyReturn.
                                         js_add sum (js_pow (js_sub dailyReturn avgDailyReturn) (Fin 2)))
                                      (Fin 0) dailyReturns)
                               (Fin (real (length dailyReturns)));
             stdDeviation = js_sqrt variance;
             dailyRiskFreeRate = js_mul (js_sub (js_pow (js_add (Fin 1) riskFreeRate)
                                                        (js_div (Fin 1) (Fin 365)))
                                                (Fin 1))
                                        (Fin 100);
             annualizationFactor = js_sqrt (Fin 252);
             sharpeRatio = js_mul (js_div (js_sub avgDailyReturn dailyRiskFreeRate) stdDeviation)
                                  annualizationFactor
         in if js_isNaN sharpeRatio then Fin 0 else sharpeRatio))"

text \<open>The equity curve as \<open>getEquityCurveData\<close> builds it when nothing is cached.\<close>

definition equityClosedStep ::
  "jsnum \<Rightarrow> trade \<Rightarrow> jsnum \<times> equity_point list \<Rightarrow> jsnum \<times> equity_point list" where
  "equityClosedStep initialInvestment t acc =
     (let runningTotal = js_add (fst acc) (toNumber (plValue t))
      in (runningTotal,
          snd acc @ [\<lparr>ep_date = exitDate t, equity = runningTotal,
                      equityPercent = js_mul (js_div runningTotal initialInvestment) (Fin 100),
                      isActive = False\<rparr>]))"

definition equityActiveStep ::
  "env \<Rightarrow> jsnum \<Rightarrow> trade \<Rightarrow> jsnum \<times> equity_point list \<Rightarrow> jsnum \<times> equity_point list" where
  "equityActiveStep e initialInvestment t acc =
     (let runningTotal = js_add (fst acc) (toNumber (currentPLValue t))
      in (runningTotal,
          snd acc @ [\<lparr>ep_date = DateObj (clock e), equity = runningTotal,
                      equityPercent = js_mul (js_div runningTotal initialInvestment) (Fin 100),
                      isActive = True\<rparr>]))"

definition computeEquityCurve :: "env \<Rightarrow> ledger \<Rightarrow> equity_point list" where
  "computeEquityCurve e L =
     (let sortedTrades = map (heap L)
            (js_sort (\<lambda>a b. js_sub (dateNumber (exitDate (heap L a))) (dateNumber (exitDate (heap L b))))
                     (closedTrades L));
          start = [\<lparr>ep_date = entryDate (hd sortedTrades), equity = Fin 0, equityPercent = Fin 0,
                    isActive = False\<rparr>];
          initialInvestment = foldl (\<lambda>sum t. js_add sum (toNumber (investmentAmount t))) (Fin 0)
                                    (map (heap L) (closedTrades L));
          acc1 = fold (equityClosedStep initialInvestment) sortedTrades (Fin 0, start);
          sortedActiveTrades = map (heap L)
            (js_sort (\<lambda>a b. js_sub (dateNumber (entryDate (heap L a))) (dateNumber (entryDate (heap L b))))
                     (activeTrades L));
          acc2 = (if 0 < length (activeTrades L)
                  then fold (equityActiveStep e initialInvestment) sortedActiveTrades acc1 else acc1)
      in snd acc2)"

definition getEquityCurveData :: "env \<Rightarrow> ledger \<Rightarrow> equity_point list \<times> ledger" where
  "getEquityCurveData e L =
     (case equityCurveData L of
        Some cached \<Rightarrow> (cached, L)
      | None \<Rightarrow>
          (if length (closedTrades L) = 0 then ([], L)
           else (let equityCurve = computeEquityCurve e L
                 in (equityCurve, L\<lparr>equityCurveData := Some equityCurve\<rparr>))))"

definition drawdownStep :: "equity_point \<Rightarrow> jsnum \<times> drawdown_point list \<Rightarrow> jsnum \<times> drawdown_point list" where
  "drawdownStep point acc =
     (let peak = fst acc
      in if js_gt (equity point) peak
         then (equity point, snd acc @ [\<lparr>dd_date = ep_date point, drawdown = Fin 0\<rparr>])
         else (peak, snd acc @ [\<lparr>dd_date = ep_date point,
                 drawdown = (if peak \<noteq> Fin 0
                             then js_mul (js_div (js_sub peak (equity point)) peak) (Fin 100)
                             else Fin 0)\<rparr>]))"

definition getDrawdownChartData :: "env \<Rightarrow> ledger \<Rightarrow> drawdown_point list \<times> ledger" where
  "getDrawdownChartData e L =
     (case drawdownData L of
        Some cached \<Rightarrow> (cached, L)
      | None \<Rightarrow>
          (if length (closedTrades L) = 0 then ([], L)
           else (let (equityCurve, L1) = getEquityCurveData e L;
                     drawdownSeries = snd (fold drawdownStep equityCurve (Fin 0, []))
                 in (drawdownSeries, L1\<lparr>drawdownData := Some drawdownSeries\<rparr>))))"

section \<open>Performance metrics and the parameter optimizer\<close>

record metrics =
  totalTrades :: nat
  winningTrades :: nat
  losingTrades :: nat
  winRate :: jsnum
  avgProfit :: jsnum
  totalReturn :: jsnum
  profitFactor :: jsnum
  maxDrawdown :: jsnum
  avgHoldingPeriod :: jsnum
  takeProfitCount :: nat
  stopLossCount :: nat
  timeExitCount :: nat
  endOfDataCount :: nat
  equityCurve :: "jsnum list option"

text \<open>The variables the \<open>forEach\<close> of \<open>calculatePerformanceMetrics\<close> updates.\<close>

record metrics_acc =
  m_winningTrades :: nat
  m_losingTrades :: nat
  m_totalProfit :: jsnum
  m_grossProfit :: jsnum
  m_grossLoss :: jsnum
  m_totalHoldingDays :: jsnum
  m_takeProfitCount :: nat
  m_stopLossCount :: nat
  m_timeExitCount :: nat
  m_endOfDataCount :: nat
  m_peak :: jsnum
  m_drawdown :: jsnum
  m_maxDrawdown :: jsnum
  m_equityCurve :: "jsnum list"

definition optNumber :: "jsnum option \<Rightarrow> jsnum" where
  "optNumber v = (case v of None \<Rightarrow> NaN | Some a \<Rightarrow> a)"

definition metricsStep :: "sim_trade \<Rightarrow> metrics_acc \<Rightarrow> metrics_acc" where
  "metricsStep t a =
     (let pl = optNumber (bt_plPercent t);
          a1 = (if js_gt pl (Fin 0)
                then a\<lparr>m_winningTrades := m_winningTrades a + 1,
                       m_grossProfit := js_add (m_grossProfit a) pl\<rparr>
                else a\<lparr>m_losingTrades := m_losingTrades a + 1,
                       m_grossLoss := js_add (m_grossLoss a) (js_abs pl)\<rparr>);
          a2 = a1\<lparr>m_totalProfit := js_add (m_totalProfit a1) pl\<rparr>;
          equityChange = js_mul (last (m_equityCurve a2)) (js_add (Fin 1) (js_div pl (Fin 100)));
          a3 = a2\<lparr>m_equityCurve := m_equityCurve a2 @ [equityChange]\<rparr>;
          a4 = (if js_gt equityChange (m_peak a3) then a3\<lparr>m_peak := equityChange\<rparr> else a3);
          a5 = (if js_gt (m_peak a4) (Fin 0)
                then (let dd = js_mul (js_div (js_sub (m_peak a4) equityChange) (m_peak a4)) (Fin 100)
                      in a4\<lparr>m_drawdown := dd, m_maxDrawdown := js_max (m_maxDrawdown a4) dd\<rparr>)
                else a4);
          holdingDays' = js_floor (js_div (js_sub (optNumber (bt_exitDate t)) (bt_entryDate t))
                                          (Fin (of_int msPerDay)));
          a6 = a5\<lparr>m_totalHoldingDays := js_add (m_totalHoldingDays a5) holdingDays'\<rparr>
      in if bt_exitReason t = Some ''Take Profit'' then a6\<lparr>m_takeProfitCount := m_takeProfitCount a6 + 1\<rparr>
         else if bt_exitReason t = Some ''Stop Loss'' then a6\<lparr>m_stopLossCount := m_stopLossCount a6 + 1\<rparr>
         else if bt_exitReason t = Some ''Time Exit'' then a6\<lparr>m_timeExitCount := m_timeExitCount a6 + 1\<rparr>
         else if bt_exitReason t = Some ''End of Data'' then a6\<lparr>m_endOfDataCount := m_endOfDataCount a6 + 1\<rparr>
         else a6)"

definition metricsInit :: metrics_acc where
  "metricsInit =
     \<lparr>m_winningTrades = 0, m_losingTrades = 0, m_totalProfit = Fin 0, m_grossProfit = Fin 0,
      m_grossLoss = Fin 0, m_totalHoldingDays = Fin 0, m_takeProfitCount = 0, m_stopLossCount = 0,
      m_timeExitCount = 0, m_endOfDataCount = 0, m_peak = Fin 0, m_drawdown = Fin 0,
      m_maxDrawdown = Fin 0, m_equityCurve = [Fin 100]\<rparr>"

definition calculatePerformanceMetrics :: "sim_trade list \<Rightarrow> metrics" where
  "calculatePerformanceMetrics trs =
     (if length trs = 0 then
        \<lparr>totalTrades = 0, winningTrades = 0, losingTrades = 0, winRate = Fin 0, avgProfit = Fin 0,
         totalReturn = Fin 0, profitFactor = Fin 0, maxDrawdown = Fin 0, avgHoldingPeriod = Fin 0,
         takeProfitCount = 0, stopLossCount = 0, timeExitCount = 0, endOfDataCount = 0,
         equityCurve = None\<rparr>
      else
        (let completed = filter (\<lambda>t. bt_exitDate t \<noteq> None \<and> str_truthy (bt_exitReason t)) trs;
             a = fold metricsStep completed metricsInit;
             n = length completed
         in \<lparr>totalTrades = n,
             winningTrades = m_winningTrades a,
             losingTrades = m_losingTrades a,
             winRate = (if 0 < n then Fin (real (m_winningTrades a) / real n * 100) else Fin 0),
             avgProfit = (if 0 < n then js_div (m_totalProfit a) (Fin (real n)) else Fin 0),
             totalReturn = m_totalProfit a,
             profitFactor = (if js_gt (m_grossLoss a) (Fin 0) then js_div (m_grossProfit a) (m_grossLoss a)
                             else if js_gt (m_grossProfit a) (Fin 0) then PInf else Fin 0),
             maxDrawdown = m_maxDrawdown a,
             avgHoldingPeriod = (if 0 < n then js_div (m_totalHoldingDays a) (Fin (real n)) else Fin 0),
             takeProfitCount = m_takeProfitCount a,
             stopLossCount = m_stopLossCount a,
             timeExitCount = m_timeExitCount a,
             endOfDataCount = m_endOfDataCount a,
             equityCurve = Some (m_equityCurve a)\<rparr>))"



text \<open>
  The indicator module (\<open>DTIIndicators\<close>) is not part of these sources: its two functions
  are parameters of the optimizer. A result that is \<open>null\<close> or \<open>undefined\<close> is \<open>None\<close>.
\<close>

record indicators =
  calculateDTI :: "jsnum list \<Rightarrow> jsnum list \<Rightarrow> jsnum \<Rightarrow> jsnum \<Rightarrow> jsnum \<Rightarrow> jsnum list option"
  calculate7DayDTI ::
    "jsnum list \<Rightarrow> jsnum list \<Rightarrow> jsnum list \<Rightarrow> jsnum \<Rightarrow> jsnum \<Rightarrow> jsnum \<Rightarrow> sevenDayDTIData option"

record combo =
  c_r :: jsnum
  c_s :: jsnum
  c_u :: jsnum
  c_entryThreshold :: jsnum
  c_takeProfitPercent :: jsnum
  c_stopLossPercent :: jsnum
  c_maxHoldingDays :: jsnum

record paramRanges =
  rg_r :: "jsnum list"
  rg_s :: "jsnum list"
  rg_u :: "jsnum list"
  rg_entryThreshold :: "jsnum list"
  rg_takeProfitPercent :: "jsnum list"
  rg_stopLossPercent :: "jsnum list"
  rg_maxHoldingDays :: "jsnum list"

definition defaultRanges :: paramRanges where
  "defaultRanges =
     \<lparr>rg_r = [Fin 7, Fin 14, Fin 21], rg_s = [Fin 5, Fin 10, Fin 15], rg_u = [Fin 3, Fin 5, Fin 7],
      rg_entryThreshold = [Fin (- 50), Fin (- 40), Fin (- 30)],
      rg_takeProfitPercent = [Fin 5, Fin 8, Fin 10], rg_stopLossPercent = [Fin 3, Fin 5, Fin 7],
      rg_maxHoldingDays = [Fin 15, Fin 30, Fin 45]\<rparr>"

text \<open>The seven nested \<open>for\<close> loops, outermost first.\<close>

definition combinations :: "paramRanges \<Rightarrow> combo list" where
  "combinations ranges =
     concat (map (\<lambda>r. concat (map (\<lambda>s. concat (map (\<lambda>u. concat (map (\<lambda>et. concat (map (\<lambda>tp.
       concat (map (\<lambda>sl. map (\<lambda>mh.
         \<lparr>c_r = r, c_s = s, c_u = u, c_entryThreshold = et, c_takeProfitPercent = tp,
          c_stopLossPercent = sl, c_maxHoldingDays = mh\<rparr>)
         (rg_maxHoldingDays ranges)) (rg_stopLossPercent ranges)))
       (rg_takeProfitPercent ranges))) (rg_entryThreshold ranges))) (rg_u ranges)))
       (rg_s ranges))) (rg_r ranges))"

definition score :: "jsnum \<Rightarrow> jsnum \<Rightarrow> jsnum \<Rightarrow> jsnum" where
  "score totalReturn' winRate' profitFactor' =
     js_mul (js_mul totalReturn' (js_div winRate' (Fin 100))) profitFactor'"

text \<open>
  \<open>bestResult\<close> is \<open>None\<close> while it is the initial object, whose \<open>params\<close> is \<open>null\<close> and
  whose \<open>metrics\<close> are \<open>totalReturn: -Infinity\<close>, \<open>winRate: 0\<close>, \<open>profitFactor: 0\<close>.
\<close>

definition bestScore :: "(combo \<times> metrics) option \<Rightarrow> jsnum" where
  "bestScore best =
     (case best of
        None \<Rightarrow> score NInf (Fin 0) (Fin 0)
      | Some (c, m) \<Rightarrow> score (totalReturn m) (winRate m) (profitFactor m))"

record optimizer_state =
  bestResult :: "(combo \<times> metrics) option"
  allResults :: "(combo \<times> metrics) list"

text \<open>
  The body of the innermost loop. Writing a number into an input element and reading it
  back with \<open>parseFloat\<close> gives the number again, so the backtest runs on the page with
  the seven values of the combination; the page is put back afterwards.
\<close>

definition optimizerStep ::
  "localTZA \<Rightarrow> indicators \<Rightarrow> page \<Rightarrow> jsnum list \<Rightarrow> jsnum list \<Rightarrow> jsnum list \<Rightarrow> jsnum list \<Rightarrow> combo
     \<Rightarrow> optimizer_state \<Rightarrow> optimizer_state" where
  "optimizerStep tz ind pg dates high low close c st =
     (let dti = calculateDTI ind high low (c_r c) (c_s c) (c_u c);
          w = calculate7DayDTI ind dates high low (c_r c) (c_s c) (c_u c);
          pg' = pg\<lparr>in_r := c_r c, in_s := c_s c, in_u := c_u c,
                   in_entryThreshold := c_entryThreshold c, in_takeProfit := c_takeProfitPercent c,
                   in_stopLoss := c_stopLossPercent c, in_maxDays := c_maxHoldingDays c\<rparr>;
          run = backtestWithActiveDetection tz pg' (Some dates) (Some close) dti w;
          m = calculatePerformanceMetrics (ret_completedTrades run);
          currentScore = score (totalReturn m) (winRate m) (profitFactor m)
      in \<lparr>bestResult = (if js_gt currentScore (bestScore (bestResult st)) \<and> 5 \<le> totalTrades m
                        then Some (c, m) else bestResult st),
          allResults = allResults st @ [(c, m)]\<rparr>)"

definition findOptimalParameters ::
  "localTZA \<Rightarrow> indicators \<Rightarrow> page \<Rightarrow> jsnum list \<Rightarrow> jsnum list \<Rightarrow> jsnum list \<Rightarrow> jsnum list \<Rightarrow> paramRanges option
     \<Rightarrow> optimizer_state" where
  "findOptimalParameters tz ind pg dates high low close rangesArg =
     (let ranges = (case rangesArg of None \<Rightarrow> defaultRanges | Some rg \<Rightarrow> rg)
      in fold (optimizerStep tz ind pg dates high low close) (combinations ranges)
           \<lparr>bestResult = None, allResults = []\<rparr>)"

section \<open>The exit rules as the specification words them\<close>

text \<open>
  The specification gives each evaluator a fixed priority order. These two functions
  follow its words (backtest: take-profit, stop-loss, time; ledger: stop-loss, target,
  square-off date) and are compared below with what the code does.
\<close>

definition spec_backtest_exit :: "params \<Rightarrow> jsnum \<Rightarrow> jsnum \<Rightarrow> string option" where
  "spec_backtest_exit ps pl days =
     (if js_ge pl (p_takeProfitPercent ps) then Some ''Take Profit''
      else if js_le pl (js_neg (p_stopLossPercent ps)) then Some ''Stop Loss''
      else if js_ge days (p_maxHoldingDays ps) then Some ''Time Exit''
      else None)"

definition spec_ledger_exit :: "jsnum \<Rightarrow> jsnum \<Rightarrow> jsnum \<Rightarrow> jsnum \<Rightarrow> jsnum \<Rightarrow> string option" where
  "spec_ledger_exit price stopLoss target now squareOff =
     (if js_le price stopLoss then Some ''Stop Loss Hit''
      else if js_ge price target then Some ''Target Reached''
      else if js_ge now squareOff then Some ''Time Exit''
      else None)"

section \<open>Invariant of the backtest loop\<close>

text \<open>
  \<open>precedes a b\<close>: trade \<open>a\<close> has left the market before \<open>b\<close> enters it. \<open>bt_inv ds k st\<close>
  is what holds of the loop's state before step \<open>k\<close> on the dates \<open>ds\<close>: the completed
  trades follow one another, each was entered before it was closed and closed by step
  \<open>k - 1\<close>, and an open trade was entered at an earlier step, after all of them.
\<close>

definition precedes :: "sim_trade \<Rightarrow> sim_trade \<Rightarrow> bool" where
  "precedes a b = js_lt (optNumber (bt_exitDate a)) (bt_entryDate b)"

definition closedBy :: "real \<Rightarrow> sim_trade \<Rightarrow> bool" where
  "closedBy b c = (\<exists>e x. bt_entryDate c = Fin e \<and> bt_exitDate c = Some (Fin x) \<and> e < x \<and> x \<le> b)"

definition bt_inv :: "real list \<Rightarrow> nat \<Rightarrow> bt_state \<Rightarrow> bool" where
  "bt_inv ds k st =
     (sorted_wrt precedes (completedTrades st) \<and>
      (\<forall>c \<in> set (completedTrades st). closedBy (ds ! (k - 1)) c) \<and>
      (case activeTrade st of
         None \<Rightarrow> True
       | Some a \<Rightarrow> bt_exitDate a = None \<and> (\<exists>j. j < k \<and> bt_entryDate a = Fin (ds ! j)) \<and>
                   (\<forall>c \<in> set (completedTrades st). precedes c a)))"

section \<open>Cache state\<close>

text \<open>Both cached series are empty, so the next read computes them.\<close>

definition cacheCleared :: "ledger \<Rightarrow> bool" where
  "cacheCleared L = (equityCurveData L = None \<and> drawdownData L = None)"

section \<open>Auxiliary notions for the merge import\<close>

text \<open>
  \<open>tradeValues\<close> reads the trade collection through the heap; \<open>refsFresh\<close> says that the
  collection only holds references already handed out. \<open>mergeVal\<close> is one step of the merge
  loop on the values, and \<open>importOrderV\<close> the import's comparator on two trades.
  \<open>validSortDate\<close>: the date the comparator reads (entry date of an active trade, exit
  date of any other) is a valid \<open>Date\<close>; then the comparator orders trades by \<open>notAfter\<close>.
\<close>

definition tradeValues :: "ledger \<Rightarrow> trade list" where
  "tradeValues L = map (heap L) (allTrades L)"

definition refsFresh :: "ledger \<Rightarrow> bool" where
  "refsFresh L = (\<forall>r \<in> set (allTrades L). r < nextRef L)"

definition mergeVal :: "string option list \<Rightarrow> trade \<Rightarrow> trade list \<Rightarrow> trade list" where
  "mergeVal existing p vs =
     (if trade_id p \<in> set existing then
        (case findIndex (\<lambda>t. trade_id t = trade_id p) vs of
           Some i \<Rightarrow> vs[i := p]
         | None \<Rightarrow> vs @ [p])
      else vs @ [p])"

definition importOrderV :: "trade \<Rightarrow> trade \<Rightarrow> jsnum" where
  "importOrderV ta tb =
     (if status ta = Some ''active'' \<and> status tb \<noteq> Some ''active'' then Fin (- 1)
      else if status ta \<noteq> Some ''active'' \<and> status tb = Some ''active'' then Fin 1
      else if status ta = Some ''active''
        then js_sub (dateNumber (entryDate tb)) (dateNumber (entryDate ta))
        else js_sub (dateNumber (exitDate tb)) (dateNumber (exitDate ta)))"

definition sortDate :: "trade \<Rightarrow> jsnum" where
  "sortDate t = dateNumber (if status t = Some ''active'' then entryDate t else exitDate t)"

definition sortable :: "trade \<Rightarrow> bool" where
  "sortable t = (case sortDate t of Fin _ \<Rightarrow> True | _ \<Rightarrow> False)"

definition sortReal :: "trade \<Rightarrow> real" where
  "sortReal t = (case sortDate t of Fin x \<Rightarrow> x | _ \<Rightarrow> 0)"

definition notAfter :: "trade \<Rightarrow> trade \<Rightarrow> bool" where
  "notAfter a b =
     ((status a = Some ''active'' \<and> status b \<noteq> Some ''active'') \<or>
      ((status a = Some ''active'') = (status b = Some ''active'') \<and> sortReal b \<le> sortReal a))"

definition validSortDate :: "trade \<Rightarrow> bool" where
  "validSortDate t =
     (case (if status t = Some ''active'' then entryDate t else exitDate t) of
        DateObj (Fin _) \<Rightarrow> True
      | _ \<Rightarrow> False)"

definition tradeIsActive :: "trade \<Rightarrow> bool" where
  "tradeIsActive t = (status t = Some ''active'')"

text \<open>The holding-day count \<open>prepareTrade\<close> stores for an active trade entered on
  \<open>entryDate t\<close> when the clock reads \<open>clock e\<close>.\<close>

definition holdingDaysAt :: "env \<Rightarrow> trade \<Rightarrow> jsnum" where
  "holdingDaysAt e t =
     js_max (Fin 0) (js_floor (js_div (js_sub (clock e) (dateNumber (entryDate t))) (Fin (of_int msPerDay))))"

definition results0 :: "nat \<Rightarrow> import_results" where
  "results0 n = \<lparr>added = 0, updated = 0, skipped = 0, errors = 0, total = n, kept = None, error = None\<rparr>"

section \<open>Example inputs\<close>

text \<open>Concrete series, pages and ledgers on which the properties below are evaluated.\<close>

definition day :: "int \<Rightarrow> jsnum" where
  "day k = Fin (of_int (k * msPerDay))"

text \<open>
  Thirteen trading days: the first on day 0, the others on days 200 to 211 (after the
  warm-up window). The oscillator dips and recovers on every second day; the price gains
  ten percent after each of the first five entries and loses ten percent after the sixth.
\<close>

definition ex_dates :: "jsnum list" where
  "ex_dates = day 0 # map day [200, 201, 202, 203, 204, 205, 206, 207, 208, 209, 210, 211]"

definition ex_close :: "jsnum list" where
  "ex_close = map Fin [100, 100, 110, 100, 110, 100, 110, 100, 110, 100, 110, 100, 90]"

definition ex_dti :: "jsnum list" where
  "ex_dti = map Fin [- 60, - 50, - 60, - 50, - 60, - 50, - 60, - 50, - 60, - 50, - 60, - 50, - 60]"

definition ex_weekly :: sevenDayDTIData where
  "ex_weekly = \<lparr>daily7DayDTI = [], sevenDayData = [], sevenDayDTI = []\<rparr>"

definition ex_ind :: indicators where
  "ex_ind = \<lparr>calculateDTI = (\<lambda>h l r s u. Some ex_dti),
             calculate7DayDTI = (\<lambda>d h l r s u. Some ex_weekly)\<rparr>"

definition ex_page :: page where
  "ex_page = \<lparr>in_r = Fin 14, in_s = Fin 10, in_u = Fin 5, in_entryThreshold = Fin (- 40),
              in_takeProfit = Fin 5, in_stopLoss = Fin 5, in_maxDays = Fin 30,
              in_enableWeekly = False\<rparr>"

definition ex_ranges :: paramRanges where
  "ex_ranges = \<lparr>rg_r = [Fin 14], rg_s = [Fin 10], rg_u = [Fin 5], rg_entryThreshold = [Fin (- 40)],
                rg_takeProfitPercent = [Fin 5], rg_stopLossPercent = [Fin 5],
                rg_maxHoldingDays = [Fin 30]\<rparr>"

text \<open>An open simulated trade and an active ledger trade whose two thresholds both hold.\<close>

definition c1_params :: params where
  "c1_params = \<lparr>p_entryThreshold = Fin (- 40), p_takeProfitPercent = Fin 1,
                 p_stopLossPercent = Fin (- 3), p_maxHoldingDays = Fin 30, p_enable7DayDTI = False\<rparr>"

definition c1_state :: bt_state where
  "c1_state = \<lparr>completedTrades = [],
                activeTrade = Some (newSimTrade (day 200) (Fin 100) (Fin (- 50)) Undefined),
                previousTradeCompleted = False\<rparr>"

definition c1_trade :: trade where
  "c1_trade =
     \<lparr>trade_id = Some ''trade_1'', status = Some ''active'', stockName = Some ''Acme'',
      symbol = Some ''ACME'', entryDate = DateObj (day 200), entryPrice = Number (Fin 100),
      currentPrice = Number (Fin 100), investmentAmount = Number (Fin 1000),
      shares = Number (Fin 10), currentValue = Number (Fin 1000),
      stopLossPrice = Number (Fin 110), targetPrice = Number (Fin 90),
      stopLossPercent = Number (Fin 5), takeProfitPercent = Number (Fin 8),
      squareOffDate = DateObj (day 400), holdingDays = Number (Fin 0),
      currentPLPercent = Number (Fin 0), currentPLValue = Number (Fin 0),
      currencySymbol = Some ''$'', trade_notes = Some [],
      exitDate = DUndefined, exitPrice = Undefined, exitReason = None,
      plPercent = Undefined, plValue = Undefined\<rparr>"

definition c1_ledger :: ledger where
  "c1_ledger = \<lparr>heap = (\<lambda>r. c1_trade), nextRef = 1, allTrades = [0], activeTrades = [0],
                 closedTrades = [], equityCurveData = None, drawdownData = None, persisted = []\<rparr>"

definition c1_env :: env where
  "c1_env = \<lparr>clock = day 300, currentStockIndex = None, storageOk = True,
              generatedId = (\<lambda>k. ''trade_2'')\<rparr>"

text \<open>Weekly data with two periods, the second improving on the first, and the filter on.\<close>

definition c2_weekly :: sevenDayDTIData where
  "c2_weekly = \<lparr>daily7DayDTI = map (\<lambda>x. Number (Fin x)) [- 30, - 20, - 20],
                 sevenDayData = [\<lparr>startIndex = 0, endIndex = 0\<rparr>, \<lparr>startIndex = 1, endIndex = 5\<rparr>],
                 sevenDayDTI = map (\<lambda>x. Number (Fin x)) [- 30, - 20]\<rparr>"

definition c2_params :: params where
  "c2_params = \<lparr>p_entryThreshold = Fin (- 40), p_takeProfitPercent = Fin 5,
                 p_stopLossPercent = Fin 5, p_maxHoldingDays = Fin 30, p_enable7DayDTI = True\<rparr>"

text \<open>
  A series of three days, the second and third 180 and 181 days after the first (which is
  1 January 1970, so that six months later is 1 July, day 181); the oscillator is below
  the threshold and rising on both.
\<close>

definition c2_dates :: "jsnum list" where
  "c2_dates = map day [0, 180, 181]"

definition c2_prices :: "jsnum list" where
  "c2_prices = map Fin [100, 100, 100]"

definition c2_dti :: "jsnum list" where
  "c2_dti = map Fin [- 60, - 50, - 45]"

text \<open>The weekly data with no value for the first period, and with a daily projection that
  falls although the second period's value is above the first's.\<close>

definition c2_weekly_null :: sevenDayDTIData where
  "c2_weekly_null = c2_weekly\<lparr>sevenDayDTI := [Null, Number (Fin (- 20))]\<rparr>"

definition c2_weekly_daily :: sevenDayDTIData where
  "c2_weekly_daily = c2_weekly\<lparr>daily7DayDTI := map (\<lambda>x. Number (Fin x)) [- 30, - 40, - 40]\<rparr>"



text \<open>A ledger with one closed trade: ten percent gained over one day.\<close>

definition c7_trade :: trade where
  "c7_trade = c1_trade\<lparr>status := Some ''closed'', exitDate := DateObj (day 201),
      exitPrice := Number (Fin 110), exitReason := Some ''Target Reached'',
      plPercent := Number (Fin 10), plValue := Number (Fin 100)\<rparr>"

definition c7_ledger :: ledger where
  "c7_ledger = \<lparr>heap = (\<lambda>r. c7_trade), nextRef = 1, allTrades = [0], activeTrades = [],
                 closedTrades = [0], equityCurveData = None, drawdownData = None, persisted = []\<rparr>"

text \<open>A new trade of 100 invested at a price of 30, and a ledger with no trades.\<close>

definition c10_data :: tradeData where
  "c10_data = \<lparr>td_stockName = Some ''Acme'', td_symbol = Some ''ACME'', td_entryDate = DateObj (day 200),
      td_entryPrice = Number (Fin 30), td_investmentAmount = Number (Fin 100),
      td_stopLossPrice = Number (Fin 25), td_targetPrice = Number (Fin 40),
      td_stopLossPercent = Number (Fin 5), td_takeProfitPercent = Number (Fin 8),
      td_squareOffDate = DateObj (day 400), td_currencySymbol = Some ''$'', td_notes = None\<rparr>"

text \<open>The same creation with an amount that buys a whole number of shares, and one whose
  price is the double written \<open>0.7\<close>.\<close>

definition c10_whole_data :: tradeData where
  "c10_whole_data = c10_data\<lparr>td_investmentAmount := Number (Fin 90)\<rparr>"

definition c10_rounding_data :: tradeData where
  "c10_rounding_data = c10_data\<lparr>td_entryPrice := Number (roundDouble (7 / 10)),
      td_investmentAmount := Number (Fin 700), td_stopLossPrice := Number (Fin (1 / 2)),
      td_targetPrice := Number (Fin 1)\<rparr>"

definition emptyLedger :: ledger where
  "emptyLedger = \<lparr>heap = (\<lambda>r. c1_trade), nextRef = 0, allTrades = [], activeTrades = [],
                   closedTrades = [], equityCurveData = None, drawdownData = None, persisted = []\<rparr>"

text \<open>An import document with one closed trade whose stored P/L does not follow from its prices.\<close>

definition c4_imported :: trade where
  "c4_imported = c1_trade\<lparr>status := Some ''closed'', entryDate := DateStr (day 200),
      squareOffDate := DateStr (day 400), exitDate := DateStr (day 201),
      exitPrice := Number (Fin 110), exitReason := Some ''Manual'',
      plPercent := Number (Fin 50), plValue := Number (Fin 999)\<rparr>"

definition c4_document :: import_data where
  "c4_document = \<lparr>metadata = Some \<lparr>version = Some ''1.0.0'', exportDate = day 250, tradeCount = 1,
                                    activeCount = 0, closedCount = 1\<rparr>,
                   trades = Some [c4_imported]\<rparr>"

definition mergeOptions :: import_options where
  "mergeOptions = \<lparr>mode = ''merge'', keepActive = True\<rparr>"

text \<open>A ledger with one closed and one active trade; an environment whose storage write fails.\<close>

definition c8_active :: trade where
  "c8_active = c1_trade\<lparr>trade_id := Some ''trade_2'', stopLossPrice := Number (Fin 90),
                        targetPrice := Number (Fin 120)\<rparr>"

definition c8_ledger :: ledger where
  "c8_ledger = \<lparr>heap = (\<lambda>r. if r = 0 then c7_trade else c8_active), nextRef = 2,
                 allTrades = [0, 1], activeTrades = [1], closedTrades = [0],
                 equityCurveData = None, drawdownData = None, persisted = []\<rparr>"

definition c8_env_fail :: env where
  "c8_env_fail = c1_env\<lparr>storageOk := False\<rparr>"

text \<open>The ledger after the curve has been read once (and cached), and after the second
  trade has then been closed by hand while the write to storage fails.\<close>

definition c8_cached :: ledger where
  "c8_cached = snd (getEquityCurveData c1_env c8_ledger)"

definition c8_closed :: ledger where
  "c8_closed = snd (closeTrade c8_env_fail (Some ''trade_2'') (Number (Fin 120)) ''Manual'' None c8_cached)"

text \<open>The export of the two-trade ledger, the ledger after importing it once, and after
  importing it a second time one hour later and one day later.\<close>

definition c9_document :: import_data where
  "c9_document = exportAllTradesJSON c1_env c8_ledger"

definition c9_first :: ledger where
  "c9_first = snd (importTradesFromJSON c1_env (Some c9_document) mergeOptions c8_ledger)"

definition c9_env_next_hour :: env where
  "c9_env_next_hour = c1_env\<lparr>clock := Fin (of_int (300 * msPerDay + 3600000))\<rparr>"

definition c9_env_next_day :: env where
  "c9_env_next_day = c1_env\<lparr>clock := day 301\<rparr>"

definition c9_second_next_day :: ledger where
  "c9_second_next_day = snd (importTradesFromJSON c9_env_next_day (Some c9_document) mergeOptions c9_first)"

text \<open>A ledger with two active trades, the one entered first listed first; its export, the
  ledger after one import and after two, at the same time.\<close>

definition c9_later_active :: trade where
  "c9_later_active = c8_active\<lparr>entryDate := DateObj (day 210)\<rparr>"

definition c9_two_active :: ledger where
  "c9_two_active = \<lparr>heap = (\<lambda>r. if r = 0 then c1_trade else c9_later_active), nextRef = 2,
                     allTrades = [0, 1], activeTrades = [0, 1], closedTrades = [],
                     equityCurveData = None, drawdownData = None, persisted = []\<rparr>"

definition c9_two_active_first :: ledger where
  "c9_two_active_first =
     snd (importTradesFromJSON c1_env (Some (exportAllTradesJSON c1_env c9_two_active)) mergeOptions
            c9_two_active)"

definition c9_two_active_second :: ledger where
  "c9_two_active_second =
     snd (importTradesFromJSON c1_env (Some (exportAllTradesJSON c1_env c9_two_active)) mergeOptions
            c9_two_active_first)"

text \<open>A ledger whose only trade has no stock name; its export, and the result of importing
  that after a first import.\<close>

definition c9_unnamed :: ledger where
  "c9_unnamed = c1_ledger\<lparr>heap := (\<lambda>r. c1_trade\<lparr>stockName := None\<rparr>)\<rparr>"

definition c9_unnamed_second :: "import_results \<times> ledger" where
  "c9_unnamed_second =
     importTradesFromJSON c1_env (Some (exportAllTradesJSON c1_env c9_unnamed)) mergeOptions
       (snd (importTradesFromJSON c1_env (Some (exportAllTradesJSON c1_env c9_unnamed)) mergeOptions
               c9_unnamed))"

text \<open>A ledger whose second trade has neither symbol nor currency symbol, imported twice at
  the same time, with the page on a US index the first time and on a UK index the second.\<close>

definition c9_no_symbol :: ledger where
  "c9_no_symbol = c8_ledger\<lparr>heap := (\<lambda>r. if r = 0 then c7_trade
                                           else c8_active\<lparr>symbol := None, currencySymbol := None\<rparr>)\<rparr>"

definition c9_env_us :: env where
  "c9_env_us = c1_env\<lparr>currentStockIndex := Some ''usStocks''\<rparr>"

definition c9_env_uk :: env where
  "c9_env_uk = c1_env\<lparr>currentStockIndex := Some ''ftse100''\<rparr>"

definition c9_no_symbol_first :: ledger where
  "c9_no_symbol_first =
     snd (importTradesFromJSON c9_env_us (Some (exportAllTradesJSON c1_env c9_no_symbol)) mergeOptions
            c9_no_symbol)"

definition c9_no_symbol_second :: ledger where
  "c9_no_symbol_second =
     snd (importTradesFromJSON c9_env_uk (Some (exportAllTradesJSON c1_env c9_no_symbol)) mergeOptions
            c9_no_symbol_first)"

section \<open>Properties\<close>

subsection \<open>Parameter optimizer\<close>

lemma initial_best_score: "bestScore None = NaN"
  by (simp add: bestScore_def score_def)

lemma js_gt_NaN: "js_gt x NaN = False"
  by (cases x) (simp_all add: js_gt_def)

lemma optimizerStep_keeps_None:
  "bestResult st = None \<Longrightarrow> bestResult (optimizerStep tz ind pg dates high low close c st) = None"
  by (simp add: optimizerStep_def Let_def initial_best_score js_gt_NaN)

lemma fold_optimizerStep_None:
  "bestResult st = None \<Longrightarrow>
   bestResult (fold (optimizerStep tz ind pg dates high low close) cs st) = None"
  by (induction cs arbitrary: st) (simp_all add: optimizerStep_keeps_None)

text \<open>
  The score of the initial \<open>bestResult\<close> is \<open>-Infinity * 0 * 0\<close>, which is \<open>NaN\<close>, and no
  score is greater than \<open>NaN\<close>: the optimizer never replaces the initial object, whatever
  the series, the indicator functions and the grid.
\<close>

lemma findOptimalParameters_params_null:
  "bestResult (findOptimalParameters tz ind pg dates high low close rangesArg) = None"
  by (simp add: findOptimalParameters_def fold_optimizerStep_None)

text \<open>
  C5. The optimizer should return the combination with the greatest score
  \<open>totalReturn * (winRate / 100) * profitFactor\<close> among those with at least five
  completed trades. On the example series the grid has one combination; its backtest
  completes six trades and scores \<open>500 / 3\<close>, so it qualifies and nothing beats it, yet
  the optimizer returns the initial object (\<open>params\<close> is \<open>null\<close>).
\<close>

theorem C5_optimizer_returns_null_params:
  "map (\<lambda>(c, m). (totalTrades m, score (totalReturn m) (winRate m) (profitFactor m)))
       (allResults (findOptimalParameters utc ex_ind ex_page ex_dates ex_close ex_close ex_close
                      (Some ex_ranges)))
     = [(6, Fin (500 / 3))]
   \<and> bestResult (findOptimalParameters utc ex_ind ex_page ex_dates ex_close ex_close ex_close
                   (Some ex_ranges)) = None"
proof
  show "map (\<lambda>(c, m). (totalTrades m, score (totalReturn m) (winRate m) (profitFactor m)))
          (allResults (findOptimalParameters utc ex_ind ex_page ex_dates ex_close ex_close ex_close
                         (Some ex_ranges)))
        = [(6, Fin (500 / 3))]"
    by code_simp
  show "bestResult (findOptimalParameters utc ex_ind ex_page ex_dates ex_close ex_close ex_close
                      (Some ex_ranges)) = None"
    by (rule findOptimalParameters_params_null)
qed

subsection \<open>Exit priority\<close>

lemma set_js_insert: "set (js_insert cmp x xs) = insert x (set xs)"
  by (induction xs) auto

lemma set_js_sort: "set (js_sort cmp xs) = set xs"
  by (induction xs) (simp_all add: js_sort_def set_js_insert)

lemma length_js_insert: "length (js_insert cmp x xs) = Suc (length xs)"
  by (induction xs) auto

lemma length_js_sort: "length (js_sort cmp xs) = length xs"
  by (induction xs) (simp_all add: js_sort_def length_js_insert)

lemma heap_saveTradestoStorage: "heap (snd (saveTradestoStorage e L)) = heap L"
  by (simp add: saveTradestoStorage_def)

lemma heap_closeTradeAutomatically:
  "heap (closeTradeAutomatically e r reason x L) r =
     (heap L r)\<lparr>status := Some ''closed'', exitDate := DateObj (clock e), exitPrice := x,
       exitReason := Some reason, plPercent := plPercentOf x (entryPrice (heap L r)),
       plValue := plValueOf (shares (heap L r)) x (entryPrice (heap L r))\<rparr>"
  by (simp add: closeTradeAutomatically_def Let_def heap_saveTradestoStorage)

lemma exitStep_reasons:
  "map bt_exitReason (completedTrades (exitStep ps d p a st)) =
     map bt_exitReason (completedTrades st) @
       (case spec_backtest_exit ps
               (js_mul (js_div (js_sub p (bt_entryPrice a)) (bt_entryPrice a)) (Fin 100))
               (js_floor (js_div (js_sub d (bt_entryDate a)) (Fin (of_int msPerDay)))) of
          None \<Rightarrow> [] | Some reason \<Rightarrow> [Some reason])"
  by (simp add: exitStep_def spec_backtest_exit_def closeSim_def Let_def)

lemma exitStep_active:
  "(activeTrade (exitStep ps d p a st) = None) =
     (spec_backtest_exit ps
               (js_mul (js_div (js_sub p (bt_entryPrice a)) (bt_entryPrice a)) (Fin 100))
               (js_floor (js_div (js_sub d (bt_entryDate a)) (Fin (of_int msPerDay)))) \<noteq> None)"
  by (simp add: exitStep_def spec_backtest_exit_def closeSim_def Let_def)

lemma updateTradeStatus_reason:
  assumes "status (heap L r) = Some ''active''"
  shows "exitReason (heap (updateTradeStatus e r L) r) =
     (case spec_ledger_exit (toNumber (currentPrice (heap L r))) (toNumber (stopLossPrice (heap L r)))
             (toNumber (targetPrice (heap L r))) (clock e) (dateNumber (squareOffDate (heap L r))) of
        None \<Rightarrow> exitReason (heap L r) | Some reason \<Rightarrow> Some reason)"
  using assms
  by (simp add: updateTradeStatus_def Let_def spec_ledger_exit_def heap_closeTradeAutomatically)

lemma updateTradeStatus_status:
  assumes "status (heap L r) = Some ''active''"
  shows "status (heap (updateTradeStatus e r L) r) =
     (if spec_ledger_exit (toNumber (currentPrice (heap L r))) (toNumber (stopLossPrice (heap L r)))
             (toNumber (targetPrice (heap L r))) (clock e) (dateNumber (squareOffDate (heap L r))) = None
      then Some ''active'' else Some ''closed'')"
  using assms
  by (simp add: updateTradeStatus_def Let_def spec_ledger_exit_def heap_closeTradeAutomatically)

lemma closeTradeAutomatically_lists:
  "r \<in> set (closedTrades (closeTradeAutomatically e r reason x L)) \<and>
   r \<notin> set (activeTrades (closeTradeAutomatically e r reason x L))"
  by (simp add: closeTradeAutomatically_def Let_def saveTradestoStorage_def set_js_sort)

text \<open>
  C1. Exit priority. When a simulated trade is open at step \<open>i\<close>, the backtest closes it
  with the first reason that holds in the order take-profit, stop-loss, time (and leaves it
  open when none holds); in particular, when both the take-profit and the stop-loss
  threshold hold, the reason is "Take Profit". \<open>updateTradeStatus\<close> on an active ledger
  trade closes it with the first reason that holds in the order stop-loss, target,
  square-off date; in particular, when the current price is at or below the stop-loss
  price and at or above the target price, the reason is "Stop Loss Hit" and the trade
  moves from the active to the closed array.
\<close>

theorem C1_exit_priority:
  assumes open_trade: "activeTrade st = Some a"
    and pl: "pl = js_mul (js_div (js_sub (prices ! i) (bt_entryPrice a)) (bt_entryPrice a)) (Fin 100)"
    and days: "days = js_floor (js_div (js_sub (dates ! i) (bt_entryDate a)) (Fin (of_int msPerDay)))"
    and st': "st' = bt_step ps dates prices dti w ea i st"
    and active: "status (heap L r) = Some ''active''"
    and ex: "ex = spec_ledger_exit (toNumber (currentPrice (heap L r)))
                    (toNumber (stopLossPrice (heap L r))) (toNumber (targetPrice (heap L r)))
                    (clock e) (dateNumber (squareOffDate (heap L r)))"
    and L': "L' = updateTradeStatus e r L"
  shows "(js_ge pl (p_takeProfitPercent ps) \<and> js_le pl (js_neg (p_stopLossPercent ps)) \<longrightarrow>
            activeTrade st' = None \<and>
            map bt_exitReason (completedTrades st') =
              map bt_exitReason (completedTrades st) @ [Some ''Take Profit''])
       \<and> map bt_exitReason (completedTrades st') =
            map bt_exitReason (completedTrades st) @
              (case spec_backtest_exit ps pl days of None \<Rightarrow> [] | Some reason \<Rightarrow> [Some reason])
       \<and> (activeTrade st' = None) = (spec_backtest_exit ps pl days \<noteq> None)
       \<and> (js_le (toNumber (currentPrice (heap L r))) (toNumber (stopLossPrice (heap L r))) \<and>
          js_ge (toNumber (currentPrice (heap L r))) (toNumber (targetPrice (heap L r))) \<longrightarrow>
            status (heap L' r) = Some ''closed'' \<and> exitReason (heap L' r) = Some ''Stop Loss Hit'' \<and>
            r \<in> set (closedTrades L') \<and> r \<notin> set (activeTrades L'))
       \<and> exitReason (heap L' r) = (case ex of None \<Rightarrow> exitReason (heap L r) | Some reason \<Rightarrow> Some reason)
       \<and> status (heap L' r) = (if ex = None then Some ''active'' else Some ''closed'')"
proof -
  have step: "st' = exitStep ps (dates ! i) (prices ! i) a st"
    using open_trade by (simp add: st' bt_step_def Let_def)
  have reasons: "map bt_exitReason (completedTrades st') =
            map bt_exitReason (completedTrades st) @
              (case spec_backtest_exit ps pl days of None \<Rightarrow> [] | Some reason \<Rightarrow> [Some reason])"
    unfolding step pl days by (rule exitStep_reasons)
  have cleared: "(activeTrade st' = None) = (spec_backtest_exit ps pl days \<noteq> None)"
    unfolding step pl days by (rule exitStep_active)
  have both: "js_ge pl (p_takeProfitPercent ps) \<Longrightarrow> spec_backtest_exit ps pl days = Some ''Take Profit''"
    by (simp add: spec_backtest_exit_def)
  have reason: "exitReason (heap L' r) = (case ex of None \<Rightarrow> exitReason (heap L r) | Some reason \<Rightarrow> Some reason)"
    unfolding L' ex by (rule updateTradeStatus_reason [OF active])
  have stat: "status (heap L' r) = (if ex = None then Some ''active'' else Some ''closed'')"
    unfolding L' ex by (rule updateTradeStatus_status [OF active])
  have stop: "js_le (toNumber (currentPrice (heap L r))) (toNumber (stopLossPrice (heap L r))) \<Longrightarrow>
      ex = Some ''Stop Loss Hit''"
    by (simp add: ex spec_ledger_exit_def)
  have lists: "js_le (toNumber (currentPrice (heap L r))) (toNumber (stopLossPrice (heap L r))) \<Longrightarrow>
      r \<in> set (closedTrades L') \<and> r \<notin> set (activeTrades L')"
    using active by (simp add: L' updateTradeStatus_def Let_def closeTradeAutomatically_lists)
  show ?thesis
    using reasons cleared both reason stat stop lists by simp
qed

theorem C1_exit_priority_witness:
  "js_ge (Fin 2) (p_takeProfitPercent c1_params) \<and> js_le (Fin 2) (js_neg (p_stopLossPercent c1_params))
   \<and> activeTrade (bt_step c1_params [day 0, day 200, day 201] [Fin 100, Fin 100, Fin 102]
                     [Fin (- 60), Fin (- 50), Fin (- 60)] ex_weekly (day 181) 2 c1_state) = None
   \<and> map bt_exitReason (completedTrades (bt_step c1_params [day 0, day 200, day 201]
                     [Fin 100, Fin 100, Fin 102] [Fin (- 60), Fin (- 50), Fin (- 60)] ex_weekly
                     (day 181) 2 c1_state)) = [Some ''Take Profit'']
   \<and> js_le (toNumber (currentPrice (heap c1_ledger 0))) (toNumber (stopLossPrice (heap c1_ledger 0)))
   \<and> js_ge (toNumber (currentPrice (heap c1_ledger 0))) (toNumber (targetPrice (heap c1_ledger 0)))
   \<and> status (heap (updateTradeStatus c1_env 0 c1_ledger) 0) = Some ''closed''
   \<and> exitReason (heap (updateTradeStatus c1_env 0 c1_ledger) 0) = Some ''Stop Loss Hit''"
proof -
  have a: "activeTrade c1_state = Some (newSimTrade (day 200) (Fin 100) (Fin (- 50)) Undefined)"
    by (simp add: c1_state_def)
  have pl: "Fin 2 = js_mul (js_div (js_sub ([Fin 100, Fin 100, Fin 102] ! 2)
                 (bt_entryPrice (newSimTrade (day 200) (Fin 100) (Fin (- 50)) Undefined)))
                 (bt_entryPrice (newSimTrade (day 200) (Fin 100) (Fin (- 50)) Undefined))) (Fin 100)"
    by (simp add: newSimTrade_def js_sub_def)
  have act: "status (heap c1_ledger 0) = Some ''active''"
    by (simp add: c1_ledger_def c1_trade_def)
  have tp: "js_ge (Fin 2) (p_takeProfitPercent c1_params) \<and>
            js_le (Fin 2) (js_neg (p_stopLossPercent c1_params))"
    by (simp add: c1_params_def js_ge_def)
  have sl: "js_le (toNumber (currentPrice (heap c1_ledger 0))) (toNumber (stopLossPrice (heap c1_ledger 0)))
            \<and> js_ge (toNumber (currentPrice (heap c1_ledger 0))) (toNumber (targetPrice (heap c1_ledger 0)))"
    by (simp add: c1_ledger_def c1_trade_def js_ge_def)
  show ?thesis
    using C1_exit_priority [where dates = "[day 0, day 200, day 201]" and ps = c1_params
          and dti = "[Fin (- 60), Fin (- 50), Fin (- 60)]" and w = ex_weekly and ea = "day 181"
          and e = c1_env, OF a pl refl refl act refl refl]
      tp sl
    by (simp add: c1_state_def)
qed

subsection \<open>Entry rule\<close>

lemma bt_loop_Suc:
  "1 \<le> n \<Longrightarrow> bt_loop tz ps dates prices dti w (Suc n) =
     bt_step ps dates prices dti w (earliestAllowable tz dates) n (bt_loop tz ps dates prices dti w n)"
  by (simp add: bt_loop_def)

text \<open>The period lookup returns the least index of a period whose range holds the day, and
  nothing when no period does.\<close>

lemma findPeriod_first:
  "findPeriod xs i k =
     (if \<exists>p<length xs. startIndex (xs ! p) \<le> i \<and> i \<le> endIndex (xs ! p)
      then Some (k + (LEAST p. p < length xs \<and> startIndex (xs ! p) \<le> i \<and> i \<le> endIndex (xs ! p)))
      else None)"
proof (induction xs arbitrary: k)
  case Nil
  then show ?case by simp
next
  case (Cons x xs)
  let ?P = "\<lambda>p. p < length (x # xs) \<and> startIndex ((x # xs) ! p) \<le> i \<and> i \<le> endIndex ((x # xs) ! p)"
  let ?Q = "\<lambda>p. p < length xs \<and> startIndex (xs ! p) \<le> i \<and> i \<le> endIndex (xs ! p)"
  show ?case
  proof (cases "startIndex x \<le> i \<and> i \<le> endIndex x")
    case True
    then have P0: "?P 0" by simp
    then have "(LEAST p. ?P p) = 0" by (simp add: Least_equality)
    moreover have "\<exists>p. ?P p" using P0 by blast
    ultimately show ?thesis using True by auto
  next
    case False
    then have notP0: "\<not> ?P 0" by simp
    have PSuc: "\<And>p. ?P (Suc p) = ?Q p" by simp
    show ?thesis
    proof (cases "\<exists>p. ?Q p")
      case True
      then obtain p where "?Q p" by blast
      then have "?P (Suc p)" by simp
      then have "(LEAST p. ?P p) = Suc (LEAST p. ?P (Suc p))"
        using notP0 by (rule Least_Suc)
      then have l: "(LEAST p. ?P p) = Suc (LEAST p. ?Q p)" by (simp only: PSuc)
      have ex: "\<exists>p. ?P p" using \<open>?P (Suc p)\<close> by blast
      have "findPeriod (x # xs) i k = findPeriod xs i (Suc k)" using False by auto
      also have "\<dots> = Some (Suc k + (LEAST p. ?Q p))" using True Cons.IH [of "Suc k"] by auto
      finally show ?thesis using ex l by auto
    next
      case noQ: False
      have "\<not> (\<exists>p. ?P p)"
      proof
        assume "\<exists>p. ?P p"
        then obtain p where p: "?P p" by blast
        have "p \<noteq> 0"
        proof
          assume "p = 0"
          then have "?P 0" using p by simp
          then show False using notP0 by blast
        qed
        then obtain q where "p = Suc q" by (cases p) auto
        then have "?Q q" using p by simp
        then show False using noQ by blast
      qed
      moreover have "findPeriod (x # xs) i k = findPeriod xs i (Suc k)" using False by auto
      moreover have "findPeriod xs i (Suc k) = None" using noQ Cons.IH [of "Suc k"] by auto
      ultimately show ?thesis by auto
    qed
  qed
qed

text \<open>The end of the warm-up window, written out: the first date is taken to local time,
  its calendar month is advanced by six with the day of the month and the time of day
  kept, and the result is taken back to UTC.\<close>

lemma earliestAllowable_unfold:
  "earliestAllowable tz dates =
     (case firstDateOf dates of
        Fin first \<Rightarrow>
          (let ms = \<lfloor>first\<rfloor>;
               localTime = ms + tz ms True;
               day = localTime div msPerDay;
               timeInDay = localTime mod msPerDay;
               (y, m, d) = civil_from_days day;
               mo = (m - 1) + 6;
               newDay = days_from_civil (y + mo div 12) (mo mod 12 + 1) 1 + d - 1;
               newDate = newDay * msPerDay + timeInDay
           in timeClip (newDate - tz newDate False))
      | _ \<Rightarrow> NaN)"
  by (simp only: earliestAllowable_def setMonthPlus_def)

text \<open>
  Six months after 15 January 2020 is 15 July 2020; after 31 August 2019 it is 2 March
  2020 (there is no 31 February); after 31 March 2020, 20:00 UTC, it is 1 October 2020,
  20:00 UTC, for a host on UTC, and 30 September 2020, 20:00 UTC, for a host five and a
  half hours ahead of UTC (where the first date is 1 April, 01:30).
\<close>

lemma setMonthPlus_examples:
  "setMonthPlus utc 6 (Fin 1579046400000) = Fin 1594771200000
   \<and> setMonthPlus utc 6 (Fin 1567209600000) = Fin 1583107200000
   \<and> setMonthPlus utc 6 (Fin 1585684800000) = Fin 1601582400000
   \<and> setMonthPlus (fixedZone 19800000) 6 (Fin 1585684800000) = Fin 1601496000000
   \<and> setMonthPlus utc 6 NaN = NaN"
  by code_simp

text \<open>
  C2, as the code has it. Let the state before step \<open>i\<close> of a run (\<open>1 \<le> i\<close>) have no open
  trade; let \<open>period\<close> be the least index of a weekly period whose range holds \<open>i\<close>, if there
  is one, and \<open>boundary\<close> the first date with its local calendar month advanced by six
  (an invalid date when the first date is invalid or the series is empty). Then the state
  after step \<open>i\<close> has an open trade if and only if: \<open>dti[i]\<close> is below the entry threshold;
  \<open>dti[i]\<close> is above \<open>dti[i - 1]\<close>; when the weekly filter is on, the period holding \<open>i\<close> has a
  predecessor and the predecessor's value is not \<open>null\<close>, the weekly value projected on day
  \<open>i\<close> (\<open>daily7DayDTI[i]\<close>) is above the predecessor's value (no weekly condition otherwise);
  no trade has completed yet or the previous one has; and the date of step \<open>i\<close> is on or
  after the boundary. The trade opened has entry date \<open>dates[i]\<close>, entry price
  \<open>prices[i]\<close>, zero holding days, zero P/L and no exit fields; the completed trades are
  unchanged by the step.
\<close>

theorem C2_entry_rule:
  assumes i: "1 \<le> i"
    and st: "st = bt_loop tz ps dates prices dti w i"
    and st': "st' = bt_loop tz ps dates prices dti w (Suc i)"
    and no_open: "activeTrade st = None"
    and period: "period =
      (if \<exists>p<length (sevenDayData w).
            startIndex (sevenDayData w ! p) \<le> int i \<and> int i \<le> endIndex (sevenDayData w ! p)
       then Some (LEAST p. p < length (sevenDayData w) \<and>
                    startIndex (sevenDayData w ! p) \<le> int i \<and> int i \<le> endIndex (sevenDayData w ! p))
       else None)"
    and boundary: "boundary =
      (case firstDateOf dates of
         Fin first \<Rightarrow>
           (let ms = \<lfloor>first\<rfloor>;
                localTime = ms + tz ms True;
                day = localTime div msPerDay;
                timeInDay = localTime mod msPerDay;
                (y, m, d) = civil_from_days day;
                mo = (m - 1) + 6;
                newDay = days_from_civil (y + mo div 12) (mo mod 12 + 1) 1 + d - 1;
                newDate = newDay * msPerDay + timeInDay
            in timeClip (newDate - tz newDate False))
       | _ \<Rightarrow> NaN)"
  shows "(activeTrade st' \<noteq> None) =
           (js_lt (dti ! i) (p_entryThreshold ps) \<and>
            js_gt (dti ! i) (dti ! (i - 1)) \<and>
            (case period of
               None \<Rightarrow> True
             | Some p \<Rightarrow>
                 (if p_enable7DayDTI ps \<and> 0 < p \<and> js_index (sevenDayDTI w) (p - 1) \<noteq> Null
                  then js_gt (toNumber (js_index (daily7DayDTI w) i))
                             (toNumber (js_index (sevenDayDTI w) (p - 1)))
                  else True)) \<and>
            (completedTrades st = [] \<or> previousTradeCompleted st) \<and>
            js_ge (dates ! i) boundary)
       \<and> (case activeTrade st' of
            None \<Rightarrow> True
          | Some t \<Rightarrow> bt_entryDate t = dates ! i \<and> bt_entryPrice t = prices ! i \<and>
                      bt_holdingDays t = Fin 0 \<and> bt_currentPlPercent t = Fin 0 \<and>
                      bt_currentPrice t = prices ! i \<and> bt_exitDate t = None \<and> bt_exitReason t = None)
       \<and> completedTrades st' = completedTrades st"
proof -
  have step: "st' = bt_step ps dates prices dti w (earliestAllowable tz dates) i st"
    by (simp add: st st' bt_loop_Suc [OF i])
  have p: "findPeriod (sevenDayData w) (int i) 0 = period"
    unfolding period by (simp only: findPeriod_first [of "sevenDayData w" "int i" 0] add_0)
  have b: "earliestAllowable tz dates = boundary"
    unfolding boundary by (rule earliestAllowable_unfold)
  show ?thesis
    using no_open
    by (auto simp: step bt_step_def Let_def entryCondition_def sevenDayConditionMet_def
        previous7DayDTI_def newSimTrade_def p b split: option.splits)
qed

text \<open>
  On the three-day series with the filter on: both days lie in the second period, whose
  predecessor has the value \<open>- 30\<close>, and the boundary is day 181. On day 180 the oscillator
  conditions hold but the date is before the boundary, and no trade opens; on day 181 all
  conditions hold and a trade opens at the price 100.
\<close>

theorem C2_entry_rule_witness:
  "activeTrade (bt_loop utc c2_params c2_dates c2_prices c2_dti c2_weekly 1) = None
   \<and> findPeriod (sevenDayData c2_weekly) (int 1) 0 = Some 1
   \<and> findPeriod (sevenDayData c2_weekly) (int 2) 0 = Some 1
   \<and> earliestAllowable utc c2_dates = day 181
   \<and> js_lt (c2_dti ! 1) (p_entryThreshold c2_params) \<and> js_gt (c2_dti ! 1) (c2_dti ! (1 - 1))
   \<and> \<not> js_ge (c2_dates ! 1) (day 181)
   \<and> activeTrade (bt_loop utc c2_params c2_dates c2_prices c2_dti c2_weekly (Suc 1)) = None
   \<and> js_lt (c2_dti ! 2) (p_entryThreshold c2_params) \<and> js_gt (c2_dti ! 2) (c2_dti ! (2 - 1))
   \<and> p_enable7DayDTI c2_params \<and> js_index (sevenDayDTI c2_weekly) (1 - 1) \<noteq> Null
   \<and> js_gt (toNumber (js_index (daily7DayDTI c2_weekly) 2)) (toNumber (js_index (sevenDayDTI c2_weekly) (1 - 1)))
   \<and> completedTrades (bt_loop utc c2_params c2_dates c2_prices c2_dti c2_weekly (Suc 1)) = []
   \<and> js_ge (c2_dates ! 2) (day 181)
   \<and> map_option (\<lambda>t. (bt_entryDate t, bt_entryPrice t, bt_holdingDays t, bt_currentPlPercent t))
        (activeTrade (bt_loop utc c2_params c2_dates c2_prices c2_dti c2_weekly (Suc 2)))
      = Some (day 181, Fin 100, Fin 0, Fin 0)"
proof -
  have a1: "activeTrade (bt_loop utc c2_params c2_dates c2_prices c2_dti c2_weekly 1) = None"
    by (simp add: bt_loop_def bt_init_def)
  have fp1: "findPeriod (sevenDayData c2_weekly) (int 1) 0 = Some 1"
    by (simp add: c2_weekly_def)
  have fp2: "findPeriod (sevenDayData c2_weekly) (int 2) 0 = Some 1"
    by (simp add: c2_weekly_def)
  have per1: "Some 1 =
      (if \<exists>p<length (sevenDayData c2_weekly).
            startIndex (sevenDayData c2_weekly ! p) \<le> int 1 \<and> int 1 \<le> endIndex (sevenDayData c2_weekly ! p)
       then Some (LEAST p. p < length (sevenDayData c2_weekly) \<and>
                    startIndex (sevenDayData c2_weekly ! p) \<le> int 1 \<and>
                    int 1 \<le> endIndex (sevenDayData c2_weekly ! p))
       else None)"
    using fp1 by (simp only: findPeriod_first [of "sevenDayData c2_weekly" "int 1" 0] add_0)
  have per2: "Some 1 =
      (if \<exists>p<length (sevenDayData c2_weekly).
            startIndex (sevenDayData c2_weekly ! p) \<le> int 2 \<and> int 2 \<le> endIndex (sevenDayData c2_weekly ! p)
       then Some (LEAST p. p < length (sevenDayData c2_weekly) \<and>
                    startIndex (sevenDayData c2_weekly ! p) \<le> int 2 \<and>
                    int 2 \<le> endIndex (sevenDayData c2_weekly ! p))
       else None)"
    using fp2 by (simp only: findPeriod_first [of "sevenDayData c2_weekly" "int 2" 0] add_0)
  have ea: "earliestAllowable utc c2_dates = day 181"
    by code_simp
  have bnd: "day 181 =
      (case firstDateOf c2_dates of
         Fin first \<Rightarrow>
           (let ms = \<lfloor>first\<rfloor>;
                localTime = ms + utc ms True;
                day = localTime div msPerDay;
                timeInDay = localTime mod msPerDay;
                (y, m, d) = civil_from_days day;
                mo = (m - 1) + 6;
                newDay = days_from_civil (y + mo div 12) (mo mod 12 + 1) 1 + d - 1;
                newDate = newDay * msPerDay + timeInDay
            in timeClip (newDate - utc newDate False))
       | _ \<Rightarrow> NaN)"
    using ea by (simp only: earliestAllowable_unfold)
  have c1: "js_lt (c2_dti ! 1) (p_entryThreshold c2_params) \<and> js_gt (c2_dti ! 1) (c2_dti ! (1 - 1))"
    by (simp add: c2_dti_def c2_params_def js_gt_def)
  have c2: "js_lt (c2_dti ! 2) (p_entryThreshold c2_params) \<and> js_gt (c2_dti ! 2) (c2_dti ! (2 - 1))"
    by (simp add: c2_dti_def c2_params_def js_gt_def)
  have early: "\<not> js_ge (c2_dates ! 1) (day 181)"
    by (simp add: c2_dates_def day_def js_ge_def msPerDay_def)
  have late: "js_ge (c2_dates ! 2) (day 181)"
    by (simp add: c2_dates_def day_def js_ge_def msPerDay_def)
  have on: "p_enable7DayDTI c2_params \<and> js_index (sevenDayDTI c2_weekly) (1 - 1) \<noteq> Null"
    by (simp add: c2_params_def c2_weekly_def js_index_def)
  have wk: "js_gt (toNumber (js_index (daily7DayDTI c2_weekly) 2))
      (toNumber (js_index (sevenDayDTI c2_weekly) (1 - 1)))"
    by (simp add: c2_weekly_def js_index_def js_gt_def)
  note step1 = C2_entry_rule [where i = 1 and tz = utc and ps = c2_params and dates = c2_dates
      and prices = c2_prices and dti = c2_dti and w = c2_weekly and period = "Some 1"
      and boundary = "day 181", OF _ refl refl a1 per1 bnd]
  have a2: "activeTrade (bt_loop utc c2_params c2_dates c2_prices c2_dti c2_weekly (Suc 1)) = None"
    using step1 early by simp
  have done1: "completedTrades (bt_loop utc c2_params c2_dates c2_prices c2_dti c2_weekly (Suc 1)) = []"
    using step1 by (simp add: bt_loop_def bt_init_def)
  have two: "Suc 1 = 2" by simp
  have a2': "activeTrade (bt_loop utc c2_params c2_dates c2_prices c2_dti c2_weekly 2) = None"
    using a2 by (simp only: two)
  have done2: "completedTrades (bt_loop utc c2_params c2_dates c2_prices c2_dti c2_weekly 2) = []"
    using done1 by (simp only: two)
  note step2 = C2_entry_rule [where i = 2 and tz = utc and ps = c2_params and dates = c2_dates
      and prices = c2_prices and dti = c2_dti and w = c2_weekly and period = "Some 1"
      and boundary = "day 181", OF _ refl refl a2' per2 bnd]
  have opened: "activeTrade (bt_loop utc c2_params c2_dates c2_prices c2_dti c2_weekly (Suc 2)) \<noteq> None"
    using step2 c2 on wk done2 late by simp
  then obtain t where t: "activeTrade (bt_loop utc c2_params c2_dates c2_prices c2_dti c2_weekly (Suc 2)) = Some t"
    by blast
  have fields: "bt_entryDate t = c2_dates ! 2 \<and> bt_entryPrice t = c2_prices ! 2 \<and>
      bt_holdingDays t = Fin 0 \<and> bt_currentPlPercent t = Fin 0"
    using step2 t by simp
  have vals: "c2_dates ! 2 = day 181 \<and> c2_prices ! 2 = Fin 100"
    by (simp add: c2_dates_def c2_prices_def)
  show ?thesis
    using a1 fp1 fp2 ea c1 early a2 c2 on wk done1 late t fields vals by simp
qed

text \<open>
  The claim as stated fails in both directions. With no value (\<open>null\<close>) for the preceding
  period the code applies no weekly condition and opens a trade on day 181, although a
  preceding period exists and neither the current period's value nor the day's projected
  value is above it. With the current period's value (\<open>- 20\<close>) above the preceding one
  (\<open>- 30\<close>) and all other conditions met, the code opens no trade when the value projected
  on the day (\<open>- 40\<close>) is not above the preceding period's: the code compares
  \<open>daily7DayDTI[i]\<close>, not the period's own value.
\<close>

theorem C2_counterexample:
  "p_enable7DayDTI c2_params
   \<and> findPeriod (sevenDayData c2_weekly_null) 2 0 = Some 1
   \<and> js_index (sevenDayDTI c2_weekly_null) 0 = Null
   \<and> \<not> js_gt (toNumber (js_index (sevenDayDTI c2_weekly_null) 1))
              (toNumber (js_index (sevenDayDTI c2_weekly_null) 0))
   \<and> \<not> js_gt (toNumber (js_index (daily7DayDTI c2_weekly_null) 2))
              (toNumber (js_index (sevenDayDTI c2_weekly_null) 0))
   \<and> activeTrade (bt_loop utc c2_params c2_dates c2_prices c2_dti c2_weekly_null 2) = None
   \<and> activeTrade (bt_loop utc c2_params c2_dates c2_prices c2_dti c2_weekly_null 3) \<noteq> None
   \<and> findPeriod (sevenDayData c2_weekly_daily) 2 0 = Some 1
   \<and> js_gt (toNumber (js_index (sevenDayDTI c2_weekly_daily) 1))
            (toNumber (js_index (sevenDayDTI c2_weekly_daily) 0))
   \<and> js_lt (c2_dti ! 2) (p_entryThreshold c2_params)
   \<and> js_gt (c2_dti ! 2) (c2_dti ! 1)
   \<and> completedTrades (bt_loop utc c2_params c2_dates c2_prices c2_dti c2_weekly_daily 2) = []
   \<and> js_ge (c2_dates ! 2) (earliestAllowable utc c2_dates)
   \<and> activeTrade (bt_loop utc c2_params c2_dates c2_prices c2_dti c2_weekly_daily 2) = None
   \<and> activeTrade (bt_loop utc c2_params c2_dates c2_prices c2_dti c2_weekly_daily 3) = None"
  by code_simp

subsection \<open>Input validation\<close>







subsection \<open>Sharpe ratio\<close>

lemma dailyReturnRate_c7: "dailyReturnRate c7_trade = Fin 10"
  by (simp add: dailyReturnRate_def c7_trade_def c1_trade_def day_def msPerDay_def js_sub_def
      js_max_def Let_def)

lemma daily_risk_free_small: "((1 + 2 / 100) powr (1 / 365) - 1) * 100 < (10::real)"
proof -
  have "(1 + 2 / 100) powr (1 / 365) \<le> (1 + 2 / 100) powr (1::real)"
    by (rule powr_mono) simp_all
  then show ?thesis by simp
qed

lemma getSharpeRatio_empty: "closedTrades L = [] \<Longrightarrow> getSharpeRatio rf L = Fin 0"
  by (simp add: getSharpeRatio_def)

text \<open>
  C7. \<open>getSharpeRatio\<close> should return 0 whenever the computed value is not a finite number,
  the zero-variance case included. With a single closed trade (ten percent gained over one
  day) the mean daily rate is 10, the deviation is 0 and the daily risk-free rate is below
  10, so the quotient is \<open>Infinity\<close>; the guard tests \<open>isNaN\<close> only, and the function returns
  \<open>Infinity\<close>.
\<close>

theorem C7_sharpe_single_trade_infinite:
  "getSharpeRatio (Fin (2 / 100)) c7_ledger = PInf"
proof -
  have pos: "0 < 10 - ((1 + 2 / 100) powr (1 / 365) - 1) * (100::real)"
    using daily_risk_free_small by simp
  have sq: "0 < sqrt (252::real)" by simp
  show ?thesis
    using pos sq
    by (simp add: getSharpeRatio_def c7_ledger_def dailyReturnRate_c7 js_sub_def Let_def
        js_inf_of_sign_def)
qed

subsection \<open>Current value of a new trade\<close>

lemma heap_addNewTrade:
  "heap (snd (addNewTrade e d L)) (nextRef L) = newTradeOf e (generatedId e 0) d"
  by (simp add: addNewTrade_def Let_def saveTradestoStorage_def)

lemma updateTradeStatus_currentValue:
  "status (heap L r) = Some ''active'' \<Longrightarrow>
   currentValue (heap (updateTradeStatus e r L) r) =
     Number (ieee_mul (toNumber (shares (heap L r))) (toNumber (currentPrice (heap L r))))
   \<and> shares (heap (updateTradeStatus e r L) r) = shares (heap L r)
   \<and> currentPrice (heap (updateTradeStatus e r L) r) = currentPrice (heap L r)"
  by (simp add: updateTradeStatus_def Let_def heap_closeTradeAutomatically)

text \<open>
  C10. \<open>addNewTrade\<close> stores \<open>shares = investmentAmount / entryPrice\<close> (the rounded
  quotient \<open>q\<close>) and \<open>currentValue = floor q * entryPrice\<close>, with \<open>currentPrice = entryPrice\<close>.
  The new trade's \<open>currentValue\<close> is therefore \<open>shares * currentPrice\<close> exactly when the
  products \<open>floor q * entryPrice\<close> and \<open>q * entryPrice\<close> round to the same double, as they do
  when \<open>q\<close> is an integer. \<open>updateTradeStatus\<close> on the new trade leaves \<open>shares\<close> and
  \<open>currentPrice\<close> as they are and sets \<open>currentValue = shares * currentPrice\<close>. This holds
  for every argument, a zero or non-numeric price included.
\<close>

theorem C10_fresh_trade_current_value:
  assumes L1: "L1 = snd (addNewTrade e d L)"
    and r: "r = nextRef L"
    and L2: "L2 = updateTradeStatus e2 r L1"
    and q: "q = ieee_div (toNumber (td_investmentAmount d)) (toNumber (td_entryPrice d))"
  shows "status (heap L1 r) = Some ''active''
       \<and> shares (heap L1 r) = Number q
       \<and> currentPrice (heap L1 r) = td_entryPrice d
       \<and> currentValue (heap L1 r) = Number (ieee_mul (js_floor q) (toNumber (td_entryPrice d)))
       \<and> (currentValue (heap L1 r) =
            Number (ieee_mul (toNumber (shares (heap L1 r))) (toNumber (currentPrice (heap L1 r)))))
          = (ieee_mul (js_floor q) (toNumber (td_entryPrice d)) = ieee_mul q (toNumber (td_entryPrice d)))
       \<and> (js_floor q = q \<longrightarrow>
            currentValue (heap L1 r) =
              Number (ieee_mul (toNumber (shares (heap L1 r))) (toNumber (currentPrice (heap L1 r)))))
       \<and> shares (heap L2 r) = shares (heap L1 r)
       \<and> currentPrice (heap L2 r) = currentPrice (heap L1 r)
       \<and> currentValue (heap L2 r) =
           Number (ieee_mul (toNumber (shares (heap L2 r))) (toNumber (currentPrice (heap L2 r))))"
proof -
  have fresh: "heap L1 r = newTradeOf e (generatedId e 0) d"
    by (simp add: L1 r heap_addNewTrade)
  have act: "status (heap L1 r) = Some ''active''"
    by (simp add: fresh newTradeOf_def)
  have sh: "shares (heap L1 r) = Number q"
    by (simp add: fresh newTradeOf_def q)
  have cp: "currentPrice (heap L1 r) = td_entryPrice d"
    by (simp add: fresh newTradeOf_def)
  have cv: "currentValue (heap L1 r) = Number (ieee_mul (js_floor q) (toNumber (td_entryPrice d)))"
    by (simp add: fresh newTradeOf_def q)
  have upd: "currentValue (heap L2 r) =
       Number (ieee_mul (toNumber (shares (heap L1 r))) (toNumber (currentPrice (heap L1 r))))
     \<and> shares (heap L2 r) = shares (heap L1 r)
     \<and> currentPrice (heap L2 r) = currentPrice (heap L1 r)"
    using updateTradeStatus_currentValue [OF act, of e2] by (simp add: L2)
  show ?thesis
    using act upd by (auto simp: sh cp cv)
qed

text \<open>
  Two creations on an empty ledger, at price 30: an amount of 90 buys 3 shares and the
  new trade's \<open>currentValue\<close> is \<open>shares * currentPrice = 90\<close>; an amount of 100 buys
  \<open>3.33...\<close> shares, the new trade's \<open>currentValue\<close> is 90 while \<open>shares * currentPrice\<close>
  is 100, and \<open>updateTradeStatus\<close> makes it 100.
\<close>

theorem C10_fresh_trade_current_value_witness:
  "js_floor (ieee_div (toNumber (td_investmentAmount c10_whole_data)) (toNumber (td_entryPrice c10_whole_data)))
     = ieee_div (toNumber (td_investmentAmount c10_whole_data)) (toNumber (td_entryPrice c10_whole_data))
   \<and> shares (heap (snd (addNewTrade c1_env c10_whole_data emptyLedger)) 0) = Number (Fin 3)
   \<and> currentValue (heap (snd (addNewTrade c1_env c10_whole_data emptyLedger)) 0) = Number (Fin 90)
   \<and> currentValue (heap (snd (addNewTrade c1_env c10_whole_data emptyLedger)) 0) =
       Number (ieee_mul (toNumber (shares (heap (snd (addNewTrade c1_env c10_whole_data emptyLedger)) 0)))
                        (toNumber (currentPrice (heap (snd (addNewTrade c1_env c10_whole_data emptyLedger)) 0))))
   \<and> shares (heap (snd (addNewTrade c1_env c10_data emptyLedger)) 0) = Number (roundDouble (100 / 30))
   \<and> currentValue (heap (snd (addNewTrade c1_env c10_data emptyLedger)) 0) = Number (Fin 90)
   \<and> ieee_mul (toNumber (shares (heap (snd (addNewTrade c1_env c10_data emptyLedger)) 0)))
               (toNumber (currentPrice (heap (snd (addNewTrade c1_env c10_data emptyLedger)) 0))) = Fin 100
   \<and> currentValue (heap (updateTradeStatus c1_env 0 (snd (addNewTrade c1_env c10_data emptyLedger))) 0)
       = Number (Fin 100)"
proof -
  have r: "0 = nextRef emptyLedger" by (simp add: emptyLedger_def)
  have qw: "Fin 3 = ieee_div (toNumber (td_investmentAmount c10_whole_data))
      (toNumber (td_entryPrice c10_whole_data))"
    by code_simp
  have qf: "roundDouble (100 / 30) = ieee_div (toNumber (td_investmentAmount c10_data))
      (toNumber (td_entryPrice c10_data))"
    by (simp add: c10_data_def ieee_div_def)
  have pw: "toNumber (td_entryPrice c10_whole_data) = Fin 30"
    by (simp add: c10_whole_data_def c10_data_def)
  have pf: "toNumber (td_entryPrice c10_data) = Fin 30"
    by (simp add: c10_data_def)
  have m1: "ieee_mul (Fin 3) (Fin 30) = Fin 90" by code_simp
  have m2: "ieee_mul (js_floor (roundDouble (100 / 30))) (Fin 30) = Fin 90" by code_simp
  have m3: "ieee_mul (roundDouble (100 / 30)) (Fin 30) = Fin 100" by code_simp
  have whole_number: "js_floor (Fin 3) = Fin 3" by simp
  note whole = C10_fresh_trade_current_value [OF refl r refl qw, of c1_env c1_env]
  note frac = C10_fresh_trade_current_value [OF refl r refl qf, of c1_env c1_env]
  from whole have w1: "shares (heap (snd (addNewTrade c1_env c10_whole_data emptyLedger)) 0) = Number (Fin 3)"
    by blast
  from whole have "currentValue (heap (snd (addNewTrade c1_env c10_whole_data emptyLedger)) 0)
      = Number (ieee_mul (js_floor (Fin 3)) (toNumber (td_entryPrice c10_whole_data)))"
    by blast
  then have w2: "currentValue (heap (snd (addNewTrade c1_env c10_whole_data emptyLedger)) 0)
      = Number (Fin 90)"
    by (simp only: whole_number pw m1)
  from whole whole_number have w3: "currentValue (heap (snd (addNewTrade c1_env c10_whole_data emptyLedger)) 0) =
       Number (ieee_mul (toNumber (shares (heap (snd (addNewTrade c1_env c10_whole_data emptyLedger)) 0)))
                        (toNumber (currentPrice (heap (snd (addNewTrade c1_env c10_whole_data emptyLedger)) 0))))"
    by blast
  from frac have f1: "shares (heap (snd (addNewTrade c1_env c10_data emptyLedger)) 0)
      = Number (roundDouble (100 / 30))"
    by blast
  from frac have "currentValue (heap (snd (addNewTrade c1_env c10_data emptyLedger)) 0)
      = Number (ieee_mul (js_floor (roundDouble (100 / 30))) (toNumber (td_entryPrice c10_data)))"
    by blast
  then have f2: "currentValue (heap (snd (addNewTrade c1_env c10_data emptyLedger)) 0) = Number (Fin 90)"
    by (simp only: pf m2)
  from frac have "currentPrice (heap (snd (addNewTrade c1_env c10_data emptyLedger)) 0)
      = td_entryPrice c10_data"
    by blast
  then have f3: "toNumber (currentPrice (heap (snd (addNewTrade c1_env c10_data emptyLedger)) 0)) = Fin 30"
    by (simp only: pf)
  have f4: "ieee_mul (toNumber (shares (heap (snd (addNewTrade c1_env c10_data emptyLedger)) 0)))
               (toNumber (currentPrice (heap (snd (addNewTrade c1_env c10_data emptyLedger)) 0))) = Fin 100"
    by (simp only: f1 f3 toNumber.simps m3)
  from frac have "currentValue (heap (updateTradeStatus c1_env 0 (snd (addNewTrade c1_env c10_data emptyLedger))) 0)
      = Number (ieee_mul
          (toNumber (shares (heap (updateTradeStatus c1_env 0 (snd (addNewTrade c1_env c10_data emptyLedger))) 0)))
          (toNumber (currentPrice (heap (updateTradeStatus c1_env 0 (snd (addNewTrade c1_env c10_data emptyLedger))) 0))))"
      and "shares (heap (updateTradeStatus c1_env 0 (snd (addNewTrade c1_env c10_data emptyLedger))) 0)
        = shares (heap (snd (addNewTrade c1_env c10_data emptyLedger)) 0)"
      and "currentPrice (heap (updateTradeStatus c1_env 0 (snd (addNewTrade c1_env c10_data emptyLedger))) 0)
        = currentPrice (heap (snd (addNewTrade c1_env c10_data emptyLedger)) 0)"
    by blast+
  then have f5: "currentValue (heap (updateTradeStatus c1_env 0 (snd (addNewTrade c1_env c10_data emptyLedger))) 0)
      = Number (Fin 100)"
    by (simp only: f4)
  have w0: "js_floor (ieee_div (toNumber (td_investmentAmount c10_whole_data)) (toNumber (td_entryPrice c10_whole_data)))
     = ieee_div (toNumber (td_investmentAmount c10_whole_data)) (toNumber (td_entryPrice c10_whole_data))"
    by (simp only: qw [symmetric] whole_number)
  show ?thesis
    using w0 w1 w2 w3 f1 f2 f4 f5 by blast
qed

text \<open>
  An amount of 700 at the price written \<open>0.7\<close>: the quotient is the double
  \<open>1000.0000000000001\<close>, which is not an integer, yet \<open>1000 * 0.7\<close> and
  \<open>1000.0000000000001 * 0.7\<close> both round to 700, so the new trade's \<open>currentValue\<close> already
  is \<open>shares * currentPrice\<close>.
\<close>

theorem C10_counterexample:
  "toNumber (td_entryPrice c10_rounding_data) = Fin (3152519739159347 / 2 ^ 52)
   \<and> shares (heap (snd (addNewTrade c1_env c10_rounding_data emptyLedger)) 0)
       = Number (Fin (1000 + 1 / 2 ^ 43))
   \<and> js_floor (toNumber (shares (heap (snd (addNewTrade c1_env c10_rounding_data emptyLedger)) 0)))
       \<noteq> toNumber (shares (heap (snd (addNewTrade c1_env c10_rounding_data emptyLedger)) 0))
   \<and> currentValue (heap (snd (addNewTrade c1_env c10_rounding_data emptyLedger)) 0) = Number (Fin 700)
   \<and> ieee_mul (toNumber (shares (heap (snd (addNewTrade c1_env c10_rounding_data emptyLedger)) 0)))
               (toNumber (currentPrice (heap (snd (addNewTrade c1_env c10_rounding_data emptyLedger)) 0)))
       = Fin 700"
proof -
  have fresh: "heap (snd (addNewTrade c1_env c10_rounding_data emptyLedger)) 0
      = newTradeOf c1_env (generatedId c1_env 0) c10_rounding_data"
    using heap_addNewTrade [of c1_env c10_rounding_data emptyLedger] by (simp add: emptyLedger_def)
  have rd: "roundDouble (7 / 10) = Fin (3152519739159347 / 2 ^ 52)"
    by code_simp
  have p: "toNumber (td_entryPrice c10_rounding_data) = Fin (3152519739159347 / 2 ^ 52)"
    by (simp add: c10_rounding_data_def rd)
  have a: "toNumber (td_investmentAmount c10_rounding_data) = Fin 700"
    by (simp add: c10_rounding_data_def)
  have q: "ieee_div (Fin 700) (Fin (3152519739159347 / 2 ^ 52)) = Fin (1000 + 1 / 2 ^ 43)"
    by code_simp
  have fl: "js_floor (Fin (1000 + 1 / 2 ^ 43)) = Fin 1000"
    by code_simp
  have m1: "ieee_mul (Fin 1000) (Fin (3152519739159347 / 2 ^ 52)) = Fin 700"
    by code_simp
  have m2: "ieee_mul (Fin (1000 + 1 / 2 ^ 43)) (Fin (3152519739159347 / 2 ^ 52)) = Fin 700"
    by code_simp
  have ne: "Fin 1000 \<noteq> Fin (1000 + 1 / 2 ^ 43)"
    by simp
  have sh: "shares (heap (snd (addNewTrade c1_env c10_rounding_data emptyLedger)) 0)
       = Number (Fin (1000 + 1 / 2 ^ 43))"
    unfolding fresh by (simp only: newTradeOf_def trade.simps p a q)
  have cp: "toNumber (currentPrice (heap (snd (addNewTrade c1_env c10_rounding_data emptyLedger)) 0))
       = Fin (3152519739159347 / 2 ^ 52)"
    unfolding fresh by (simp only: newTradeOf_def trade.simps p)
  have cv: "currentValue (heap (snd (addNewTrade c1_env c10_rounding_data emptyLedger)) 0) = Number (Fin 700)"
    unfolding fresh by (simp only: newTradeOf_def trade.simps p a q fl m1)
  show ?thesis
    using ne by (simp only: p sh cp cv toNumber.simps fl m2 simp_thms)
qed

subsection \<open>P/L of closed trades\<close>

lemma closeTrade_heap:
  assumes "find (\<lambda>x. trade_id (heap L x) = tradeId) (activeTrades L) = Some r"
  shows "heap (snd (closeTrade e tradeId x reason newNotes L)) r =
     (heap L r)\<lparr>status := Some ''closed'', exitDate := DateObj (clock e), exitPrice := x,
       exitReason := Some reason,
       trade_notes := (if str_truthy newNotes then newNotes else trade_notes (heap L r)),
       plPercent := plPercentOf x (entryPrice (heap L r)),
       plValue := plValueOf (shares (heap L r)) x (entryPrice (heap L r))\<rparr>
     \<and> r \<in> set (closedTrades (snd (closeTrade e tradeId x reason newNotes L)))"
  using assms by (simp add: closeTrade_def Let_def heap_saveTradestoStorage saveTradestoStorage_def set_js_sort)

lemma plValueOf_finite:
  "plValueOf (Number (Fin s)) (Number (Fin x)) (Number (Fin p)) = Number (Fin (s * (x - p)))"
  by (simp add: plValueOf_def js_sub_def algebra_simps)

lemma plPercentOf_finite:
  "p \<noteq> 0 \<Longrightarrow> plPercentOf (Number (Fin x)) (Number (Fin p)) = Number (Fin ((x - p) / p * 100))"
  by (simp add: plPercentOf_def js_sub_def)

lemma prepareTrade_keeps_pl:
  "plValue (prepareTrade e t) = plValue t \<and> plPercent (prepareTrade e t) = plPercent t
   \<and> exitPrice (prepareTrade e t) = exitPrice t"
  by (simp add: prepareTrade_def Let_def)

text \<open>
  C4, as the code has it. A trade closed by \<open>closeTradeAutomatically\<close> or by \<open>closeTrade\<close>,
  with finite shares \<open>s\<close>, finite exit price \<open>x\<close> and finite non-zero entry price \<open>p\<close>,
  has \<open>plValue = s * (x - p)\<close> and \<open>plPercent = (x - p) / p * 100\<close> (exactly, in the model's
  arithmetic). \<open>prepareTrade\<close> does not compute the two fields: an imported trade keeps the
  \<open>plValue\<close> and \<open>plPercent\<close> its document gives it.
\<close>

theorem C4_closed_trade_pl:
  assumes entry: "entryPrice (heap L r) = Number (Fin p)"
    and held: "shares (heap L r) = Number (Fin s)"
    and nonzero: "p \<noteq> 0"
    and auto: "La = closeTradeAutomatically e r reason (Number (Fin x)) L"
    and manual: "Lm = snd (closeTrade e tradeId (Number (Fin x)) reason newNotes L)"
  shows "status (heap La r) = Some ''closed''
       \<and> exitPrice (heap La r) = Number (Fin x)
       \<and> entryPrice (heap La r) = Number (Fin p)
       \<and> shares (heap La r) = Number (Fin s)
       \<and> plValue (heap La r) = Number (Fin (s * (x - p)))
       \<and> plPercent (heap La r) = Number (Fin ((x - p) / p * 100))
       \<and> (find (\<lambda>y. trade_id (heap L y) = tradeId) (activeTrades L) = Some r \<longrightarrow>
            status (heap Lm r) = Some ''closed''
          \<and> r \<in> set (closedTrades Lm)
          \<and> exitPrice (heap Lm r) = Number (Fin x)
          \<and> entryPrice (heap Lm r) = Number (Fin p)
          \<and> shares (heap Lm r) = Number (Fin s)
          \<and> plValue (heap Lm r) = Number (Fin (s * (x - p)))
          \<and> plPercent (heap Lm r) = Number (Fin ((x - p) / p * 100)))
       \<and> plValue (prepareTrade e t) = plValue t
       \<and> plPercent (prepareTrade e t) = plPercent t"
proof -
  have a: "heap La r =
     (heap L r)\<lparr>status := Some ''closed'', exitDate := DateObj (clock e), exitPrice := Number (Fin x),
       exitReason := Some reason, plPercent := Number (Fin ((x - p) / p * 100)),
       plValue := Number (Fin (s * (x - p)))\<rparr>"
    using nonzero
    by (simp add: auto heap_closeTradeAutomatically entry held plValueOf_finite plPercentOf_finite)
  have m: "find (\<lambda>y. trade_id (heap L y) = tradeId) (activeTrades L) = Some r \<Longrightarrow>
     heap Lm r =
     (heap L r)\<lparr>status := Some ''closed'', exitDate := DateObj (clock e), exitPrice := Number (Fin x),
       exitReason := Some reason,
       trade_notes := (if str_truthy newNotes then newNotes else trade_notes (heap L r)),
       plPercent := Number (Fin ((x - p) / p * 100)),
       plValue := Number (Fin (s * (x - p)))\<rparr> \<and> r \<in> set (closedTrades Lm)"
    using nonzero closeTrade_heap [of L tradeId r e "Number (Fin x)" reason newNotes]
    by (simp add: manual entry held plValueOf_finite plPercentOf_finite)
  show ?thesis
    using m by (simp add: a entry held prepareTrade_keeps_pl)
qed

theorem C4_closed_trade_pl_witness:
  "find (\<lambda>y. trade_id (heap c1_ledger y) = Some ''trade_1'') (activeTrades c1_ledger) = Some 0
   \<and> plValue (heap (closeTradeAutomatically c1_env 0 ''Manual'' (Number (Fin 110)) c1_ledger) 0)
       = Number (Fin 100)
   \<and> plPercent (heap (closeTradeAutomatically c1_env 0 ''Manual'' (Number (Fin 110)) c1_ledger) 0)
       = Number (Fin 10)
   \<and> plValue (heap (snd (closeTrade c1_env (Some ''trade_1'') (Number (Fin 110)) ''Manual'' None c1_ledger)) 0)
       = Number (Fin 100)
   \<and> plPercent (heap (snd (closeTrade c1_env (Some ''trade_1'') (Number (Fin 110)) ''Manual'' None c1_ledger)) 0)
       = Number (Fin 10)"
proof -
  have p: "entryPrice (heap c1_ledger 0) = Number (Fin 100)"
    by (simp add: c1_ledger_def c1_trade_def)
  have s: "shares (heap c1_ledger 0) = Number (Fin 10)"
    by (simp add: c1_ledger_def c1_trade_def)
  have f: "find (\<lambda>y. trade_id (heap c1_ledger y) = Some ''trade_1'') (activeTrades c1_ledger) = Some 0"
    by (simp add: c1_ledger_def c1_trade_def)
  have nz: "(100::real) \<noteq> 0" by simp
  show ?thesis
    using C4_closed_trade_pl [where e = c1_env and reason = "''Manual''" and x = 110
        and tradeId = "Some ''trade_1''" and newNotes = None and t = c1_trade,
        OF p s nz refl refl] f
    by simp
qed

text \<open>
  The claim as stated fails for a trade that enters the closed array by import: the
  document's closed trade has 10 shares, entry price 100, exit price 110 and a stored
  \<open>plValue\<close> of 999 and \<open>plPercent\<close> of 50; after a merge import into an empty ledger the
  closed array holds it with these values, while \<open>shares * (exitPrice - entryPrice)\<close> is 100
  and \<open>(exitPrice - entryPrice) / entryPrice * 100\<close> is 10.
\<close>

theorem C4_counterexample:
  "closedTrades (snd (importTradesFromJSON c1_env (Some c4_document) mergeOptions emptyLedger)) = [0]
   \<and> status (heap (snd (importTradesFromJSON c1_env (Some c4_document) mergeOptions emptyLedger)) 0)
       = Some ''closed''
   \<and> shares (heap (snd (importTradesFromJSON c1_env (Some c4_document) mergeOptions emptyLedger)) 0)
       = Number (Fin 10)
   \<and> exitPrice (heap (snd (importTradesFromJSON c1_env (Some c4_document) mergeOptions emptyLedger)) 0)
       = Number (Fin 110)
   \<and> entryPrice (heap (snd (importTradesFromJSON c1_env (Some c4_document) mergeOptions emptyLedger)) 0)
       = Number (Fin 100)
   \<and> plValue (heap (snd (importTradesFromJSON c1_env (Some c4_document) mergeOptions emptyLedger)) 0)
       = Number (Fin 999)
   \<and> plPercent (heap (snd (importTradesFromJSON c1_env (Some c4_document) mergeOptions emptyLedger)) 0)
       = Number (Fin 50)"
  by code_simp

subsection \<open>Simulated trades do not overlap\<close>

lemma bt_inv_init: "bt_inv ds (Suc 0) bt_init"
  by (simp add: bt_inv_def bt_init_def)

lemma closedBy_mono: "closedBy b c \<Longrightarrow> b \<le> b' \<Longrightarrow> closedBy b' c"
  by (auto simp: closedBy_def)

lemma closedBy_precedes: "closedBy b c \<Longrightarrow> b < e \<Longrightarrow> bt_entryDate a = Fin e \<Longrightarrow> precedes c a"
  by (auto simp: closedBy_def precedes_def optNumber_def)

lemma bt_inv_exitStep:
  assumes inv: "bt_inv ds k st" and act: "activeTrade st = Some a"
    and k: "1 \<le> k" "k < length ds" and sorted: "sorted_wrt (<) ds"
  shows "bt_inv ds (Suc k) (exitStep ps (Fin (ds ! k)) p a st)"
proof -
  from inv act obtain j where j: "j < k" "bt_entryDate a = Fin (ds ! j)"
    and open_a: "bt_exitDate a = None"
    and before: "\<forall>c \<in> set (completedTrades st). precedes c a"
    and srt: "sorted_wrt precedes (completedTrades st)"
    and closed: "\<forall>c \<in> set (completedTrades st). closedBy (ds ! (k - 1)) c"
    by (auto simp: bt_inv_def)
  have lt: "ds ! j < ds ! k"
    using sorted j k by (simp add: sorted_wrt_iff_nth_less)
  have le: "ds ! (k - 1) \<le> ds ! k"
    using sorted k sorted_wrt_iff_nth_less [of "(<)" ds] by (cases "k - 1 = k") (auto simp: less_imp_le)
  have closed': "\<forall>c \<in> set (completedTrades st). closedBy (ds ! k) c"
    using closed le closedBy_mono by blast
  have ex: "\<exists>ja<Suc k. ds ! j = ds ! ja"
    using j(1) less_SucI by blast
  show ?thesis
    using j open_a before srt closed' lt ex
    by (auto simp: bt_inv_def exitStep_def Let_def closeSim_def sorted_wrt_append precedes_def
        closedBy_def optNumber_def)
qed

lemma bt_inv_step:
  assumes inv: "bt_inv ds k st"
    and k: "1 \<le> k" "k < length ds" and sorted: "sorted_wrt (<) ds"
  shows "bt_inv ds (Suc k) (bt_step ps (map Fin ds) prices dti w ea k st)"
proof (cases "activeTrade st")
  case (Some a)
  then show ?thesis
    using bt_inv_exitStep [OF inv Some k sorted] k by (simp add: bt_step_def Let_def)
next
  case None
  from inv have srt: "sorted_wrt precedes (completedTrades st)"
    and closed: "\<forall>c \<in> set (completedTrades st). closedBy (ds ! (k - 1)) c"
    by (auto simp: bt_inv_def)
  have lt: "ds ! (k - 1) < ds ! k"
    using sorted k by (simp add: sorted_wrt_iff_nth_less)
  have closed': "\<forall>c \<in> set (completedTrades st). closedBy (ds ! k) c"
    using closed lt closedBy_mono less_imp_le by blast
  have prec: "\<forall>c \<in> set (completedTrades st). \<forall>a. bt_entryDate a = Fin (ds ! k) \<longrightarrow> precedes c a"
    using closed lt closedBy_precedes by blast
  show ?thesis
    using None srt closed' prec k
    by (auto simp: bt_step_def Let_def bt_inv_def newSimTrade_def)
qed

lemma bt_inv_loop:
  assumes sorted: "sorted_wrt (<) ds"
  shows "1 \<le> n \<Longrightarrow> n \<le> length ds \<Longrightarrow> bt_inv ds n (bt_loop tz ps (map Fin ds) prices dti w n)"
proof (induction n)
  case 0
  then show ?case by simp
next
  case (Suc n)
  show ?case
  proof (cases "n = 0")
    case True
    then show ?thesis by (simp add: bt_loop_def bt_inv_init)
  next
    case False
    then have n: "1 \<le> n" "n < length ds" using Suc.prems by simp_all
    have "bt_inv ds n (bt_loop tz ps (map Fin ds) prices dti w n)"
      using Suc.IH n by simp
    then show ?thesis
      using bt_inv_step [OF _ n sorted] n by (simp add: bt_loop_Suc)
  qed
qed

lemma precedes_entry_le:
  assumes "precedes x y" and "closedBy b x"
  shows "js_le (bt_entryDate x) (bt_entryDate y)"
proof -
  from assms(2) obtain e v where x: "bt_entryDate x = Fin e" "bt_exitDate x = Some (Fin v)" "e < v"
    by (auto simp: closedBy_def)
  from assms(1) x have "js_lt (Fin v) (bt_entryDate y)"
    by (simp add: precedes_def optNumber_def)
  then show ?thesis
    using x by (cases "bt_entryDate y") auto
qed

lemma open_precedes_nothing: "bt_exitDate x = None \<Longrightarrow> \<not> precedes x y"
  by (simp add: precedes_def optNumber_def)

lemma bt_inv_result:
  assumes inv: "bt_inv ds k st"
    and trs: "trs = completedTrades st @ (case activeTrade st of None \<Rightarrow> [] | Some a \<Rightarrow> [a])"
  shows "list_all (\<lambda>c. js_lt (bt_entryDate c) (optNumber (bt_exitDate c))) (completedTrades st)
       \<and> (case activeTrade st of None \<Rightarrow> True | Some a \<Rightarrow> bt_exitDate a = None)
       \<and> sorted_wrt precedes trs
       \<and> sorted_wrt (\<lambda>a b. js_le (bt_entryDate a) (bt_entryDate b)) trs"
proof -
  from inv have srt: "sorted_wrt precedes (completedTrades st)"
    and closed: "\<forall>c \<in> set (completedTrades st). closedBy (ds ! (k - 1)) c"
    by (auto simp: bt_inv_def)
  have a: "list_all (\<lambda>c. js_lt (bt_entryDate c) (optNumber (bt_exitDate c))) (completedTrades st)"
    using closed by (auto simp: list_all_iff closedBy_def optNumber_def)
  have b: "case activeTrade st of None \<Rightarrow> True | Some a \<Rightarrow> bt_exitDate a = None"
    using inv by (auto simp: bt_inv_def split: option.splits)
  have c: "sorted_wrt precedes trs"
    using inv srt by (auto simp: trs bt_inv_def sorted_wrt_append split: option.splits)
  have each: "\<forall>x \<in> set trs. closedBy (ds ! (k - 1)) x \<or> bt_exitDate x = None"
    using closed b by (auto simp: trs split: option.splits)
  have d: "sorted_wrt (\<lambda>a b. js_le (bt_entryDate a) (bt_entryDate b)) trs"
  proof (rule sorted_wrt_mono_rel [OF _ c])
    fix x y assume "x \<in> set trs" "y \<in> set trs" "precedes x y"
    then show "js_le (bt_entryDate x) (bt_entryDate y)"
      using each precedes_entry_le open_precedes_nothing by blast
  qed
  show ?thesis using a b c d by simp
qed

text \<open>
  C3. On a series whose dates are valid and strictly increasing, with prices and oscillator
  of the same length, the backtest runs without an error message and its trades, the
  completed ones followed by the active one if there is one, do not overlap: every
  completed trade has an exit date after its entry date, only the active trade has no exit
  date (so at most one trade is open), every trade has left the market before any later
  trade of the sequence enters it, and the entry dates do not decrease along the sequence.
\<close>

theorem C3_no_overlap:
  assumes dates: "dates = map Fin ds"
    and increasing: "sorted_wrt (<) ds"
    and prices: "length prices = length ds"
    and dti: "length dti = length ds"
    and run: "run = backtestWithActiveDetection tz pg (Some dates) (Some prices) (Some dti) (Some w)"
    and trs: "trs = ret_completedTrades run @ (case ret_activeTrade run of None \<Rightarrow> [] | Some a \<Rightarrow> [a])"
  shows "consoleError run = None
       \<and> list_all (\<lambda>c. js_lt (bt_entryDate c) (optNumber (bt_exitDate c))) (ret_completedTrades run)
       \<and> (case ret_activeTrade run of None \<Rightarrow> True | Some a \<Rightarrow> bt_exitDate a = None)
       \<and> sorted_wrt (\<lambda>a b. js_lt (optNumber (bt_exitDate a)) (bt_entryDate b)) trs
       \<and> sorted_wrt (\<lambda>a b. js_le (bt_entryDate a) (bt_entryDate b)) trs"
proof -
  define st where "st = bt_loop tz (readParams pg) dates prices dti w (length dti)"
  have ret: "ret_completedTrades run = completedTrades st" "ret_activeTrade run = activeTrade st"
    "consoleError run = None"
    by (simp_all add: run backtestWithActiveDetection_def st_def dates prices dti Let_def)
  have inv: "bt_inv ds (length ds) st \<or> st = bt_init"
  proof (cases "length ds = 0")
    case True
    then show ?thesis by (simp add: st_def dti bt_loop_def)
  next
    case False
    then have "Suc 0 \<le> length ds" by (cases ds) simp_all
    then show ?thesis
      using bt_inv_loop [OF increasing, where n = "length ds" and tz = tz and ps = "readParams pg"
          and prices = prices and dti = dti and w = w]
      by (simp add: st_def dti dates)
  qed
  have inv': "bt_inv ds (if st = bt_init then Suc 0 else length ds) st"
    using inv bt_inv_init by auto
  have pr: "precedes = (\<lambda>a b. js_lt (optNumber (bt_exitDate a)) (bt_entryDate b))"
    by (simp add: precedes_def fun_eq_iff)
  show ?thesis
    using bt_inv_result [OF inv', of trs] by (simp add: ret trs pr)
qed

theorem C3_no_overlap_witness:
  "sorted_wrt (<) (map (\<lambda>k. real_of_int (k * msPerDay)) [0, 200, 201, 202, 203, 204, 205, 206, 207, 208, 209, 210, 211])
   \<and> map (\<lambda>c. (bt_entryDate c, bt_exitDate c))
        (ret_completedTrades (backtestWithActiveDetection utc ex_page (Some ex_dates) (Some ex_close)
           (Some ex_dti) (Some ex_weekly)))
      = [(day 200, Some (day 201)), (day 202, Some (day 203)), (day 204, Some (day 205)),
         (day 206, Some (day 207)), (day 208, Some (day 209)), (day 210, Some (day 211))]
   \<and> sorted_wrt (\<lambda>a b. js_lt (optNumber (bt_exitDate a)) (bt_entryDate b))
        (ret_completedTrades (backtestWithActiveDetection utc ex_page (Some ex_dates) (Some ex_close)
           (Some ex_dti) (Some ex_weekly)))"
proof -
  have d: "ex_dates = map Fin (map (\<lambda>k. real_of_int (k * msPerDay))
             [0, 200, 201, 202, 203, 204, 205, 206, 207, 208, 209, 210, 211])"
    by (simp add: ex_dates_def day_def)
  have s: "sorted_wrt (<) (map (\<lambda>k. real_of_int (k * msPerDay))
             [0, 200, 201, 202, 203, 204, 205, 206, 207, 208, 209, 210, 211])"
    by (simp add: msPerDay_def)
  have p: "length ex_close = length (map (\<lambda>k. real_of_int (k * msPerDay))
             [0, 200, 201, 202, 203, 204, 205, 206, 207, 208, 209, 210, 211])"
    by (simp add: ex_close_def)
  have t: "length ex_dti = length (map (\<lambda>k. real_of_int (k * msPerDay))
             [0, 200, 201, 202, 203, 204, 205, 206, 207, 208, 209, 210, 211])"
    by (simp add: ex_dti_def)
  have none: "ret_activeTrade (backtestWithActiveDetection utc ex_page (Some ex_dates) (Some ex_close)
           (Some ex_dti) (Some ex_weekly)) = None"
    by code_simp
  have vals: "map (\<lambda>c. (bt_entryDate c, bt_exitDate c))
        (ret_completedTrades (backtestWithActiveDetection utc ex_page (Some ex_dates) (Some ex_close)
           (Some ex_dti) (Some ex_weekly)))
      = [(day 200, Some (day 201)), (day 202, Some (day 203)), (day 204, Some (day 205)),
         (day 206, Some (day 207)), (day 208, Some (day 209)), (day 210, Some (day 211))]"
    by code_simp
  show ?thesis
    using C3_no_overlap [OF d s p t refl refl, where tz = utc and pg = ex_page and w = ex_weekly] s vals
    by (simp add: none)
qed

subsection \<open>Cache invalidation\<close>

text \<open>
  When the write to storage succeeds, each operation that changes the closed trades leaves
  both caches empty (\<open>clearTradeHistory\<close> does so even when the write fails), and a read
  after that computes the series from the current arrays.
\<close>

lemma save_clears: "storageOk e \<Longrightarrow> cacheCleared (snd (saveTradestoStorage e L))"
  by (simp add: saveTradestoStorage_def cacheCleared_def)

lemma closeTradeAutomatically_clears:
  "storageOk e \<Longrightarrow> cacheCleared (closeTradeAutomatically e r reason x L)"
  by (simp add: closeTradeAutomatically_def Let_def save_clears)

lemma closeTrade_clears:
  "storageOk e \<Longrightarrow> fst (closeTrade e tradeId x reason newNotes L) \<Longrightarrow>
   cacheCleared (snd (closeTrade e tradeId x reason newNotes L))"
  by (simp add: closeTrade_def Let_def save_clears split: option.splits)

lemma deleteTrade_clears:
  "storageOk e \<Longrightarrow> fst (deleteTrade e tradeId L) \<Longrightarrow> cacheCleared (snd (deleteTrade e tradeId L))"
  by (simp add: deleteTrade_def Let_def save_clears split: option.splits)

lemma clearTradeHistory_clears: "cacheCleared (snd (clearTradeHistory e L))"
  by (simp add: clearTradeHistory_def Let_def saveTradestoStorage_def cacheCleared_def)

lemma importTradesFromJSON_clears:
  "error (fst (importTradesFromJSON e jsonData opts L)) = None \<Longrightarrow>
   cacheCleared (snd (importTradesFromJSON e jsonData opts L))"
  by (simp add: importTradesFromJSON_def Let_def cacheCleared_def split: prod.splits if_splits)

lemma getEquityCurveData_recomputes:
  "cacheCleared L \<Longrightarrow>
   fst (getEquityCurveData e L) = (if closedTrades L = [] then [] else computeEquityCurve e L)"
  by (simp add: getEquityCurveData_def cacheCleared_def Let_def)

lemma getDrawdownChartData_recomputes:
  "cacheCleared L \<Longrightarrow>
   fst (getDrawdownChartData e L) =
     (if closedTrades L = [] then []
      else snd (fold drawdownStep (computeEquityCurve e L) (Fin 0, [])))"
  by (simp add: getDrawdownChartData_def getEquityCurveData_def cacheCleared_def Let_def)

text \<open>
  C8. Every operation that changes the closed trades should invalidate the cached series.
  The caches are emptied inside \<open>saveTradestoStorage\<close>, after the write; when the write
  throws they are kept. Here the curve is read (and cached) on a ledger with one closed and
  one active trade, then the active trade is closed by hand while the write fails: the
  closed array changes from \<open>[0]\<close> to \<open>[1, 0]\<close>, and the next read returns the curve cached
  before (equities 0, 100, 100) and not the curve of the current arrays (0, 100, 300).
\<close>

theorem C8_stale_cache_after_failed_save:
  "closedTrades c8_cached = [0]
   \<and> closedTrades c8_closed = [1, 0]
   \<and> fst (getEquityCurveData c1_env c8_closed) = fst (getEquityCurveData c1_env c8_ledger)
   \<and> map equity (fst (getEquityCurveData c1_env c8_closed)) = [Fin 0, Fin 100, Fin 100]
   \<and> map equity (computeEquityCurve c1_env c8_closed) = [Fin 0, Fin 100, Fin 300]"
  by code_simp

subsection \<open>Import in merge mode\<close>

lemma map_js_insert:
  "map f (js_insert (\<lambda>a b. c (f a) (f b)) x ys) = js_insert c (f x) (map f ys)"
  by (induction ys) simp_all

lemma map_js_sort: "map f (js_sort (\<lambda>a b. c (f a) (f b)) xs) = js_sort c (map f xs)"
  by (induction xs) (simp_all add: js_sort_def map_js_insert)

lemma importOrder_values: "importOrder L = (\<lambda>a b. importOrderV (heap L a) (heap L b))"
  by (simp add: importOrder_def importOrderV_def fun_eq_iff Let_def)

lemma importOrderV_gt:
  assumes "sortable a" "sortable b"
  shows "js_gt (importOrderV a b) (Fin 0) = (\<not> notAfter a b)"
proof -
  from assms obtain x y where "sortDate a = Fin x" "sortDate b = Fin y"
    by (auto simp: sortable_def split: jsnum.splits)
  then show ?thesis
    by (auto simp: importOrderV_def notAfter_def sortReal_def sortDate_def js_gt_def js_sub_def
        split: if_splits)
qed

lemma notAfter_trans: "notAfter a b \<Longrightarrow> notAfter b c \<Longrightarrow> notAfter a c"
  by (auto simp: notAfter_def)

lemma notAfter_total: "notAfter a b \<or> notAfter b a"
  by (auto simp: notAfter_def)

lemma js_insert_sorted:
  assumes "sortable x" "\<forall>y \<in> set ys. sortable y" "sorted_wrt notAfter ys"
  shows "sorted_wrt notAfter (js_insert importOrderV x ys)"
  using assms
proof (induction ys)
  case Nil
  then show ?case by simp
next
  case (Cons y ys)
  show ?case
  proof (cases "js_gt (importOrderV x y) (Fin 0)")
    case True
    then have yx: "notAfter y x"
      using Cons.prems importOrderV_gt [of x y] notAfter_total [of x y] by auto
    have "sorted_wrt notAfter (js_insert importOrderV x ys)"
      using Cons by simp
    then show ?thesis
      using True yx Cons.prems by (auto simp: set_js_insert)
  next
    case False
    then have xy: "notAfter x y"
      using Cons.prems importOrderV_gt [of x y] by auto
    then show ?thesis
      using False Cons.prems notAfter_trans by auto
  qed
qed

lemma js_sort_sorted:
  "\<forall>y \<in> set xs. sortable y \<Longrightarrow> sorted_wrt notAfter (js_sort importOrderV xs)"
proof (induction xs)
  case Nil
  then show ?case by (simp add: js_sort_def)
next
  case (Cons x xs)
  have "sorted_wrt notAfter (js_insert importOrderV x (js_sort importOrderV xs))"
    using Cons by (intro js_insert_sorted) (simp_all add: set_js_sort)
  then show ?case by (simp add: js_sort_def)
qed

lemma js_sort_of_sorted:
  "\<forall>y \<in> set xs. sortable y \<Longrightarrow> sorted_wrt notAfter xs \<Longrightarrow> js_sort importOrderV xs = xs"
proof (induction xs)
  case Nil
  then show ?case by (simp add: js_sort_def)
next
  case (Cons x xs)
  then have IH: "js_sort importOrderV xs = xs" by simp
  have "js_insert importOrderV x xs = x # xs"
  proof (cases xs)
    case Nil
    then show ?thesis by simp
  next
    case (Cons y ys)
    then have "notAfter x y" using Cons.prems \<open>sorted_wrt notAfter (x # xs)\<close> by simp
    then have "\<not> js_gt (importOrderV x y) (Fin 0)"
      using importOrderV_gt [of x y] \<open>\<forall>y\<in>set (x # xs). sortable y\<close> Cons by simp
    then show ?thesis using Cons by simp
  qed
  then show ?case using IH by (simp add: js_sort_def)
qed

lemma js_sort_idem:
  "\<forall>y \<in> set xs. sortable y \<Longrightarrow>
   js_sort importOrderV (js_sort importOrderV xs) = js_sort importOrderV xs"
  by (rule js_sort_of_sorted) (simp_all add: set_js_sort js_sort_sorted)

lemma findIndex_map: "findIndex (\<lambda>r. P (f r)) xs = findIndex P (map f xs)"
  by (induction xs) simp_all

lemma findIndex_Some:
  "findIndex P xs = Some i \<Longrightarrow> i < length xs \<and> P (xs ! i)"
  by (induction xs arbitrary: i) (auto split: if_splits)

lemma findIndex_None: "findIndex P xs = None \<Longrightarrow> \<forall>x \<in> set xs. \<not> P x"
  by (induction xs) (auto split: if_splits)

lemma findIndex_distinct:
  assumes "distinct (map f xs)" "p \<in> set xs"
  shows "\<exists>i. findIndex (\<lambda>t. f t = f p) xs = Some i \<and> i < length xs \<and> xs ! i = p"
proof (cases "findIndex (\<lambda>t. f t = f p) xs")
  case None
  then show ?thesis using findIndex_None assms(2) by fastforce
next
  case (Some i)
  then have i: "i < length xs" "f (xs ! i) = f p"
    using findIndex_Some by fastforce+
  from assms(2) obtain j where j: "j < length xs" "xs ! j = p"
    by (auto simp: in_set_conv_nth)
  have "i = j"
    using assms(1) i j by (metis distinct_conv_nth length_map nth_map)
  then show ?thesis using Some i j by simp
qed

lemma tradeValues_alloc:
  assumes "refsFresh L"
  shows "map (heap (snd (alloc t L))) (allTrades L) = tradeValues L"
  using assms by (auto simp: alloc_def tradeValues_def refsFresh_def)

lemma mergeStep_values:
  assumes "refsFresh L"
  shows "tradeValues (fst (mergeStep e ex t (L, res))) = mergeVal ex (prepareTrade e t) (tradeValues L)
       \<and> refsFresh (fst (mergeStep e ex t (L, res)))"
proof -
  have push: "tradeValues (pushTrade p L) = tradeValues L @ [p] \<and> refsFresh (pushTrade p L)" for p
    using assms by (auto simp: pushTrade_def alloc_def tradeValues_def refsFresh_def less_Suc_eq)
  have upd: "i < length (allTrades L) \<Longrightarrow>
      tradeValues ((snd (alloc p L))\<lparr>allTrades := (allTrades (snd (alloc p L)))[i := fst (alloc p L)]\<rparr>)
        = (tradeValues L)[i := p]
      \<and> refsFresh ((snd (alloc p L))\<lparr>allTrades := (allTrades (snd (alloc p L)))[i := fst (alloc p L)]\<rparr>)" for i p
    using assms
    by (auto simp: alloc_def tradeValues_def refsFresh_def map_update less_Suc_eq
        dest!: set_update_subset_insert [THEN subsetD] intro!: nth_equalityI)
  define p where "p = prepareTrade e t"
  have fi: "findIndex (\<lambda>r. trade_id (heap L r) = trade_id p) (allTrades L)
            = findIndex (\<lambda>t. trade_id t = trade_id p) (tradeValues L)"
    using findIndex_map [of "\<lambda>t. trade_id t = trade_id p" "heap L" "allTrades L"]
    by (simp add: tradeValues_def)
  show ?thesis
  proof (cases "trade_id p \<in> set ex")
    case False
    then show ?thesis
      using push [of p] by (simp add: mergeStep_def mergeVal_def Let_def p_def)
  next
    case True
    show ?thesis
    proof (cases "findIndex (\<lambda>t. trade_id t = trade_id p) (tradeValues L)")
      case None
      then show ?thesis
        using True push [of p] fi by (simp add: mergeStep_def mergeVal_def Let_def p_def)
    next
      case (Some i)
      then have "i < length (allTrades L)"
        using findIndex_Some [OF Some] by (simp add: tradeValues_def)
      then show ?thesis
        using True Some upd [of i p] fi
        by (simp add: mergeStep_def mergeVal_def Let_def p_def case_prod_beta)
    qed
  qed
qed

lemma fold_mergeStep_values:
  "refsFresh (fst acc) \<Longrightarrow>
   tradeValues (fst (fold (mergeStep e ex) ts acc))
     = fold (\<lambda>t. mergeVal ex (prepareTrade e t)) ts (tradeValues (fst acc))
   \<and> refsFresh (fst (fold (mergeStep e ex) ts acc))"
proof (induction ts arbitrary: acc)
  case Nil
  then show ?case by simp
next
  case (Cons t ts)
  obtain L res where acc: "acc = (L, res)" by (cases acc)
  have step: "tradeValues (fst (mergeStep e ex t acc)) = mergeVal ex (prepareTrade e t) (tradeValues (fst acc))
       \<and> refsFresh (fst (mergeStep e ex t acc))"
    using mergeStep_values [of L e ex t res] Cons.prems by (simp add: acc)
  show ?case
    using Cons.IH [of "mergeStep e ex t acc"] step by simp
qed

lemma mergeVal_step:
  assumes d: "distinct (map trade_id vs)"
    and ex: "set ex \<subseteq> set (map trade_id vs)"
    and new: "trade_id p \<in> set (map trade_id vs) \<longrightarrow> trade_id p \<in> set ex"
  shows "set (map trade_id (mergeVal ex p vs)) = insert (trade_id p) (set (map trade_id vs))
       \<and> distinct (map trade_id (mergeVal ex p vs))
       \<and> p \<in> set (mergeVal ex p vs)
       \<and> (\<forall>v \<in> set vs. trade_id v \<noteq> trade_id p \<longrightarrow> v \<in> set (mergeVal ex p vs))
       \<and> set (mergeVal ex p vs) \<subseteq> insert p (set vs)"
proof (cases "trade_id p \<in> set ex")
  case False
  then have "trade_id p \<notin> set (map trade_id vs)" using new by blast
  then show ?thesis using False d by (auto simp: mergeVal_def)
next
  case True
  then have "trade_id p \<in> set (map trade_id vs)" using ex by blast
  then obtain i where i: "findIndex (\<lambda>t. trade_id t = trade_id p) vs = Some i"
    using findIndex_None [of "\<lambda>t. trade_id t = trade_id p" vs]
    by (cases "findIndex (\<lambda>t. trade_id t = trade_id p) vs") auto
  then have il: "i < length vs" and iid: "trade_id (vs ! i) = trade_id p"
    using findIndex_Some [OF i] by simp_all
  have mv: "mergeVal ex p vs = vs[i := p]"
    using True i by (simp add: mergeVal_def)
  have ids: "map trade_id (vs[i := p]) = map trade_id vs"
    using il iid by (simp add: map_update list_update_same_conv)
  have keep: "\<forall>v \<in> set vs. trade_id v \<noteq> trade_id p \<longrightarrow> v \<in> set (vs[i := p])"
  proof (intro ballI impI)
    fix v assume v: "v \<in> set vs" "trade_id v \<noteq> trade_id p"
    then obtain j where j: "j < length vs" "vs ! j = v" by (auto simp: in_set_conv_nth)
    then have "j \<noteq> i" using v iid by auto
    then have "(vs[i := p]) ! j = v" using j by simp
    then show "v \<in> set (vs[i := p])" using j by (metis length_list_update nth_mem)
  qed
  have sub: "set (vs[i := p]) \<subseteq> insert p (set vs)"
    by (rule set_update_subset_insert)
  show ?thesis
    unfolding mv ids using d keep sub il \<open>trade_id p \<in> set (map trade_id vs)\<close>
    by (auto simp: set_update_memI insert_absorb)
qed

lemma mergeVal_fold:
  assumes "distinct (map trade_id vs)"
    and "set ex \<subseteq> set (map trade_id vs)"
    and "distinct (map trade_id ps)"
    and "\<forall>p \<in> set ps. trade_id p \<in> set (map trade_id vs) \<longrightarrow> trade_id p \<in> set ex"
  shows "distinct (map trade_id (fold (mergeVal ex) ps vs))
       \<and> set ps \<subseteq> set (fold (mergeVal ex) ps vs)
       \<and> (\<forall>v \<in> set vs. trade_id v \<notin> trade_id ` set ps \<longrightarrow> v \<in> set (fold (mergeVal ex) ps vs))
       \<and> set (fold (mergeVal ex) ps vs) \<subseteq> set vs \<union> set ps"
  using assms
proof (induction ps arbitrary: vs)
  case Nil
  then show ?case by simp
next
  case (Cons p ps)
  let ?vs = "mergeVal ex p vs"
  have step: "set (map trade_id ?vs) = insert (trade_id p) (set (map trade_id vs))"
    "distinct (map trade_id ?vs)" "p \<in> set ?vs"
    "\<forall>v \<in> set vs. trade_id v \<noteq> trade_id p \<longrightarrow> v \<in> set ?vs"
    "set ?vs \<subseteq> insert p (set vs)"
    using mergeVal_step [of vs ex p] Cons.prems by simp_all
  have notin: "trade_id p \<notin> trade_id ` set ps" using Cons.prems(3) by auto
  have pre1: "set ex \<subseteq> set (map trade_id ?vs)"
    using Cons.prems(2) step(1) by auto
  have pre2: "distinct (map trade_id ps)"
    using Cons.prems(3) by simp
  have pre3: "\<forall>q \<in> set ps. trade_id q \<in> set (map trade_id ?vs) \<longrightarrow> trade_id q \<in> set ex"
  proof (intro ballI impI)
    fix q assume q: "q \<in> set ps" and inn: "trade_id q \<in> set (map trade_id ?vs)"
    have "trade_id q \<noteq> trade_id p" using notin q by (metis imageI)
    then have "trade_id q \<in> set (map trade_id vs)" using inn step(1) by auto
    then show "trade_id q \<in> set ex" using Cons.prems(4) q by simp
  qed
  note IH = Cons.IH [OF step(2) pre1 pre2 pre3]
  have a: "p \<in> set (fold (mergeVal ex) ps ?vs)"
    using IH step(3) notin by blast
  have b: "\<forall>v \<in> set vs. trade_id v \<notin> trade_id ` set (p # ps) \<longrightarrow> v \<in> set (fold (mergeVal ex) ps ?vs)"
    using IH step(4) by auto
  have c: "set (fold (mergeVal ex) ps ?vs) \<subseteq> set vs \<union> set (p # ps)"
    using IH step(5) by auto
  show ?case using IH a b c by simp
qed

lemma mergeVal_present:
  assumes "distinct (map trade_id vs)" "p \<in> set vs" "trade_id p \<in> set ex"
  shows "mergeVal ex p vs = vs"
proof -
  obtain i where "findIndex (\<lambda>t. trade_id t = trade_id p) vs = Some i" "i < length vs" "vs ! i = p"
    using findIndex_distinct [OF assms(1,2)] by blast
  then show ?thesis using assms(3) list_update_id [of vs i] by (simp add: mergeVal_def)
qed

lemma mergeStep_present:
  assumes fresh: "refsFresh L"
    and d: "distinct (map trade_id (tradeValues L))"
    and p: "prepareTrade e t \<in> set (tradeValues L)"
    and ex: "trade_id (prepareTrade e t) \<in> set ex"
  shows "snd (mergeStep e ex t (L, res)) = res\<lparr>updated := updated res + 1\<rparr>
       \<and> tradeValues (fst (mergeStep e ex t (L, res))) = tradeValues L
       \<and> refsFresh (fst (mergeStep e ex t (L, res)))"
proof -
  obtain i where i: "findIndex (\<lambda>t'. trade_id t' = trade_id (prepareTrade e t)) (tradeValues L) = Some i"
    using findIndex_distinct [OF d p] by blast
  have fi: "findIndex (\<lambda>r. trade_id (heap L r) = trade_id (prepareTrade e t)) (allTrades L) = Some i"
    using i findIndex_map [of "\<lambda>t'. trade_id t' = trade_id (prepareTrade e t)" "heap L" "allTrades L"]
    by (simp add: tradeValues_def)
  have r: "snd (mergeStep e ex t (L, res)) = res\<lparr>updated := updated res + 1\<rparr>"
    using ex fi by (simp add: mergeStep_def Let_def case_prod_beta)
  show ?thesis
    using r mergeStep_values [OF fresh, of e ex t res] mergeVal_present [OF d p ex] by simp
qed

lemma fold_mergeStep_present:
  assumes "refsFresh L"
    and "distinct (map trade_id (tradeValues L))"
    and "\<forall>t \<in> set ts. prepareTrade e t \<in> set (tradeValues L) \<and> trade_id (prepareTrade e t) \<in> set ex"
  shows "snd (fold (mergeStep e ex) ts (L, res)) = res\<lparr>updated := updated res + length ts\<rparr>
       \<and> tradeValues (fst (fold (mergeStep e ex) ts (L, res))) = tradeValues L
       \<and> refsFresh (fst (fold (mergeStep e ex) ts (L, res)))"
  using assms
proof (induction ts arbitrary: L res)
  case Nil
  then show ?case by simp
next
  case (Cons t ts)
  obtain L' res' where s: "mergeStep e ex t (L, res) = (L', res')"
    by (cases "mergeStep e ex t (L, res)")
  have step: "res' = res\<lparr>updated := updated res + 1\<rparr>" "tradeValues L' = tradeValues L" "refsFresh L'"
    using mergeStep_present [of L e t ex res] Cons.prems s by simp_all
  have "snd (fold (mergeStep e ex) ts (L', res')) = res'\<lparr>updated := updated res' + length ts\<rparr>
       \<and> tradeValues (fst (fold (mergeStep e ex) ts (L', res'))) = tradeValues L'
       \<and> refsFresh (fst (fold (mergeStep e ex) ts (L', res')))"
    using Cons.IH [of L' res'] Cons.prems step by simp
  then show ?case
    using s step by simp
qed

lemma distinct_map_js_insert:
  "distinct (map f (js_insert c x ys)) = (f x \<notin> f ` set ys \<and> distinct (map f ys))"
  by (induction ys) (auto simp: set_js_insert)

lemma distinct_map_js_sort: "distinct (map f (js_sort c xs)) = distinct (map f xs)"
  by (induction xs) (simp_all add: js_sort_def distinct_map_js_insert set_js_sort [unfolded js_sort_def])

lemma prepareTrade_id: "trade_id (prepareTrade e t) = trade_id t"
  by (simp add: prepareTrade_def Let_def)

lemma prepareTrade_status: "status (prepareTrade e t) = status t"
  by (simp add: prepareTrade_def Let_def)

lemma prepareTrade_holdingDays:
  "holdingDays (prepareTrade e t) =
     (if status t = Some ''active''
      then Number (js_max (Fin 0) (js_floor (js_div (js_sub (clock e)
             (dateNumber (if isDateStr (entryDate t) then newDate (entryDate t) else entryDate t)))
             (Fin (of_int msPerDay)))))
      else holdingDays t)"
  by (simp add: prepareTrade_def Let_def)

lemma getCurrencySymbol_env:
  "currentStockIndex e2 = currentStockIndex e1 \<Longrightarrow> getCurrencySymbol e2 m = getCurrencySymbol e1 m"
  by (simp add: getCurrencySymbol_def split: option.splits)

lemma prepareTrade_other_fields:
  assumes "currentStockIndex e2 = currentStockIndex e1"
  shows "trade_id (prepareTrade e2 t) = trade_id (prepareTrade e1 t)"
    and "status (prepareTrade e2 t) = status (prepareTrade e1 t)"
    and "stockName (prepareTrade e2 t) = stockName (prepareTrade e1 t)"
    and "symbol (prepareTrade e2 t) = symbol (prepareTrade e1 t)"
    and "entryDate (prepareTrade e2 t) = entryDate (prepareTrade e1 t)"
    and "entryPrice (prepareTrade e2 t) = entryPrice (prepareTrade e1 t)"
    and "currentPrice (prepareTrade e2 t) = currentPrice (prepareTrade e1 t)"
    and "investmentAmount (prepareTrade e2 t) = investmentAmount (prepareTrade e1 t)"
    and "shares (prepareTrade e2 t) = shares (prepareTrade e1 t)"
    and "currentValue (prepareTrade e2 t) = currentValue (prepareTrade e1 t)"
    and "stopLossPrice (prepareTrade e2 t) = stopLossPrice (prepareTrade e1 t)"
    and "targetPrice (prepareTrade e2 t) = targetPrice (prepareTrade e1 t)"
    and "stopLossPercent (prepareTrade e2 t) = stopLossPercent (prepareTrade e1 t)"
    and "takeProfitPercent (prepareTrade e2 t) = takeProfitPercent (prepareTrade e1 t)"
    and "squareOffDate (prepareTrade e2 t) = squareOffDate (prepareTrade e1 t)"
    and "currentPLPercent (prepareTrade e2 t) = currentPLPercent (prepareTrade e1 t)"
    and "currentPLValue (prepareTrade e2 t) = currentPLValue (prepareTrade e1 t)"
    and "currencySymbol (prepareTrade e2 t) = currencySymbol (prepareTrade e1 t)"
    and "trade_notes (prepareTrade e2 t) = trade_notes (prepareTrade e1 t)"
    and "exitDate (prepareTrade e2 t) = exitDate (prepareTrade e1 t)"
    and "exitPrice (prepareTrade e2 t) = exitPrice (prepareTrade e1 t)"
    and "exitReason (prepareTrade e2 t) = exitReason (prepareTrade e1 t)"
    and "plPercent (prepareTrade e2 t) = plPercent (prepareTrade e1 t)"
    and "plValue (prepareTrade e2 t) = plValue (prepareTrade e1 t)"
    and "trade.more (prepareTrade e2 t) = trade.more (prepareTrade e1 t)"
  by (simp_all add: prepareTrade_def Let_def getCurrencySymbol_env [OF assms])

lemma prepareTrade_same:
  assumes index: "currentStockIndex e2 = currentStockIndex e1"
    and days: "holdingDays (prepareTrade e2 t) = holdingDays (prepareTrade e1 t)"
  shows "prepareTrade e2 t = prepareTrade e1 t"
  by (rule trade.equality) (simp_all only: prepareTrade_other_fields [OF index] days)

lemma jsonTrade_entryDate: "entryDate (jsonTrade t) = jsonDate (entryDate t)"
  by (simp add: jsonTrade_def)

lemma jsonTrade_status: "status (jsonTrade t) = status t"
  by (simp add: jsonTrade_def)

lemma prepareTrade_json_same:
  assumes index: "currentStockIndex e2 = currentStockIndex e1"
    and valid: "validSortDate t"
    and days: "status t = Some ''active'' \<longrightarrow> holdingDaysAt e2 t = holdingDaysAt e1 t"
  shows "prepareTrade e2 (jsonTrade t) = prepareTrade e1 (jsonTrade t)"
proof (rule prepareTrade_same [OF index])
  show "holdingDays (prepareTrade e2 (jsonTrade t)) = holdingDays (prepareTrade e1 (jsonTrade t))"
  proof (cases "status t = Some ''active''")
    case True
    then obtain x where x: "entryDate t = DateObj (Fin x)"
      using valid by (auto simp: validSortDate_def split: jsdate.splits jsnum.splits)
    have "holdingDaysAt e2 t = holdingDaysAt e1 t" using days True by simp
    then show ?thesis
      using True
      by (simp add: prepareTrade_holdingDays jsonTrade_entryDate jsonTrade_status x holdingDaysAt_def)
  next
    case False
    then show ?thesis
      by (simp add: prepareTrade_holdingDays jsonTrade_status)
  qed
qed

lemma jsonTrade_id: "trade_id (jsonTrade t) = trade_id t"
  by (simp add: jsonTrade_def)

lemma validSortDate_sortable: "validSortDate t \<Longrightarrow> sortable t"
  by (auto simp: validSortDate_def sortable_def sortDate_def split: jsdate.splits jsnum.splits if_splits)

lemma prepareTrade_entryDate:
  "entryDate (prepareTrade e t) = (if isDateStr (entryDate t) then newDate (entryDate t) else entryDate t)"
  by (simp add: prepareTrade_def Let_def)

lemma prepareTrade_exitDate:
  "exitDate (prepareTrade e t) =
     (if date_truthy (exitDate t) \<and> isDateStr (exitDate t) then newDate (exitDate t) else exitDate t)"
  by (simp add: prepareTrade_def Let_def)

lemma jsonTrade_dates:
  "entryDate (jsonTrade t) = jsonDate (entryDate t) \<and> exitDate (jsonTrade t) = jsonDate (exitDate t)
   \<and> status (jsonTrade t) = status t"
  by (simp add: jsonTrade_def)

lemma roundtrip_date:
  "d = DateObj (Fin x) \<Longrightarrow>
   (if isDateStr (jsonDate d) then newDate (jsonDate d) else jsonDate d) = DateObj (Fin x)
   \<and> (if date_truthy (jsonDate d) \<and> isDateStr (jsonDate d) then newDate (jsonDate d) else jsonDate d)
       = DateObj (Fin x)"
  by simp

lemma validSortDate_roundtrip: "validSortDate t \<Longrightarrow> sortable (prepareTrade e (jsonTrade t))"
proof (cases "status t = Some ''active''")
  case True
  assume "validSortDate t"
  then obtain x where "entryDate t = DateObj (Fin x)"
    using True by (auto simp: validSortDate_def split: jsdate.splits jsnum.splits)
  then show ?thesis
    using True roundtrip_date [of "entryDate t" x]
    by (simp add: sortable_def sortDate_def prepareTrade_status prepareTrade_entryDate jsonTrade_dates)
next
  case False
  assume "validSortDate t"
  then obtain x where "exitDate t = DateObj (Fin x)"
    using False by (auto simp: validSortDate_def split: jsdate.splits jsnum.splits)
  then show ?thesis
    using False roundtrip_date [of "exitDate t" x]
    by (simp add: sortable_def sortDate_def prepareTrade_status prepareTrade_exitDate jsonTrade_dates)
qed

lemma importOrder_fields:
  "importOrder (L\<lparr>activeTrades := a, closedTrades := c\<rparr>) = importOrder L"
  by (simp add: importOrder_def fun_eq_iff)

lemma import_merge:
  assumes valid: "validateImportData (Some d)"
    and merge: "mode opts = ''merge''"
    and ok: "storageOk e"
    and M: "M = fold (mergeStep e (map trade_id (tradeValues L))) (the (trades d))
                  (L, results0 (length (the (trades d))))"
    and R: "R = importTradesFromJSON e (Some d) opts L"
  shows "fst R = snd M"
    and "tradeValues (snd R) = js_sort importOrderV (tradeValues (fst M))"
    and "map (heap (snd R)) (activeTrades (snd R)) = filter tradeIsActive (tradeValues (fst M))"
    and "map (heap (snd R)) (closedTrades (snd R)) = filter (\<lambda>t. \<not> tradeIsActive t) (tradeValues (fst M))"
    and "persisted (snd R) = map jsonTrade (tradeValues (snd R))"
    and "refsFresh (fst M) \<Longrightarrow> refsFresh (snd R)"
proof -
  have ex: "map (\<lambda>r. trade_id (heap L r)) (allTrades L) = map trade_id (tradeValues L)"
    by (simp add: tradeValues_def)
  have m: "importByMode e opts (the (trades d)) (L, results0 (length (the (trades d)))) = M"
    using merge by (simp add: importByMode_def M ex)
  obtain L1 res1 where M1: "M = (L1, res1)" by (cases M)
  have R': "R = (res1,
      L1\<lparr>activeTrades := filter (\<lambda>r. status (heap L1 r) = Some ''active'') (allTrades L1),
          closedTrades := filter (\<lambda>r. status (heap L1 r) \<noteq> Some ''active'') (allTrades L1),
          allTrades := js_sort (importOrder L1) (allTrades L1),
          persisted := map (\<lambda>r. jsonTrade (heap L1 r)) (js_sort (importOrder L1) (allTrades L1)),
          equityCurveData := None, drawdownData := None\<rparr>)"
    using valid ok m M1
    by (simp add: R importTradesFromJSON_def Let_def saveTradestoStorage_def results0_def
        importOrder_fields)
  show "fst R = snd M" by (simp add: R' M1)
  show "tradeValues (snd R) = js_sort importOrderV (tradeValues (fst M))"
    by (simp add: R' M1 tradeValues_def importOrder_values map_js_sort)
  show "map (heap (snd R)) (activeTrades (snd R)) = filter tradeIsActive (tradeValues (fst M))"
    by (simp add: R' M1 tradeValues_def tradeIsActive_def filter_map comp_def)
  show "map (heap (snd R)) (closedTrades (snd R)) = filter (\<lambda>t. \<not> tradeIsActive t) (tradeValues (fst M))"
    by (simp add: R' M1 tradeValues_def tradeIsActive_def filter_map comp_def)
  show "persisted (snd R) = map jsonTrade (tradeValues (snd R))"
    by (simp add: R' M1 tradeValues_def)
  show "refsFresh (fst M) \<Longrightarrow> refsFresh (snd R)"
    by (simp add: R' M1 refsFresh_def set_js_sort)
qed

text \<open>
  C9, as the code has it. Take a ledger whose trades have distinct identifiers and valid
  sort dates and whose export passes the import's validation, and import the export twice
  in merge mode, both writes to storage succeeding, with the page on the same stock index
  and with the same whole-day holding count for every active trade at the two imports
  (the clock may have moved). Then the second import reports every trade as updated, none
  added and no error, and leaves the trade collection as the first import left it, trade
  by trade and in the same order; the stored copy is the same; the active and the closed
  array hold the same trades as after the first import, listed in the collection's order.
\<close>

theorem C9_import_idempotent:
  assumes doc: "doc = exportAllTradesJSON e0 L"
    and valid: "validateImportData (Some doc)"
    and merge: "mode opts = ''merge''"
    and ids: "distinct (map (\<lambda>r. trade_id (heap L r)) (allTrades L))"
    and fresh: "refsFresh L"
    and dates: "list_all (\<lambda>r. validSortDate (heap L r)) (allTrades L)"
    and ok: "storageOk e1" "storageOk e2"
    and index: "currentStockIndex e2 = currentStockIndex e1"
    and days: "list_all (\<lambda>r. status (heap L r) = Some ''active'' \<longrightarrow>
                            holdingDaysAt e2 (heap L r) = holdingDaysAt e1 (heap L r)) (allTrades L)"
    and first: "L1 = snd (importTradesFromJSON e1 (Some doc) opts L)"
    and second: "R2 = importTradesFromJSON e2 (Some doc) opts L1"
  shows "error (fst R2) = None \<and> updated (fst R2) = length (allTrades L) \<and> added (fst R2) = 0
       \<and> errors (fst R2) = 0 \<and> total (fst R2) = length (allTrades L)
       \<and> map (heap (snd R2)) (allTrades (snd R2)) = map (heap L1) (allTrades L1)
       \<and> map (heap (snd R2)) (activeTrades (snd R2))
           = filter (\<lambda>t. status t = Some ''active'') (map (heap L1) (allTrades L1))
       \<and> map (heap (snd R2)) (closedTrades (snd R2))
           = filter (\<lambda>t. status t \<noteq> Some ''active'') (map (heap L1) (allTrades L1))
       \<and> set (map (heap (snd R2)) (activeTrades (snd R2))) = set (map (heap L1) (activeTrades L1))
       \<and> set (map (heap (snd R2)) (closedTrades (snd R2))) = set (map (heap L1) (closedTrades L1))
       \<and> persisted (snd R2) = persisted L1"
proof -
  define ts where "ts = map jsonTrade (tradeValues L)"
  define ps where "ps = map (prepareTrade e1) ts"
  define ex1 where "ex1 = map trade_id (tradeValues L)"
  define M1 where "M1 = fold (mergeStep e1 ex1) ts (L, results0 (length ts))"
  define V1 where "V1 = tradeValues (fst M1)"
  define ex2 where "ex2 = map trade_id (tradeValues L1)"
  define M2 where "M2 = fold (mergeStep e2 ex2) ts (L1, results0 (length ts))"
  have tr: "the (trades doc) = ts"
    by (simp add: doc exportAllTradesJSON_def ts_def tradeValues_def)
  have len: "length ts = length (allTrades L)"
    by (simp add: ts_def tradeValues_def)
  have R1: "importTradesFromJSON e1 (Some doc) opts L = importTradesFromJSON e1 (Some doc) opts L" ..
  note i1 = import_merge [OF valid merge ok(1) _ R1, of M1, unfolded tr, OF M1_def [unfolded ex1_def]]
  have tv1: "tradeValues L1 = js_sort importOrderV V1"
    using i1(2) by (simp add: first V1_def)
  have act1: "map (heap L1) (activeTrades L1) = filter tradeIsActive V1"
    using i1(3) by (simp add: first V1_def)
  have cl1: "map (heap L1) (closedTrades L1) = filter (\<lambda>t. \<not> tradeIsActive t) V1"
    using i1(4) by (simp add: first V1_def)
  have pers1: "persisted L1 = map jsonTrade (tradeValues L1)"
    using i1(5) by (simp add: first)
  have fv: "V1 = fold (mergeVal ex1) ps (tradeValues L) \<and> refsFresh (fst M1)"
    using fold_mergeStep_values [of "(L, results0 (length ts))" e1 ex1 ts] fresh
    by (simp add: V1_def M1_def ps_def fold_map comp_def)
  have fresh1: "refsFresh L1"
    using i1(6) fv by (simp add: first)
  have idsL: "distinct (map trade_id (tradeValues L))"
    using ids by (simp add: tradeValues_def comp_def)
  have idps: "map trade_id ps = map trade_id (tradeValues L)"
    by (simp add: ps_def ts_def prepareTrade_id jsonTrade_id comp_def)
  have mf: "distinct (map trade_id V1) \<and> set ps \<subseteq> set V1 \<and> set V1 \<subseteq> set (tradeValues L) \<union> set ps"
    using mergeVal_fold [of "tradeValues L" ex1 ps] idsL idps fv
    by (simp add: ex1_def)
  have sortL: "\<forall>v \<in> set (tradeValues L). sortable v \<and> sortable (prepareTrade e1 (jsonTrade v))"
    using dates validSortDate_sortable validSortDate_roundtrip
    by (auto simp: tradeValues_def list_all_iff)
  have sortV: "\<forall>y \<in> set V1. sortable y"
    using mf sortL by (auto simp: ps_def ts_def)
  have d1: "distinct (map trade_id (tradeValues L1))"
    using mf by (simp add: tv1 distinct_map_js_sort)
  have s1: "set (tradeValues L1) = set V1"
    by (simp add: tv1 set_js_sort)
  have same: "\<forall>t \<in> set ts. prepareTrade e2 t = prepareTrade e1 t"
    using dates days prepareTrade_json_same [OF index]
    by (auto simp: ts_def tradeValues_def list_all_iff)
  have pres: "\<forall>t \<in> set ts. prepareTrade e2 t \<in> set (tradeValues L1) \<and>
                trade_id (prepareTrade e2 t) \<in> set ex2"
    using mf s1 same by (auto simp: ps_def ex2_def)
  have f2: "snd M2 = (results0 (length ts))\<lparr>updated := updated (results0 (length ts)) + length ts\<rparr>
       \<and> tradeValues (fst M2) = tradeValues L1 \<and> refsFresh (fst M2)"
    unfolding M2_def by (rule fold_mergeStep_present [OF fresh1 d1 pres])
  note i2 = import_merge [OF valid merge ok(2) _ second, of M2, unfolded tr, OF M2_def [unfolded ex2_def]]
  have res2: "fst R2 = (results0 (length ts))\<lparr>updated := length ts\<rparr>"
    using i2(1) f2 by (simp add: results0_def)
  have tv2: "tradeValues (snd R2) = tradeValues L1"
    using i2(2) f2 js_sort_idem [OF sortV] by (simp add: tv1)
  have act2: "map (heap (snd R2)) (activeTrades (snd R2)) = filter tradeIsActive (tradeValues L1)"
    using i2(3) f2 by simp
  have cl2: "map (heap (snd R2)) (closedTrades (snd R2)) = filter (\<lambda>t. \<not> tradeIsActive t) (tradeValues L1)"
    using i2(4) f2 by simp
  have pers2: "persisted (snd R2) = persisted L1"
    using i2(5) by (simp add: tv2 pers1)
  have sa: "set (map (heap (snd R2)) (activeTrades (snd R2))) = set (map (heap L1) (activeTrades L1))"
    unfolding act2 act1 using s1 by auto
  have sc: "set (map (heap (snd R2)) (closedTrades (snd R2))) = set (map (heap L1) (closedTrades L1))"
    unfolding cl2 cl1 using s1 by auto
  have ia: "tradeIsActive = (\<lambda>t. status t = Some ''active'')"
    by (simp add: tradeIsActive_def fun_eq_iff)
  show ?thesis
    using tv2 act2 cl2 sa sc pers2
    by (simp add: res2 results0_def len tradeValues_def ia)
qed

text \<open>
  On the two-trade ledger, with the first import on day 300 and the second an hour later:
  the active trade, entered on day 200, has 100 whole holding days at both.
\<close>

theorem C9_import_idempotent_witness:
  "validateImportData (Some c9_document)
   \<and> distinct (map (\<lambda>r. trade_id (heap c8_ledger r)) (allTrades c8_ledger))
   \<and> clock c9_env_next_hour \<noteq> clock c1_env
   \<and> list_all (\<lambda>r. status (heap c8_ledger r) = Some ''active'' \<longrightarrow>
                    holdingDaysAt c9_env_next_hour (heap c8_ledger r) = holdingDaysAt c1_env (heap c8_ledger r))
        (allTrades c8_ledger)
   \<and> updated (fst (importTradesFromJSON c9_env_next_hour (Some c9_document) mergeOptions c9_first)) = 2
   \<and> added (fst (importTradesFromJSON c9_env_next_hour (Some c9_document) mergeOptions c9_first)) = 0
   \<and> map (heap (snd (importTradesFromJSON c9_env_next_hour (Some c9_document) mergeOptions c9_first)))
         (allTrades (snd (importTradesFromJSON c9_env_next_hour (Some c9_document) mergeOptions c9_first)))
       = map (heap c9_first) (allTrades c9_first)
   \<and> persisted (snd (importTradesFromJSON c9_env_next_hour (Some c9_document) mergeOptions c9_first))
       = persisted c9_first"
proof -
  have valid: "validateImportData (Some c9_document)"
    by code_simp
  have merge: "mode mergeOptions = ''merge''"
    by (simp add: mergeOptions_def)
  have ids: "distinct (map (\<lambda>r. trade_id (heap c8_ledger r)) (allTrades c8_ledger))"
    by code_simp
  have fresh: "refsFresh c8_ledger"
    by (simp add: refsFresh_def c8_ledger_def)
  have dates: "list_all (\<lambda>r. validSortDate (heap c8_ledger r)) (allTrades c8_ledger)"
    by (simp add: validSortDate_def c8_ledger_def c7_trade_def c8_active_def c1_trade_def day_def)
  have ok1: "storageOk c1_env"
    by (simp add: c1_env_def)
  have ok2: "storageOk c9_env_next_hour"
    by (simp add: c9_env_next_hour_def c1_env_def)
  have index: "currentStockIndex c9_env_next_hour = currentStockIndex c1_env"
    by (simp add: c9_env_next_hour_def)
  have later: "clock c9_env_next_hour \<noteq> clock c1_env"
    by (simp add: c9_env_next_hour_def c1_env_def day_def msPerDay_def)
  have days: "list_all (\<lambda>r. status (heap c8_ledger r) = Some ''active'' \<longrightarrow>
                    holdingDaysAt c9_env_next_hour (heap c8_ledger r) = holdingDaysAt c1_env (heap c8_ledger r))
        (allTrades c8_ledger)"
    by code_simp
  have n: "length (allTrades c8_ledger) = 2"
    by (simp add: c8_ledger_def)
  show ?thesis
    using C9_import_idempotent [OF c9_document_def valid merge ids fresh dates ok1 ok2 index days
        c9_first_def refl] valid ids later days n
    by simp
qed

text \<open>
  The claim as stated fails in four ways. (1) \<open>prepareTrade\<close> recomputes an active trade's
  \<open>holdingDays\<close> from \<open>new Date()\<close>: with the first import on day 300 and the second on day
  301, the active trade (entered on day 200) has 100 holding days after the first import
  and 101 after the second. (2) The active array is refilled from the collection before
  the collection is sorted: with two active trades listed oldest first, it lists them
  oldest first after the first import and newest first after the second. (3) The export of
  a ledger whose first trade has no stock name does not pass the import's validation: the
  second import (like the first) is refused, with no trade updated and one error.
  (4) \<open>prepareTrade\<close> takes the currency of a trade without symbol from the index selected
  on the page: \<open>$\<close> after a first import on a US index, \<open>GBP\<close> after a second on a UK
  index.
\<close>

theorem C9_counterexample:
  "map holdingDays (map (heap c9_first) (allTrades c9_first)) = [Number (Fin 100), Number (Fin 0)]
   \<and> map holdingDays (map (heap c9_second_next_day) (allTrades c9_second_next_day))
       = [Number (Fin 101), Number (Fin 0)]
   \<and> map trade_id (map (heap c9_two_active_first) (activeTrades c9_two_active_first))
       = [Some ''trade_1'', Some ''trade_2'']
   \<and> map trade_id (map (heap c9_two_active_second) (activeTrades c9_two_active_second))
       = [Some ''trade_2'', Some ''trade_1'']
   \<and> \<not> validateImportData (Some (exportAllTradesJSON c1_env c9_unnamed))
   \<and> length (allTrades c9_unnamed) = 1
   \<and> updated (fst c9_unnamed_second) = 0
   \<and> errors (fst c9_unnamed_second) = 1
   \<and> error (fst c9_unnamed_second) = Some ''Invalid import data format''
   \<and> map currencySymbol (map (heap c9_no_symbol_first) (allTrades c9_no_symbol_first))
       = [Some ''$'', Some ''$'']
   \<and> map currencySymbol (map (heap c9_no_symbol_second) (allTrades c9_no_symbol_second))
       = [Some ''GBP'', Some ''$'']"
  by code_simp

end
